theory Spec2Isabelle
  imports Main "HOL-Library.Word"
begin

unbundle bit_operations_syntax

section \<open>Go base types and the strconv routines the client relies on\<close>

text \<open>
  A Go \<open>string\<close> and a Go \<open>[]byte\<close> are byte sequences: both are \<open>char list\<close> here
  (an Isabelle \<open>char\<close> is one byte).  Go's \<open>int\<close> is taken as 64 bits wide, the width on
  every platform the client is built for.
\<close>

type_synonym bytes = "char list"

definition byte_of :: "char \<Rightarrow> nat" where
  "byte_of c = of_char c"

datatype num_error = ErrSyntax | ErrRange

text \<open>
  The digit scan shared by \<open>strconv.ParseUint\<close> and \<open>strconv.ParseInt\<close> for an explicit
  base: \<open>0-9\<close> are the values 0 to 9 and a letter of either case is 10 plus its position in
  the alphabet; any other byte is a syntax error.
\<close>

definition digit_val :: "char \<Rightarrow> nat option" where
  "digit_val c =
     (let b = byte_of c in
      if 48 \<le> b \<and> b \<le> 57 then Some (b - 48)
      else if 97 \<le> b \<and> b \<le> 122 then Some (b - 97 + 10)
      else if 65 \<le> b \<and> b \<le> 90 then Some (b - 65 + 10)
      else None)"

text \<open>
  The loop of \<open>ParseUint\<close>: bytes are consumed left to right, the first offending byte
  decides the error (a digit not below the base is a syntax error, a value above
  \<open>maxVal\<close> a range error).  The accumulator never exceeds \<open>maxVal\<close>, so the
  64-bit cutoff test of the library cannot fire before the \<open>maxVal\<close> test does.
\<close>

fun parse_digits :: "nat \<Rightarrow> nat \<Rightarrow> nat \<Rightarrow> string \<Rightarrow> num_error + nat" where
  "parse_digits base maxVal n [] = Inr n"
| "parse_digits base maxVal n (c # cs) =
     (case digit_val c of
        None \<Rightarrow> Inl ErrSyntax
      | Some d \<Rightarrow>
          if base \<le> d then Inl ErrSyntax
          else if maxVal < n * base + d then Inl ErrRange
          else parse_digits base maxVal (n * base + d) cs)"

text \<open>\<open>strconv.ParseUint(s, base, bitSize)\<close> for an explicit base (no prefix, no underscores).\<close>

definition ParseUint :: "string \<Rightarrow> nat \<Rightarrow> nat \<Rightarrow> num_error + nat" where
  "ParseUint s base bitSize =
     (if s = [] then Inl ErrSyntax else parse_digits base (2 ^ bitSize - 1) 0 s)"

text \<open>
  \<open>strconv.ParseInt(s, 10, 64)\<close>: an optional sign, then the unsigned scan on 64 bits;
  the magnitude must fit the signed range.  \<open>strconv.Atoi\<close> is the same function on a
  64-bit \<open>int\<close>.
\<close>

definition ParseInt64 :: "string \<Rightarrow> num_error + int" where
  "ParseInt64 s =
     (if s = [] then Inl ErrSyntax
      else
        let neg = (hd s = CHR ''-'');
            s' = (if hd s = CHR ''+'' \<or> hd s = CHR ''-'' then tl s else s)
        in case ParseUint s' 10 64 of
             Inl e \<Rightarrow> Inl e
           | Inr un \<Rightarrow>
               if \<not> neg \<and> 2 ^ 63 \<le> un then Inl ErrRange
               else if neg \<and> 2 ^ 63 < un then Inl ErrRange
               else Inr (if neg then - int un else int un))"

definition Atoi :: "string \<Rightarrow> num_error + int" where
  "Atoi s = ParseInt64 s"

section \<open>Consumer-group configuration (streamconsumergroup/config.go)\<close>

text \<open>\<open>time.Duration\<close> is a signed 64-bit count of nanoseconds.\<close>

type_synonym Duration = "64 word"

definition Millisecond :: Duration where
  "Millisecond = 1000000"

definition Second :: Duration where
  "Second = 1000 * Millisecond"

datatype SeekShardInputType =
    SeekShardInputTypeTime
  | SeekShardInputTypeSequence
  | SeekShardInputTypeLatest
  | SeekShardInputTypeEarliest

text \<open>
  \<open>common.Backoff\<close> is declared outside the sources at hand; only the three fields that
  \<open>NewConfig\<close> sets are kept.
\<close>

record Backoff =
  Min :: Duration
  Max :: Duration
  Factor :: int

record Config =
  Session_Timeout :: Duration
  Session_HeartbeatInterval :: Duration
  State_ModifyRetry_Attempts :: int
  State_ModifyRetry_Backoff :: Backoff
  SequenceNumber_CommitInterval :: Duration
  SequenceNumber_ShardWaitInterval :: Duration
  Claim_RecordBatchChanSize :: int
  Claim_RecordBatchFetch_Interval :: Duration
  Claim_RecordBatchFetch_NumRecordsInBatch :: int
  Claim_RecordBatchFetch_InitialLocation :: SeekShardInputType
  Claim_GetShardLocationRetry_Attempts :: int
  Claim_GetShardLocationRetry_Backoff :: Backoff

definition NewConfig :: Config where
  "NewConfig =
     \<lparr> Session_Timeout = 10 * Second,
       Session_HeartbeatInterval = 3 * Second,
       State_ModifyRetry_Attempts = 100,
       State_ModifyRetry_Backoff = \<lparr> Min = 50 * Millisecond, Max = 1 * Second, Factor = 4 \<rparr>,
       SequenceNumber_CommitInterval = 10 * Second,
       SequenceNumber_ShardWaitInterval = 1 * Second,
       Claim_RecordBatchChanSize = 100,
       Claim_RecordBatchFetch_Interval = 250 * Millisecond,
       Claim_RecordBatchFetch_NumRecordsInBatch = 10,
       Claim_RecordBatchFetch_InitialLocation = SeekShardInputTypeEarliest,
       Claim_GetShardLocationRetry_Attempts = 100,
       Claim_GetShardLocationRetry_Backoff = \<lparr> Min = 50 * Millisecond, Max = 1 * Second, Factor = 2 \<rparr> \<rparr>"

section \<open>File modes (type FileMode and function mode)\<close>

text \<open>
  \<open>os.FileMode\<close> is a \<open>uint32\<close>; \<open>strconv.ParseUint\<close> returns a \<open>uint64\<close>.  The
  function returns a pair, the mode and the error (\<open>None\<close> for Go's \<open>nil\<close>).
\<close>

type_synonym os_FileMode = "32 word"

definition S_IFMT :: "64 word" where
  "S_IFMT = 0xf000"

definition IP_OFFMASK :: "64 word" where
  "IP_OFFMASK = 0x1fff"

definition mode :: "string \<Rightarrow> os_FileMode \<times> num_error option" where
  "mode v3ioFileMode =
     (let sFileMode = v3ioFileMode in
      if take 1 sFileMode = ''0'' then
        (case ParseUint sFileMode 8 32 of
           Inl err \<Rightarrow> (ucast S_IFMT, Some err)
         | Inr m \<Rightarrow>
             (let mode64 = (word_of_nat m :: 64 word);
                  golangFileMode = push_bit 17 (mode64 AND S_IFMT) OR (mode64 AND IP_OFFMASK)
              in (ucast golangFileMode, None)))
      else
        (case ParseUint sFileMode 10 32 of
           Inl err \<Rightarrow> (ucast S_IFMT, Some err)
         | Inr m \<Rightarrow> (ucast (word_of_nat m :: 64 word), None)))"

text \<open>The bits of \<open>os.FileMode\<close> that the claims read, as package \<open>os\<close> defines them.\<close>

definition ModeDir :: os_FileMode where "ModeDir = push_bit 31 1"
definition ModeSymlink :: os_FileMode where "ModeSymlink = push_bit 27 1"
definition ModeDevice :: os_FileMode where "ModeDevice = push_bit 26 1"
definition ModeNamedPipe :: os_FileMode where "ModeNamedPipe = push_bit 25 1"
definition ModeSocket :: os_FileMode where "ModeSocket = push_bit 24 1"
definition ModeCharDevice :: os_FileMode where "ModeCharDevice = push_bit 21 1"
definition ModeIrregular :: os_FileMode where "ModeIrregular = push_bit 19 1"

definition ModeType :: os_FileMode where
  "ModeType = ModeDir OR ModeSymlink OR ModeNamedPipe OR ModeSocket OR ModeDevice
                OR ModeCharDevice OR ModeIrregular"

definition ModePerm :: os_FileMode where
  "ModePerm = 0x1ff"

definition IsRegular :: "os_FileMode \<Rightarrow> bool" where
  "IsRegular m = (m AND ModeType = 0)"

definition IsDir :: "os_FileMode \<Rightarrow> bool" where
  "IsDir m = (m AND ModeDir \<noteq> 0)"

definition Perm :: "os_FileMode \<Rightarrow> os_FileMode" where
  "Perm m = m AND ModePerm"

text \<open>
  The decoding as the specification words it, on natural numbers: the value of a digit
  string in a base, and the remapping "shift the top nibble left by 17, keep the low 13
  bits" of a 16-bit POSIX mode, stored in the 32 bits of a file mode.
\<close>

definition digit_below :: "nat \<Rightarrow> char \<Rightarrow> bool" where
  "digit_below base c = (case digit_val c of None \<Rightarrow> False | Some d \<Rightarrow> d < base)"

definition horner :: "nat \<Rightarrow> nat \<Rightarrow> char \<Rightarrow> nat" where
  "horner base n c = n * base + the (digit_val c)"

definition digits_value :: "nat \<Rightarrow> string \<Rightarrow> nat" where
  "digits_value base s = foldl (horner base) 0 s"

definition is_numeral :: "nat \<Rightarrow> string \<Rightarrow> bool" where
  "is_numeral base s = (s \<noteq> [] \<and> list_all (digit_below base) s)"

definition spec_remap :: "nat \<Rightarrow> nat" where
  "spec_remap v = ((v div 2 ^ 12 mod 16) * 2 ^ (12 + 17) + v mod 2 ^ 13) mod 2 ^ 32"

section \<open>Package strings: Split and TrimSpace\<close>

text \<open>
  \<open>strings.Split(s, sep)\<close> for a non-empty separator (the client only splits on the
  literals \<open>and\<close>, \<open>==\<close> and \<open>:\<close>): the occurrences of \<open>sep\<close> are found left to right
  without overlap, and the pieces between them are returned, one more than there are
  occurrences.  \<open>skip\<close> counts the bytes of a separator just matched that are still to be
  passed over; \<open>acc\<close> is the piece being collected, reversed.
\<close>

fun split_aux :: "string \<Rightarrow> nat \<Rightarrow> string \<Rightarrow> string \<Rightarrow> string list" where
  "split_aux sep skip acc [] = [rev acc]"
| "split_aux sep (Suc k) acc (c # cs) = split_aux sep k acc cs"
| "split_aux sep 0 acc (c # cs) =
     (if take (length sep) (c # cs) = sep
      then rev acc # split_aux sep (length sep - 1) [] cs
      else split_aux sep 0 (c # acc) cs)"

definition Split :: "string \<Rightarrow> string \<Rightarrow> string list" where
  "Split s sep = split_aux sep 0 [] s"

text \<open>
  \<open>strings.TrimSpace\<close> removes leading and trailing white space as \<open>unicode.IsSpace\<close>
  defines it.  On bytes these are the six ASCII characters tab, line feed, vertical tab,
  form feed, carriage return and space, and the UTF-8 encodings of U+0085, U+00A0, U+1680,
  U+2000 to U+200A, U+2028, U+2029, U+202F, U+205F and U+3000.  A byte sequence that is not
  valid UTF-8 decodes to the replacement rune, which is no space, so trimming stops there.
\<close>

definition space_runes :: "string list" where
  "space_runes =
     [[CHR 0x09], [CHR 0x0A], [CHR 0x0B], [CHR 0x0C], [CHR 0x0D], [CHR 0x20],
      [CHR 0xC2, CHR 0x85], [CHR 0xC2, CHR 0xA0],
      [CHR 0xE1, CHR 0x9A, CHR 0x80],
      [CHR 0xE2, CHR 0x80, CHR 0x80], [CHR 0xE2, CHR 0x80, CHR 0x81],
      [CHR 0xE2, CHR 0x80, CHR 0x82], [CHR 0xE2, CHR 0x80, CHR 0x83],
      [CHR 0xE2, CHR 0x80, CHR 0x84], [CHR 0xE2, CHR 0x80, CHR 0x85],
      [CHR 0xE2, CHR 0x80, CHR 0x86], [CHR 0xE2, CHR 0x80, CHR 0x87],
      [CHR 0xE2, CHR 0x80, CHR 0x88], [CHR 0xE2, CHR 0x80, CHR 0x89],
      [CHR 0xE2, CHR 0x80, CHR 0x8A],
      [CHR 0xE2, CHR 0x80, CHR 0xA8], [CHR 0xE2, CHR 0x80, CHR 0xA9],
      [CHR 0xE2, CHR 0x80, CHR 0xAF], [CHR 0xE2, CHR 0x81, CHR 0x9F],
      [CHR 0xE3, CHR 0x80, CHR 0x80]]"

function strip_prefixes :: "string list \<Rightarrow> string \<Rightarrow> string" where
  "strip_prefixes qs s =
     (case find (\<lambda>q. q \<noteq> [] \<and> take (length q) s = q) qs of
        None \<Rightarrow> s
      | Some q \<Rightarrow> strip_prefixes qs (drop (length q) s))"
  by pat_completeness auto
termination
proof (relation "measure (\<lambda>(qs, s). length s)")
  show "wf (measure (\<lambda>(qs, s). length s))" by simp
next
  fix qs :: "string list" and s q :: string
  assume "find (\<lambda>q. q \<noteq> [] \<and> take (length q) s = q) qs = Some q"
  then have "q \<noteq> []" and "take (length q) s = q"
    by (auto simp: find_Some_iff)
  then have "s \<noteq> []" by auto
  with \<open>q \<noteq> []\<close> show "((qs, drop (length q) s), (qs, s)) \<in> measure (\<lambda>(qs, s). length s)"
    by simp
qed

declare strip_prefixes.simps [simp del]

lemma strip_prefixes_None:
  "find (\<lambda>q. q \<noteq> [] \<and> take (length q) s = q) qs = None \<Longrightarrow> strip_prefixes qs s = s"
  by (subst strip_prefixes.simps) simp

lemma strip_prefixes_Some:
  "find (\<lambda>q. q \<noteq> [] \<and> take (length q) s = q) qs = Some q \<Longrightarrow>
   strip_prefixes qs s = strip_prefixes qs (drop (length q) s)"
  by (subst strip_prefixes.simps) simp

definition TrimSpace :: "string \<Rightarrow> string" where
  "TrimSpace s =
     rev (strip_prefixes (map rev space_runes) (rev (strip_prefixes space_runes s)))"

section \<open>The modification-time header (parseMtimeHeader, trimAndParseInt)\<close>

definition trimAndParseInt :: "string \<Rightarrow> num_error + int" where
  "trimAndParseInt str = Atoi (TrimSpace str)"

text \<open>
  The outcomes of \<open>parseMtimeHeader\<close>: the pair of numbers, one of its two errors, or the
  run-time panic of the index expression \<open>mtimeParts[1]\<close> when an expression has no
  \<open>==\<close> in it.
\<close>

datatype mtime_error = AtoiError num_error | UnexpectedSymbol string

datatype mtime_result = MtimeOk int int | MtimeErr mtime_error | MtimePanic

text \<open>The loop over the expressions, with the two variables it assigns.\<close>

fun parseMtimeExpressions :: "int \<Rightarrow> int \<Rightarrow> string list \<Rightarrow> mtime_result" where
  "parseMtimeExpressions mtimeSecs mtimeNSecs [] = MtimeOk mtimeSecs mtimeNSecs"
| "parseMtimeExpressions mtimeSecs mtimeNSecs (expression # rest) =
     (let mtimeParts = Split expression ''=='';
          mtimeType = TrimSpace (hd mtimeParts)
      in if mtimeType = ''__mtime_secs'' then
           (if length mtimeParts < 2 then MtimePanic
            else case trimAndParseInt (mtimeParts ! 1) of
                   Inl err \<Rightarrow> MtimeErr (AtoiError err)
                 | Inr v \<Rightarrow> parseMtimeExpressions v mtimeNSecs rest)
         else if mtimeType = ''__mtime_nsecs'' then
           (if length mtimeParts < 2 then MtimePanic
            else case trimAndParseInt (mtimeParts ! 1) of
                   Inl err \<Rightarrow> MtimeErr (AtoiError err)
                 | Inr v \<Rightarrow> parseMtimeExpressions mtimeSecs v rest)
         else MtimeErr (UnexpectedSymbol mtimeType))"

text \<open>
  \<open>parseMtimeHeader\<close> on the value of the \<open>X-v3io-transaction-verifier\<close> header (the
  empty string when the response has no such header).
\<close>

definition parseMtimeHeaderValue :: "string \<Rightarrow> mtime_result" where
  "parseMtimeHeaderValue mtimeHeader = parseMtimeExpressions 0 0 (Split mtimeHeader ''and'')"

text \<open>
  The shape the specification gives for the header, \<open>__mtime_secs==<n> and __mtime_nsecs==<n>\<close>
  with \<open><n>\<close> a decimal numeral, as a test on strings.
\<close>

definition literal_mtime_shape :: "string \<Rightarrow> bool" where
  "literal_mtime_shape h =
     (case Split h '' and '' of
        [a, b] \<Rightarrow>
          take 14 a = ''__mtime_secs=='' \<and> is_numeral 10 (drop 14 a)
          \<and> take 15 b = ''__mtime_nsecs=='' \<and> is_numeral 10 (drop 15 b)
      | _ \<Rightarrow> False)"

text \<open>
  The name of an expression is its piece before the first \<open>==\<close>, trimmed; the loop knows
  two names.
\<close>

definition known_mtime_name :: "string \<Rightarrow> bool" where
  "known_mtime_name expression =
     (let mtimeParts = Split expression ''=='';
          mtimeType = TrimSpace (hd mtimeParts)
      in mtimeType = ''__mtime_secs'' \<or> mtimeType = ''__mtime_nsecs'')"

text \<open>
  What the loop demands of one expression: a known name, a second piece (the text
  between the first \<open>==\<close> and the next one, or the end), and that \<open>strconv.Atoi\<close>
  succeeds on that piece after trimming.  Pieces after the second are never read.
\<close>

definition mtime_expression_ok :: "string \<Rightarrow> bool" where
  "mtime_expression_ok expression =
     (let mtimeParts = Split expression ''=='' in
        known_mtime_name expression
        \<and> 2 \<le> length mtimeParts
        \<and> (case trimAndParseInt (mtimeParts ! 1) of Inl _ \<Rightarrow> False | Inr _ \<Rightarrow> True))"

section \<open>Package path: Clean, Join, Split and Dir\<close>

text \<open>
  The elements of a slash-separated path: the maximal runs of bytes other than \<open>/\<close>.
  \<open>acc\<close> is the element being collected, reversed.
\<close>

fun elements_aux :: "string \<Rightarrow> string \<Rightarrow> string list" where
  "elements_aux acc [] = (if acc = [] then [] else [rev acc])"
| "elements_aux acc (c # cs) =
     (if c = CHR ''/'' then
        (if acc = [] then elements_aux [] cs else rev acc # elements_aux [] cs)
      else elements_aux (c # acc) cs)"

definition elements :: "string \<Rightarrow> string list" where
  "elements p = elements_aux [] p"

text \<open>
  One step of \<open>path.Clean\<close> on the output built so far (kept reversed, last element
  first): a \<open>.\<close> element is dropped; a \<open>..\<close> element removes the element before it if
  there is one that is not itself \<open>..\<close>, is dropped at the root of a rooted path, and is
  kept at the front of a relative path; any other element is appended.
\<close>

definition clean_step :: "bool \<Rightarrow> string list \<Rightarrow> string \<Rightarrow> string list" where
  "clean_step rooted out e =
     (if e = ''.'' then out
      else if e = ''..'' then
        (case out of
           [] \<Rightarrow> if rooted then [] else [''..'']
         | x # xs \<Rightarrow> if x \<noteq> ''..'' then xs else if rooted then out else e # out)
      else e # out)"

fun join_slash :: "string list \<Rightarrow> string" where
  "join_slash [] = []"
| "join_slash [e] = e"
| "join_slash (e # es) = e @ ''/'' @ join_slash es"

definition path_Clean :: "string \<Rightarrow> string" where
  "path_Clean p =
     (if p = [] then ''.''
      else
        let rooted = (hd p = CHR ''/'');
            out = rev (foldl (clean_step rooted) [] (elements p))
        in if rooted then ''/'' @ join_slash out
           else if out = [] then ''.'' else join_slash out)"

text \<open>
  \<open>path.Join\<close>: leading empty elements are skipped, the rest is joined with slashes
  and cleaned; if every element is empty the result is the empty string.
\<close>

fun join_buf :: "string \<Rightarrow> string list \<Rightarrow> string" where
  "join_buf buf [] = buf"
| "join_buf buf (e # es) =
     (if buf \<noteq> [] \<or> e \<noteq> [] then
        join_buf ((if buf \<noteq> [] then buf @ ''/'' else buf) @ e) es
      else join_buf buf es)"

definition path_Join :: "string list \<Rightarrow> string" where
  "path_Join elem = (if concat elem = [] then [] else path_Clean (join_buf [] elem))"

text \<open>
  \<open>path.Split\<close> cuts after the last slash; \<open>path.Dir\<close> cleans the first half.
\<close>

definition path_Split :: "string \<Rightarrow> string \<times> string" where
  "path_Split p =
     (rev (dropWhile (\<lambda>c. c \<noteq> CHR ''/'') (rev p)),
      rev (takeWhile (\<lambda>c. c \<noteq> CHR ''/'') (rev p)))"

definition path_Dir :: "string \<Rightarrow> string" where
  "path_Dir p = path_Clean (fst (path_Split p))"

definition HasSuffix :: "string \<Rightarrow> string \<Rightarrow> bool" where
  "HasSuffix s suffix =
     (length suffix \<le> length s \<and> drop (length s - length suffix) s = suffix)"

definition HasPrefix :: "string \<Rightarrow> string \<Rightarrow> bool" where
  "HasPrefix s pre = (take (length pre) s = pre)"

text \<open>
  \<open>strings.Replace(s, old, new, -1)\<close> for a one-byte \<open>old\<close>, and
  \<open>strings.Join(elems, sep)\<close>.
\<close>

definition Replace :: "string \<Rightarrow> char \<Rightarrow> string \<Rightarrow> string" where
  "Replace s old new = concat (map (\<lambda>c. if c = old then new else [c]) s)"

fun Join :: "string list \<Rightarrow> string \<Rightarrow> string" where
  "Join [] sep = []"
| "Join [e] sep = e"
| "Join (e # es) sep = e @ sep @ Join es sep"

section \<open>Data-plane input, HTTP messages, errors\<close>

record DataPlaneInput =
  URL :: string
  ContainerName :: string
  AuthenticationToken :: string
  AccessKey :: string
  MtimeSec :: string
  MtimeNsec :: string
  Timeout :: Duration
  IncludeResponseInError :: bool

text \<open>
  A parsed URL.  \<open>url.Parse\<close> belongs to the standard library and is a parameter of the
  model (see \<open>stdlib\<close> below); of its result only the path and the raw query are
  rewritten by the client, the remaining components are kept as the parser left them.
\<close>

record url =
  Endpoint :: string
  Path :: string
  RawQuery :: string

record HTTPRequest =
  RequestURI :: url
  Method :: string
  RequestHeader :: "(string \<times> string) list"
  RequestBody :: bytes

record HTTPResponse =
  StatusCode :: int
  Header :: "(string \<times> string) list"
  Body :: bytes

text \<open>
  The errors of the transport: the sentinel \<open>fasthttp.ErrConnectionClosed\<close>, and any
  other error (time-out, refused connection, ...), named by its text.
\<close>

datatype transport_error = ErrConnectionClosed | ErrTransportOther string

text \<open>
  The errors that the client returns.  The text of a status error (which quotes the
  response and the sanitised request) is left out; a run-time panic of the Go code is
  recorded as \<open>RuntimePanic\<close>.
\<close>

datatype error =
    ErrEmptyContainerName
  | ErrParseURL string
  | ErrTransport transport_error
  | ErrorWithStatusCode int
  | ErrorWithStatusCodeAndResponse int HTTPResponse
  | ErrUnexpectedAttributeType string
  | ErrAttributeTypeMismatch string string
  | ErrNotIntOrFloat string string
  | ErrTimestampFormat string
  | ErrNumber num_error
  | ErrBase64
  | ErrUnexpectedSymbol string
  | ErrJSONMarshal
  | ErrJSONUnmarshal
  | ErrXMLUnmarshal
  | ErrCapnp string
  | RuntimePanic string

section \<open>Formatting integers, base64, time stamps\<close>

definition digit_char :: "nat \<Rightarrow> char" where
  "digit_char d = char_of (48 + d)"

function digits10 :: "nat \<Rightarrow> string" where
  "digits10 n = (if n < 10 then [digit_char n] else digits10 (n div 10) @ [digit_char (n mod 10)])"
  by pat_completeness auto
termination
  by (relation "measure id") auto

declare digits10.simps [simp del]

text \<open>\<open>strconv.FormatUint(v, 10)\<close> and \<open>strconv.FormatInt(v, 10)\<close> (also \<open>strconv.Itoa\<close>).\<close>

definition FormatUint :: "nat \<Rightarrow> string" where
  "FormatUint v = digits10 v"

definition FormatInt :: "int \<Rightarrow> string" where
  "FormatInt v = (if v < 0 then CHR ''-'' # digits10 (nat (- v)) else digits10 (nat v))"

text \<open>
  \<open>base64.StdEncoding\<close>: three bytes become four characters of the standard alphabet,
  a last group of one or two bytes is padded with \<open>=\<close>.  Decoding ignores carriage
  returns and line feeds, wants complete, correctly padded groups of four, and (not being
  strict) ignores the unused low bits of a padded group.
\<close>

definition base64_alphabet :: string where
  "base64_alphabet = ''ABCDEFGHIJKLMNOPQRSTUVWXYZabcdefghijklmnopqrstuvwxyz0123456789+/''"

definition b64_char :: "nat \<Rightarrow> char" where
  "b64_char n = base64_alphabet ! n"

fun index_of :: "'a list \<Rightarrow> 'a \<Rightarrow> nat option" where
  "index_of [] x = None"
| "index_of (y # ys) x = (if x = y then Some 0 else map_option Suc (index_of ys x))"

definition b64_val :: "char \<Rightarrow> nat option" where
  "b64_val c = index_of base64_alphabet c"

fun EncodeToString :: "bytes \<Rightarrow> string" where
  "EncodeToString [] = []"
| "EncodeToString [a] =
     (let n = byte_of a * 65536
      in [b64_char (n div 262144), b64_char (n div 4096 mod 64), CHR ''='', CHR ''=''])"
| "EncodeToString [a, b] =
     (let n = byte_of a * 65536 + byte_of b * 256
      in [b64_char (n div 262144), b64_char (n div 4096 mod 64),
          b64_char (n div 64 mod 64), CHR ''=''])"
| "EncodeToString (a # b # c # rest) =
     (let n = byte_of a * 65536 + byte_of b * 256 + byte_of c
      in [b64_char (n div 262144), b64_char (n div 4096 mod 64),
          b64_char (n div 64 mod 64), b64_char (n mod 64)] @ EncodeToString rest)"

definition quantum :: "nat \<Rightarrow> nat \<Rightarrow> nat \<Rightarrow> nat \<Rightarrow> nat" where
  "quantum x y z w = x * 262144 + y * 4096 + z * 64 + w"

fun decode_quanta :: "string \<Rightarrow> bytes option" where
  "decode_quanta [] = Some []"
| "decode_quanta [a, b, c, d] =
     (case (b64_val a, b64_val b) of
        (Some x, Some y) \<Rightarrow>
          if c = CHR ''='' \<and> d = CHR ''='' then
            Some [char_of (quantum x y 0 0 div 65536)]
          else
            (case b64_val c of
               None \<Rightarrow> None
             | Some z \<Rightarrow>
                 if d = CHR ''='' then
                   Some [char_of (quantum x y z 0 div 65536),
                         char_of (quantum x y z 0 div 256 mod 256)]
                 else
                   (case b64_val d of
                      None \<Rightarrow> None
                    | Some w \<Rightarrow>
                        Some [char_of (quantum x y z w div 65536),
                              char_of (quantum x y z w div 256 mod 256),
                              char_of (quantum x y z w mod 256)]))
      | _ \<Rightarrow> None)"
| "decode_quanta (a # b # c # d # rest) =
     (case (b64_val a, b64_val b, b64_val c, b64_val d) of
        (Some x, Some y, Some z, Some w) \<Rightarrow>
          (case decode_quanta rest of
             None \<Rightarrow> None
           | Some bs \<Rightarrow>
               Some ([char_of (quantum x y z w div 65536),
                      char_of (quantum x y z w div 256 mod 256),
                      char_of (quantum x y z w mod 256)] @ bs))
      | _ \<Rightarrow> None)"
| "decode_quanta _ = None"

definition DecodeString :: "string \<Rightarrow> bytes option" where
  "DecodeString s = decode_quanta (filter (\<lambda>c. c \<noteq> CHR 0x0D \<and> c \<noteq> CHR 0x0A) s)"

text \<open>
  A \<open>time.Time\<close> at nanosecond resolution: its \<open>Unix()\<close> seconds (an \<open>int64\<close>) and its
  \<open>Nanosecond()\<close>, which lies in [0, 999999999] for every value of the type.
  \<open>time.Unix(sec, nsec)\<close> carries nanoseconds outside that range into the seconds; Go's
  integer division truncates towards zero.
\<close>

datatype Time = Time (Unix: "64 word") (Nanosecond: nat)

definition valid_Time :: "Time \<Rightarrow> bool" where
  "valid_Time t = (Nanosecond t < 1000000000)"

definition go_quot :: "int \<Rightarrow> int \<Rightarrow> int" where
  "go_quot a b = (if (a < 0) = (b < 0) then \<bar>a\<bar> div \<bar>b\<bar> else - (\<bar>a\<bar> div \<bar>b\<bar>))"

definition time_Unix :: "int \<Rightarrow> int \<Rightarrow> Time" where
  "time_Unix sec nsec =
     (if nsec < 0 \<or> 1000000000 \<le> nsec then
        let n = go_quot nsec 1000000000;
            sec' = sec + n;
            nsec' = nsec - n * 1000000000
        in if nsec' < 0 then Time (word_of_int (sec' - 1)) (nat (nsec' + 1000000000))
           else Time (word_of_int sec') (nat nsec')
      else Time (word_of_int sec) (nat nsec))"

section \<open>Attribute values and the typed-attribute envelope\<close>

text \<open>
  An attribute value is a Go \<open>interface{}\<close>; the constructors are the dynamic types that
  the type switch of \<open>encodeTypedAttributes\<close> tells apart, and \<open>VUnsupported\<close> stands for
  a value of any other type (with the name of that type).  A \<open>float64\<close> is its IEEE bit
  pattern.  A Go map is an association list whose keys are distinct; a loop over the map
  visits the entries in the order of the list (Go leaves the order open).
\<close>

datatype attr_value =
    VInt "64 word"
  | VUint64 "64 word"
  | VInt64 "64 word"
  | VFloat64 "64 word"
  | VString string
  | VBytes bytes
  | VBool bool
  | VTime Time
  | VUnsupported string

type_synonym Item = "(string \<times> attr_value) list"

text \<open>
  The value under a kind key of the envelope: a string, a boolean, or any other JSON
  value (number, null, array, object).
\<close>

datatype typed_value = TString string | TBool bool | TOther string

type_synonym typed_attributes = "(string \<times> (string \<times> typed_value) list) list"

section \<open>Outputs of the operations\<close>

text \<open>
  The outputs that the standard decoders fill from a response body are kept with the
  fields the client or the claims read; \<open>Content\<close> keeps the key and the mode of an entry.
\<close>

record ContainerInfo =
  ContainerInfo_Name :: string
  ContainerInfo_CreationDate :: string
  ContainerInfo_ID :: int

record GetContainersOutput =
  Results :: "ContainerInfo list"

record GetClusterMDOutput =
  NumberOfVNs :: int

record Content =
  Key :: string
  Mode :: string

record CommonPrefix =
  Prefix :: string
  CommonPrefix_Mode :: string

record GetContainerContentsOutput =
  Name :: string
  GetContainerContents_NextMarker :: string
  MaxKeys :: string
  Contents :: "Content list"
  CommonPrefixes :: "CommonPrefix list"
  IsTruncated :: bool

record GetItemOutput =
  GetItemOutput_Item :: Item

record GetItemsOutput =
  Last :: bool
  NextMarker :: string
  Scattered :: bool
  Items :: "Item list"

record PutItemOutput =
  PutItem_MtimeSecs :: int
  PutItem_MtimeNSecs :: int

record PutItemsOutput =
  Success :: bool
  Errors :: "(string \<times> error) list"

record UpdateItemOutput =
  UpdateItem_MtimeSecs :: int
  UpdateItem_MtimeNSecs :: int

record DescribeStreamOutput =
  DescribeStream_ShardCount :: int
  DescribeStream_RetentionPeriodHours :: int

record SeekShardOutput =
  Location :: string

record PutRecordResult =
  PutRecordResult_SequenceNumber :: "64 word"
  PutRecordResult_ShardID :: int
  ErrorCode :: int
  ErrorMessage :: string

record PutRecordsOutput =
  FailedRecordCount :: int
  PutRecordsOutput_Records :: "PutRecordResult list"

record GetRecordsResult =
  ArrivalTimeSec :: int
  ArrivalTimeNSec :: int
  GetRecordsResult_SequenceNumber :: "64 word"
  GetRecordsResult_ClientInfo :: bytes
  GetRecordsResult_PartitionKey :: string
  GetRecordsResult_Data :: bytes

record GetRecordsOutput =
  NextLocation :: string
  MSecBehindLatest :: int
  RecordsBehindLatest :: int
  GetRecordsOutput_Records :: "GetRecordsResult list"

text \<open>The \<open>Output\<close> field of a response holds a pointer to one of these.\<close>

datatype op_output =
    OutGetContainers GetContainersOutput
  | OutGetClusterMD GetClusterMDOutput
  | OutGetContainerContents GetContainerContentsOutput
  | OutGetItem GetItemOutput
  | OutGetItems GetItemsOutput
  | OutPutItem PutItemOutput
  | OutPutItems PutItemsOutput
  | OutUpdateItem UpdateItemOutput
  | OutDescribeStream DescribeStreamOutput
  | OutSeekShard SeekShardOutput
  | OutPutRecords PutRecordsOutput
  | OutGetRecords GetRecordsOutput

text \<open>
  Modelled from the spec: the declarations of \<open>v3io.Response\<close> and \<open>v3io.Request\<close> are
  not among the sources.  "A Request carries a monotonically increasing 64-bit ID, the
  typed input, an opaque caller context, a response channel, and a submission timestamp.
  A Response carries the ID, the caller context, any error, a parsed output, and
  ownership of the underlying HTTP response buffer."  The caller context is a type
  parameter; \<open>None\<close> is Go's \<open>nil\<close>.
\<close>

record 'c Response =
  HTTPResponse :: "HTTPResponse option"
  Output :: "op_output option"
  ID :: "64 word"
  Error :: "error option"
  Context :: "'c option"

section \<open>Inputs of the operations\<close>

record GetClusterMDInput =
  GetClusterMD_dpi :: DataPlaneInput

record GetContainerContentsInput =
  GetContainerContents_dpi :: DataPlaneInput
  GetContainerContents_Path :: string
  GetAllAttributes :: bool
  DirectoriesOnly :: bool
  GetContainerContents_Limit :: int
  GetContainerContents_Marker :: string

record GetContainersInput =
  GetContainers_dpi :: DataPlaneInput

record GetObjectInput =
  GetObject_dpi :: DataPlaneInput
  GetObject_Path :: string
  GetObject_Offset :: int
  NumBytes :: int
  CtimeSec :: int
  CtimeNsec :: int

record PutObjectInput =
  PutObject_dpi :: DataPlaneInput
  PutObject_Path :: string
  PutObject_Offset :: int
  PutObject_Body :: bytes
  Append :: bool

record DeleteObjectInput =
  DeleteObject_dpi :: DataPlaneInput
  DeleteObject_Path :: string

record DirAttributes =
  DirAttributes_Mode :: int
  UID :: int
  GID :: int
  AtimeSec :: int
  AtimeNSec :: int
  DirAttributes_CtimeSec :: int
  DirAttributes_CtimeNSec :: int
  DirAttributes_MtimeSec :: int
  DirAttributes_MtimeNSec :: int

record UpdateObjectInput =
  UpdateObject_dpi :: DataPlaneInput
  UpdateObject_Path :: string
  UpdateObject_DirAttributes :: "DirAttributes option"

record PutItemInput =
  PutItem_dpi :: DataPlaneInput
  PutItem_Path :: string
  PutItem_Condition :: string
  PutItem_Attributes :: Item
  PutItem_UpdateMode :: string

record PutItemsInput =
  PutItems_dpi :: DataPlaneInput
  PutItems_Path :: string
  PutItems_Condition :: string
  PutItems_Items :: "(string \<times> Item) list"

text \<open>A nil attribute map and a nil expression pointer are \<open>None\<close>.\<close>

record UpdateItemInput =
  UpdateItem_dpi :: DataPlaneInput
  UpdateItem_Path :: string
  UpdateItem_Attributes :: "Item option"
  UpdateItem_Expression :: "string option"
  UpdateItem_Condition :: string
  UpdateItem_UpdateMode :: string

record GetItemInput =
  GetItem_dpi :: DataPlaneInput
  GetItem_Path :: string
  GetItem_AttributeNames :: "string list"

record GetItemsInput =
  GetItems_dpi :: DataPlaneInput
  GetItems_Path :: string
  TableName :: string
  AttributeNames :: "string list"
  Filter :: string
  Marker :: string
  ShardingKey :: string
  Limit :: int
  Segment :: int
  TotalSegments :: int
  SortKeyRangeStart :: string
  SortKeyRangeEnd :: string
  AllowObjectScatter :: string
  ReturnData :: string
  ReturnAllInodes :: bool
  DataMaxSize :: int
  RequestJSONResponse :: bool
  ChokeGetItemsMS :: int

record StreamRecord =
  StreamRecord_ShardID :: "int option"
  StreamRecord_Data :: bytes
  StreamRecord_ClientInfo :: "bytes option"
  StreamRecord_PartitionKey :: string
  StreamRecord_SequenceNumber :: "64 word"

record CreateStreamInput =
  CreateStream_dpi :: DataPlaneInput
  CreateStream_Path :: string
  CreateStream_ShardCount :: int
  CreateStream_RetentionPeriodHours :: int

record CheckPathExistsInput =
  CheckPathExists_dpi :: DataPlaneInput
  CheckPathExists_Path :: string

record DescribeStreamInput =
  DescribeStream_dpi :: DataPlaneInput
  DescribeStream_Path :: string

record DeleteStreamInput =
  DeleteStream_dpi :: DataPlaneInput
  DeleteStream_Path :: string

record PutRecordsInput =
  PutRecords_dpi :: DataPlaneInput
  PutRecords_Path :: string
  PutRecords_Records :: "StreamRecord list"

text \<open>
  The chunk metadata of \<open>PutChunkInput\<close> only travels through \<open>json.Marshal\<close>; the two
  metadata structures are kept as the numbers they hold.
\<close>

record PutChunkInput =
  PutChunk_dpi :: DataPlaneInput
  PutChunk_Path :: string
  PutChunk_ChunkSeqNumber :: int
  PutChunk_Offset :: "64 word"
  PutChunk_Data :: bytes
  ChunksMetadata :: "64 word list list"
  CurrentChunkMetadata :: "64 word list option"

record SeekShardInput =
  SeekShard_dpi :: DataPlaneInput
  SeekShard_Path :: string
  SeekShard_Type :: SeekShardInputType
  StartingSequenceNumber :: "64 word"
  Timestamp :: int

record GetRecordsInput =
  GetRecords_dpi :: DataPlaneInput
  GetRecords_Path :: string
  GetRecords_Location :: string
  GetRecords_Limit :: int

record PutOOSObjectInput =
  PutOOSObject_dpi :: DataPlaneInput
  PutOOSObject_Path :: string
  PutOOSObject_Header :: bytes
  PutOOSObject_Data :: "bytes list"

text \<open>
  The \<open>Input\<close> field of a request is an \<open>interface{}\<close>: a pointer to one of the input
  structures.  These are the twenty types that the asynchronous methods of the context
  hand to \<open>sendRequestToWorker\<close>.
\<close>

datatype op_input =
    InPutObject PutObjectInput
  | InGetObject GetObjectInput
  | InDeleteObject DeleteObjectInput
  | InGetItem GetItemInput
  | InGetItems GetItemsInput
  | InPutItem PutItemInput
  | InPutItems PutItemsInput
  | InUpdateItem UpdateItemInput
  | InCreateStream CreateStreamInput
  | InDescribeStream DescribeStreamInput
  | InDeleteStream DeleteStreamInput
  | InGetRecords GetRecordsInput
  | InPutRecords PutRecordsInput
  | InPutChunk PutChunkInput
  | InSeekShard SeekShardInput
  | InGetContainers GetContainersInput
  | InGetContainerContents GetContainerContentsInput
  | InGetClusterMD GetClusterMDInput
  | InCheckPathExists CheckPathExistsInput
  | InPutOOSObject PutOOSObjectInput

section \<open>The framed binary (capnp) envelope as the capnp library presents it\<close>

text \<open>
  Every accessor of the generated capnp code can fail; \<open>Inl\<close> carries the library's
  error.  The union \<open>ExtAttrValue\<close> has the eight members the decoder knows and possibly
  others (\<open>UnknownWhich\<close>).
\<close>

type_synonym 'a fallible = "string + 'a"

datatype ExtAttrValue =
    Qword "64 word"
  | Uqword "64 word"
  | Blob "bytes fallible"
  | Str "string fallible"
  | Dfloat "64 word"
  | Boolean bool
  | TimeValue "(int \<times> int) fallible"
  | NotExists
  | UnknownWhich string

type_synonym value_list = "ExtAttrValue fallible list"

record capnp_item =
  capnp_Name :: "string fallible"
  capnp_Attrs :: "(int \<times> int) list fallible"

record MetadataPayload =
  KeyMap_Names_Arr :: "string fallible list fallible fallible fallible"
  ValueMap_Values :: "value_list fallible fallible"
  capnp_Items :: "capnp_item fallible list fallible"

record DataPayload =
  DataPayload_ValueMap_Values :: "value_list fallible fallible"

record capnp_message =
  ReadRootMetadataPayload :: "MetadataPayload fallible"
  ReadRootDataPayload :: "DataPayload fallible"

text \<open>The ad hoc structure that the JSON answer of GetItems is decoded into.\<close>

record getItemsResponse =
  getItemsResponse_Items :: "typed_attributes list"
  getItemsResponse_NextMarker :: string
  LastItemIncluded :: string
  getItemsResponse_Scattered :: string

text \<open>A JSON value, for the request bodies that are built as Go maps.\<close>

datatype json =
    JString string
  | JInt int
  | JTyped typed_attributes

section \<open>The transport and the record of the calls made on it\<close>

text \<open>
  One call of the HTTP client is \<open>Do\<close> or \<open>DoTimeout\<close> on a request.  The transport is
  an external collaborator: it is a function from the number of calls made before and the
  call to the outcome, an error or a response.  The state threaded through the client is
  the list of the calls made so far, so that "no network I/O" is "the list is unchanged".
\<close>

text \<open>
  The header tables of the operations (\<open>getItemHeaders\<close> and so on) and the table
  \<open>seekShardsInputTypeToString\<close> are declared outside the sources at hand; they are
  parameters too, reached through their names.
\<close>

datatype header_table =
    getClusterMDHeaders
  | getItemHeaders
  | getItemsHeaders
  | getItemsHeadersCapnp
  | putItemHeaders
  | updateItemHeaders
  | createStreamHeaders
  | describeStreamHeaders
  | seekShardsHeaders
  | putRecordsHeaders
  | putChunkHeaders
  | getRecordsHeaders
  | putOOSObjectHeaders

datatype http_call = Do HTTPRequest | DoTimeout HTTPRequest Duration

type_synonym transport = "nat \<Rightarrow> http_call \<Rightarrow> transport_error + HTTPResponse"

record net =
  calls :: "http_call list"

text \<open>
  The standard-library and third-party routines that the client calls and that are not
  part of it: URL parsing, query escaping, floating-point formatting and parsing (on the
  IEEE bit pattern of a \<open>float64\<close>), the JSON and XML encoders and decoders (\<open>None\<close> is
  a failure; the XML decoder returns what it filled in and whether it succeeded), and the
  capnp frame reader.
\<close>

record stdlib =
  url_Parse :: "string \<Rightarrow> url option"
  url_QueryEscape :: "string \<Rightarrow> string"
  FormatFloat :: "64 word \<Rightarrow> string"
  ParseFloat :: "string \<Rightarrow> num_error + 64 word"
  json_Marshal :: "(string \<times> json) list \<Rightarrow> bytes option"
  json_Marshal_DirAttributes :: "DirAttributes option \<Rightarrow> bytes option"
  json_Marshal_PutChunkInput :: "PutChunkInput \<Rightarrow> bytes option"
  json_Unmarshal_GetClusterMD :: "bytes \<Rightarrow> GetClusterMDOutput option"
  json_Unmarshal_DescribeStream :: "bytes \<Rightarrow> DescribeStreamOutput option"
  json_Unmarshal_SeekShard :: "bytes \<Rightarrow> SeekShardOutput option"
  json_Unmarshal_PutRecords :: "bytes \<Rightarrow> PutRecordsOutput option"
  json_Unmarshal_GetRecords :: "bytes \<Rightarrow> GetRecordsOutput option"
  json_Unmarshal_Item :: "bytes \<Rightarrow> typed_attributes option"
  json_Unmarshal_getItemsResponse :: "bytes \<Rightarrow> getItemsResponse option"
  xml_Unmarshal_GetContainers :: "bytes \<Rightarrow> GetContainersOutput \<times> bool"
  xml_Unmarshal_GetContainerContents :: "bytes \<Rightarrow> GetContainerContentsOutput \<times> bool"
  readAllCapnpMessages :: "bytes \<Rightarrow> capnp_message list"
  headers_of :: "header_table \<Rightarrow> (string \<times> string) list"
  seekShardsInputTypeToString :: "SeekShardInputType \<Rightarrow> string"

text \<open>
  The client context: the HTTP client and the optional connection semaphore (its
  capacity).  Acquiring the semaphore is done on \<open>context.TODO()\<close>, which is never
  cancelled, so the acquisition cannot return an error; waiting for a permit is not
  modelled.
\<close>

record client_context =
  httpClient :: transport
  connSemaphore :: "nat option"
  numWorkers :: nat

section \<open>The typed-attribute codec (encodeTypedAttributes, decodeTypedAttributes)\<close>

definition encode_value :: "stdlib \<Rightarrow> attr_value \<Rightarrow> (string \<times> typed_value) list option" where
  "encode_value L attributeValue =
     (case attributeValue of
        VInt v \<Rightarrow> Some [(''N'', TString (FormatInt (sint v)))]
      | VUint64 v \<Rightarrow> Some [(''N'', TString (FormatUint (unat v)))]
      | VInt64 v \<Rightarrow> Some [(''N'', TString (FormatInt (sint v)))]
      | VFloat64 v \<Rightarrow> Some [(''N'', TString (FormatFloat L v))]
      | VString v \<Rightarrow> Some [(''S'', TString v)]
      | VBytes v \<Rightarrow> Some [(''B'', TString (EncodeToString v))]
      | VBool v \<Rightarrow> Some [(''BOOL'', TBool v)]
      | VTime v \<Rightarrow>
          Some [(''TS'', TString (FormatInt (sint (Unix v)) @ '':''
                                   @ FormatInt (int (Nanosecond v))))]
      | VUnsupported t \<Rightarrow> None)"

fun encodeTypedAttributes :: "stdlib \<Rightarrow> Item \<Rightarrow> error + typed_attributes" where
  "encodeTypedAttributes L [] = Inr []"
| "encodeTypedAttributes L ((attributeName, attributeValue) # rest) =
     (case encode_value L attributeValue of
        None \<Rightarrow> Inl (ErrUnexpectedAttributeType attributeName)
      | Some typed \<Rightarrow>
          (case encodeTypedAttributes L rest of
             Inl err \<Rightarrow> Inl err
           | Inr typedAttributes \<Rightarrow> Inr ((attributeName, typed) # typedAttributes)))"

text \<open>
  Decoding one envelope: the kinds are tried in the order \<open>N\<close>, \<open>S\<close>, \<open>B\<close>, \<open>BOOL\<close>,
  \<open>TS\<close>; an envelope with none of them yields no attribute (\<open>Inr None\<close>).
\<close>

definition decode_value ::
  "stdlib \<Rightarrow> string \<Rightarrow> (string \<times> typed_value) list \<Rightarrow> error + attr_value option" where
  "decode_value L attributeName typedAttributeValue =
     (case map_of typedAttributeValue ''N'' of
        Some value \<Rightarrow>
          (case value of
             TString numberValue \<Rightarrow>
               (case Atoi numberValue of
                  Inr intValue \<Rightarrow> Inr (Some (VInt (word_of_int intValue)))
                | Inl _ \<Rightarrow>
                    (case ParseFloat L numberValue of
                       Inl _ \<Rightarrow> Inl (ErrNotIntOrFloat attributeName numberValue)
                     | Inr floatValue \<Rightarrow> Inr (Some (VFloat64 floatValue))))
           | _ \<Rightarrow> Inl (ErrAttributeTypeMismatch ''N'' attributeName))
      | None \<Rightarrow>
     (case map_of typedAttributeValue ''S'' of
        Some value \<Rightarrow>
          (case value of
             TString stringValue \<Rightarrow> Inr (Some (VString stringValue))
           | _ \<Rightarrow> Inl (ErrAttributeTypeMismatch ''S'' attributeName))
      | None \<Rightarrow>
     (case map_of typedAttributeValue ''B'' of
        Some value \<Rightarrow>
          (case value of
             TString byteSliceValue \<Rightarrow>
               (case DecodeString byteSliceValue of
                  None \<Rightarrow> Inl ErrBase64
                | Some bs \<Rightarrow> Inr (Some (VBytes bs)))
           | _ \<Rightarrow> Inl (ErrAttributeTypeMismatch ''B'' attributeName))
      | None \<Rightarrow>
     (case map_of typedAttributeValue ''BOOL'' of
        Some value \<Rightarrow>
          (case value of
             TBool boolValue \<Rightarrow> Inr (Some (VBool boolValue))
           | _ \<Rightarrow> Inl (ErrAttributeTypeMismatch ''BOOL'' attributeName))
      | None \<Rightarrow>
     (case map_of typedAttributeValue ''TS'' of
        Some value \<Rightarrow>
          (case value of
             TString timestampValue \<Rightarrow>
               (let timeParts = Split timestampValue '':'' in
                if length timeParts \<noteq> 2 then Inl (ErrTimestampFormat timestampValue)
                else
                  (case ParseInt64 (timeParts ! 0) of
                     Inl err \<Rightarrow> Inl (ErrNumber err)
                   | Inr seconds \<Rightarrow>
                       (case ParseInt64 (timeParts ! 1) of
                          Inl err \<Rightarrow> Inl (ErrNumber err)
                        | Inr nanos \<Rightarrow> Inr (Some (VTime (time_Unix seconds nanos))))))
           | _ \<Rightarrow> Inl (ErrAttributeTypeMismatch ''TS'' attributeName))
      | None \<Rightarrow> Inr None)))))"

fun decodeTypedAttributes :: "stdlib \<Rightarrow> typed_attributes \<Rightarrow> error + Item" where
  "decodeTypedAttributes L [] = Inr []"
| "decodeTypedAttributes L ((attributeName, typedAttributeValue) # rest) =
     (case decode_value L attributeName typedAttributeValue of
        Inl err \<Rightarrow> Inl err
      | Inr decoded \<Rightarrow>
          (case decodeTypedAttributes L rest of
             Inl err \<Rightarrow> Inl err
           | Inr attributes \<Rightarrow>
               Inr (case decoded of
                      None \<Rightarrow> attributes
                    | Some v \<Rightarrow> (attributeName, v) # attributes)))"

section \<open>Building the request URI and sending one request (sendRequest)\<close>

definition quote :: string where
  "quote = [CHR 0x22]"

text \<open>
  \<open>HeaderPeek\<close>: the value of a response header, empty when the header is absent.
  The normalisation of header names by the HTTP library is not modelled.
\<close>

definition HeaderPeek :: "HTTPResponse \<Rightarrow> string \<Rightarrow> string" where
  "HeaderPeek r key = (case map_of (Header r) key of None \<Rightarrow> [] | Some v \<Rightarrow> v)"

text \<open>An assignment \<open>m[k] = v\<close> to a Go map.\<close>

fun map_put :: "string \<Rightarrow> 'v \<Rightarrow> (string \<times> 'v) list \<Rightarrow> (string \<times> 'v) list" where
  "map_put k v [] = [(k, v)]"
| "map_put k v ((k', v') # m) = (if k = k' then (k, v) # m else (k', v') # map_put k v m)"

text \<open>A response as \<open>fasthttp.AcquireResponse\<close> hands it out, and \<open>allocateResponse\<close>.\<close>

definition AcquireResponse :: HTTPResponse where
  "AcquireResponse = \<lparr> StatusCode = 200, Header = [], Body = [] \<rparr>"

definition allocateResponse :: "'c Response" where
  "allocateResponse =
     \<lparr> HTTPResponse = Some AcquireResponse, Output = None, ID = 0, Error = None,
       Context = None \<rparr>"

text \<open>The body of a response; \<open>response.Body()\<close> on a response without an HTTP response
  would dereference nil, which no path of the client does.\<close>

definition Response_Body :: "'c Response \<Rightarrow> bytes" where
  "Response_Body response = (case HTTPResponse response of None \<Rightarrow> [] | Some r \<Rightarrow> Body r)"

definition Response_HeaderPeek :: "'c Response \<Rightarrow> string \<Rightarrow> string" where
  "Response_HeaderPeek response key =
     (case HTTPResponse response of None \<Rightarrow> [] | Some r \<Rightarrow> HeaderPeek r key)"

definition buildRequestURI ::
  "stdlib \<Rightarrow> string \<Rightarrow> string \<Rightarrow> string \<Rightarrow> string \<Rightarrow> error + url" where
  "buildRequestURI L urlString containerName query pathStr =
     (case url_Parse L urlString of
        None \<Rightarrow> Inl (ErrParseURL urlString)
      | Some uri \<Rightarrow>
          Inr (uri \<lparr> Path := path_Clean (path_Join [''/'', containerName, pathStr])
                              @ (if HasSuffix pathStr ''/'' then ''/'' else []),
                     RawQuery := Replace query (CHR '' '') ''%20'' \<rparr>))"

text \<open>One call of the HTTP client: the transport answers, the call is recorded.\<close>

definition perform ::
  "client_context \<Rightarrow> http_call \<Rightarrow> net \<Rightarrow> (transport_error + HTTPResponse) \<times> net" where
  "perform c call st = (httpClient c (length (calls st)) call, st \<lparr> calls := calls st @ [call] \<rparr>)"

text \<open>
  The retry loop \<open>for i := 0; i < 8; i++\<close>, with the number of iterations left as the
  first argument and the outcome of the previous attempt as \<open>prev\<close>: the loop leaves as
  soon as an attempt ends with anything but \<open>ErrConnectionClosed\<close>.
\<close>

fun retry ::
  "nat \<Rightarrow> client_context \<Rightarrow> http_call \<Rightarrow> (transport_error + HTTPResponse) \<Rightarrow> net
     \<Rightarrow> (transport_error + HTTPResponse) \<times> net" where
  "retry 0 c call prev st = (prev, st)"
| "retry (Suc k) c call prev st =
     (case perform c call st of
        (r, st') \<Rightarrow> if r \<noteq> Inl ErrConnectionClosed then (r, st') else retry k c call r st')"

text \<open>
  The result of a synchronous operation: the pair that the Go function returns (response
  and error, each possibly nil) and the state of the network afterwards.
\<close>

type_synonym 'c sync_result = "('c Response option \<times> error option) \<times> net"

text \<open>
  The request as \<open>sendRequest\<close> initialises it (URI, method, body, the two
  authentication headers, then the headers of the caller), and the call it is sent with:
  \<open>Do\<close> when the input has no positive time-out, \<open>DoTimeout\<close> otherwise.
\<close>

definition initRequest ::
  "url \<Rightarrow> DataPlaneInput \<Rightarrow> string \<Rightarrow> (string \<times> string) list \<Rightarrow> bytes \<Rightarrow> http_call" where
  "initRequest uri dataPlaneInput method headers body =
     (let request =
            \<lparr> RequestURI = uri, Method = method,
              RequestHeader =
                (if AuthenticationToken dataPlaneInput \<noteq> []
                 then [(''Authorization'', AuthenticationToken dataPlaneInput)] else [])
                @ (if AccessKey dataPlaneInput \<noteq> []
                   then [(''X-v3io-session-key'', AccessKey dataPlaneInput)] else [])
                @ headers,
              RequestBody = body \<rparr>
      in if sint (Timeout dataPlaneInput) \<le> 0 then Do request
         else DoTimeout request (Timeout dataPlaneInput))"

text \<open>
  The error that \<open>sendRequest\<close> returns for an outcome of the retry loop, stated on
  its own for the theorems: a transport error is returned as it is; a status outside
  200..299 is a status error, which carries the response when the input asks for it;
  otherwise there is no error.
\<close>

definition outcome_error :: "DataPlaneInput \<Rightarrow> transport_error + HTTPResponse \<Rightarrow> error option" where
  "outcome_error dataPlaneInput r =
     (case r of
        Inl err \<Rightarrow> Some (ErrTransport err)
      | Inr httpResponse \<Rightarrow>
          let statusCode = StatusCode httpResponse;
              success = (200 \<le> statusCode \<and> statusCode < 300)
          in if \<not> success then
               Some (if IncludeResponseInError dataPlaneInput
                     then ErrorWithStatusCodeAndResponse statusCode httpResponse
                     else ErrorWithStatusCode statusCode)
             else None)"

definition sendRequest ::
  "stdlib \<Rightarrow> client_context \<Rightarrow> DataPlaneInput \<Rightarrow> string \<Rightarrow> string \<Rightarrow> string
     \<Rightarrow> (string \<times> string) list \<Rightarrow> bytes \<Rightarrow> bool \<Rightarrow> net \<Rightarrow> 'c sync_result" where
  "sendRequest L c dataPlaneInput method path query headers body releaseResponse st =
     (if ContainerName dataPlaneInput = [] then ((None, Some ErrEmptyContainerName), st)
      else
        case buildRequestURI L (URL dataPlaneInput) (ContainerName dataPlaneInput) query path of
          Inl err \<Rightarrow> ((None, Some err), st)
        | Inr uri \<Rightarrow>
            (case retry 8 c (initRequest uri dataPlaneInput method headers body)
                    (Inr AcquireResponse) st of
               (Inl err, st') \<Rightarrow> ((None, Some (ErrTransport err)), st')
             | (Inr httpResponse, st') \<Rightarrow>
                 let statusCode = StatusCode httpResponse;
                     success = (200 \<le> statusCode \<and> statusCode < 300)
                 in if \<not> success then
                      ((None,
                        Some (if IncludeResponseInError dataPlaneInput
                              then ErrorWithStatusCodeAndResponse statusCode httpResponse
                              else ErrorWithStatusCode statusCode)), st')
                    else if releaseResponse then ((None, None), st')
                    else ((Some (allocateResponse \<lparr> HTTPResponse := Some httpResponse \<rparr>),
                           None), st')))"

definition extractResponseFromError :: "DataPlaneInput \<Rightarrow> error \<Rightarrow> 'c Response option" where
  "extractResponseFromError dataPlaneInput err =
     (if \<not> IncludeResponseInError dataPlaneInput then None
      else case err of
             ErrorWithStatusCodeAndResponse statusCode httpResponse \<Rightarrow>
               Some (allocateResponse \<lparr> HTTPResponse := Some httpResponse \<rparr>)
           | _ \<Rightarrow> None)"

text \<open>
  The step \<open>response, err := ...; if err != nil { return nil, err }\<close> that most
  operations start with.  When the request was sent without \<open>releaseResponse\<close> a nil
  error comes with a response.
\<close>

definition on_response ::
  "'c sync_result \<Rightarrow> ('c Response \<Rightarrow> net \<Rightarrow> 'c sync_result) \<Rightarrow> 'c sync_result" where
  "on_response r k =
     (case r of
        ((_, Some err), st') \<Rightarrow> ((None, Some err), st')
      | ((Some response, None), st') \<Rightarrow> k response st'
      | ((None, None), st') \<Rightarrow> ((None, Some (RuntimePanic ''nil response'')), st'))"

definition sendRequestAndXMLUnmarshal ::
  "stdlib \<Rightarrow> client_context \<Rightarrow> DataPlaneInput \<Rightarrow> string \<Rightarrow> string \<Rightarrow> string
     \<Rightarrow> (string \<times> string) list \<Rightarrow> bytes \<Rightarrow> (bytes \<Rightarrow> op_output \<times> bool) \<Rightarrow> net
     \<Rightarrow> 'c sync_result" where
  "sendRequestAndXMLUnmarshal L c dataPlaneInput method path query headers body unmarshal st =
     (case sendRequest L c dataPlaneInput method path query headers body False st of
        ((_, Some err), st') \<Rightarrow>
          (case extractResponseFromError dataPlaneInput err of
             None \<Rightarrow> ((None, Some err), st')
           | Some response \<Rightarrow>
               ((Some (response \<lparr> Output := Some (fst (unmarshal (Response_Body response))) \<rparr>),
                 Some err), st'))
      | ((Some response, None), st') \<Rightarrow>
          (case unmarshal (Response_Body response) of
             (out, ok) \<Rightarrow>
               if \<not> ok then ((None, Some ErrXMLUnmarshal), st')
               else ((Some (response \<lparr> Output := Some out \<rparr>), None), st'))
      | ((None, None), st') \<Rightarrow> ((None, Some (RuntimePanic ''nil response'')), st'))"

text \<open>\<open>parseMtimeHeader\<close> on a response.\<close>

definition parseMtimeHeader :: "'c Response \<Rightarrow> mtime_result" where
  "parseMtimeHeader response =
     parseMtimeHeaderValue (Response_HeaderPeek response ''X-v3io-transaction-verifier'')"
section \<open>The synchronous operations\<close>

text \<open>
  An operation whose Go signature returns only an error returns the pair of the error and
  the network state; \<open>error_only\<close> drops the (nil) response of \<open>sendRequest\<close>.
\<close>

type_synonym error_result = "error option \<times> net"

definition error_only :: "unit sync_result \<Rightarrow> error_result" where
  "error_only r = (snd (fst r), snd r)"

definition GetContainersSync ::
  "stdlib \<Rightarrow> client_context \<Rightarrow> GetContainersInput \<Rightarrow> net \<Rightarrow> 'c sync_result" where
  "GetContainersSync L c getContainersInput st =
     sendRequestAndXMLUnmarshal L c (GetContainers_dpi getContainersInput)
       ''GET'' [] [] [] []
       (\<lambda>b. case xml_Unmarshal_GetContainers L b of (out, ok) \<Rightarrow> (OutGetContainers out, ok)) st"

definition GetClusterMDSync ::
  "stdlib \<Rightarrow> client_context \<Rightarrow> GetClusterMDInput \<Rightarrow> net \<Rightarrow> 'c sync_result" where
  "GetClusterMDSync L c getClusterMDInput st =
     on_response
       (sendRequest L c (GetClusterMD_dpi getClusterMDInput) ''PUT'' [] []
          (headers_of L getClusterMDHeaders) [] False st)
       (\<lambda>response st'.
          case json_Unmarshal_GetClusterMD L (Response_Body response) of
            None \<Rightarrow> ((None, Some ErrJSONUnmarshal), st')
          | Some getClusterMDOutput \<Rightarrow>
              ((Some (response \<lparr> Output := Some (OutGetClusterMD getClusterMDOutput) \<rparr>), None),
               st'))"

text \<open>The query string that \<open>GetContainerContentsSync\<close> builds.\<close>

definition contentsQuery :: "stdlib \<Rightarrow> GetContainerContentsInput \<Rightarrow> string" where
  "contentsQuery L getContainerContentsInput =
     (if GetContainerContents_Path getContainerContentsInput \<noteq> []
      then ''prefix=''
           @ Replace (url_QueryEscape L (GetContainerContents_Path getContainerContentsInput))
               (CHR ''+'') ''%20''
      else [])
     @ (if DirectoriesOnly getContainerContentsInput then ''&prefix-only=1'' else [])
     @ (if GetAllAttributes getContainerContentsInput then ''&prefix-info=1'' else [])
     @ (if GetContainerContents_Marker getContainerContentsInput \<noteq> []
        then ''&marker='' @ GetContainerContents_Marker getContainerContentsInput else [])
     @ (if 0 < GetContainerContents_Limit getContainerContentsInput
        then ''&max-keys='' @ FormatInt (GetContainerContents_Limit getContainerContentsInput)
        else [])"

definition GetContainerContentsSync ::
  "stdlib \<Rightarrow> client_context \<Rightarrow> GetContainerContentsInput \<Rightarrow> net \<Rightarrow> 'c sync_result" where
  "GetContainerContentsSync L c getContainerContentsInput st =
     sendRequestAndXMLUnmarshal L c (GetContainerContents_dpi getContainerContentsInput)
       ''GET'' [] (contentsQuery L getContainerContentsInput) [] []
       (\<lambda>b. case xml_Unmarshal_GetContainerContents L b of
               (out, ok) \<Rightarrow> (OutGetContainerContents out, ok)) st"

definition GetItemSync ::
  "stdlib \<Rightarrow> client_context \<Rightarrow> GetItemInput \<Rightarrow> net \<Rightarrow> 'c sync_result" where
  "GetItemSync L c getItemInput st =
     (let body = ''{'' @ quote @ ''AttributesToGet'' @ quote @ '': '' @ quote
                 @ Join (GetItem_AttributeNames getItemInput) '','' @ quote @ ''}''
      in on_response
           (sendRequest L c (GetItem_dpi getItemInput) ''PUT'' (GetItem_Path getItemInput) []
              (headers_of L getItemHeaders) body False st)
           (\<lambda>response st'.
              case json_Unmarshal_Item L (Response_Body response) of
                None \<Rightarrow> ((None, Some ErrJSONUnmarshal), st')
              | Some item \<Rightarrow>
                  (case decodeTypedAttributes L item of
                     Inl err \<Rightarrow> ((None, Some err), st')
                   | Inr attributes \<Rightarrow>
                       ((Some (response \<lparr> Output :=
                                 Some (OutGetItem \<lparr> GetItemOutput_Item = attributes \<rparr>) \<rparr>),
                         None), st'))))"

text \<open>
  \<open>putItem\<close>: the attributes are encoded first, then the body is completed and
  marshalled, then the request is sent.  A nil body map is \<open>None\<close>.
\<close>

definition putItem ::
  "stdlib \<Rightarrow> client_context \<Rightarrow> DataPlaneInput \<Rightarrow> string \<Rightarrow> Item \<Rightarrow> string
     \<Rightarrow> (string \<times> string) list \<Rightarrow> (string \<times> json) list option \<Rightarrow> net \<Rightarrow> 'c sync_result" where
  "putItem L c dataPlaneInput path attributes condition headers body st =
     (case encodeTypedAttributes L attributes of
        Inl err \<Rightarrow> ((None, Some err), st)
      | Inr typedAttributes \<Rightarrow>
          let body1 = (case body of None \<Rightarrow> [] | Some b \<Rightarrow> b);
              body2 = map_put ''Item'' (JTyped typedAttributes) body1;
              body3 = (if condition \<noteq> []
                       then map_put ''ConditionExpression'' (JString condition) body2
                       else body2)
          in case json_Marshal L body3 of
               None \<Rightarrow> ((None, Some ErrJSONMarshal), st)
             | Some jsonEncodedBodyContents \<Rightarrow>
                 sendRequest L c dataPlaneInput ''PUT'' path [] headers jsonEncodedBodyContents
                   False st)"

definition updateItemWithExpression ::
  "stdlib \<Rightarrow> client_context \<Rightarrow> DataPlaneInput \<Rightarrow> string \<Rightarrow> string \<Rightarrow> string
     \<Rightarrow> (string \<times> string) list \<Rightarrow> string \<Rightarrow> net \<Rightarrow> 'c sync_result" where
  "updateItemWithExpression L c dataPlaneInput path expression condition headers updateMode st =
     (let body1 = [(''UpdateExpression'', JString expression),
                   (''UpdateMode'', JString ''CreateOrReplaceAttributes'')];
          body2 = (if updateMode \<noteq> [] then map_put ''UpdateMode'' (JString updateMode) body1
                   else body1);
          body3 = (if condition \<noteq> []
                   then map_put ''ConditionExpression'' (JString condition) body2 else body2)
      in case json_Marshal L body3 of
           None \<Rightarrow> ((None, Some ErrJSONMarshal), st)
         | Some jsonEncodedBodyContents \<Rightarrow>
             sendRequest L c dataPlaneInput ''POST'' path [] headers jsonEncodedBodyContents
               False st)"

text \<open>
  The end shared by \<open>PutItemSync\<close> and the two branches of \<open>UpdateItemSync\<close>: the
  modification time is read from the response header and becomes the output.
\<close>

definition with_mtime ::
  "(int \<Rightarrow> int \<Rightarrow> op_output) \<Rightarrow> 'c Response \<Rightarrow> net \<Rightarrow> 'c sync_result" where
  "with_mtime mk response st' =
     (case parseMtimeHeader response of
        MtimePanic \<Rightarrow> ((None, Some (RuntimePanic ''index out of range'')), st')
      | MtimeErr (AtoiError e) \<Rightarrow> ((None, Some (ErrNumber e)), st')
      | MtimeErr (UnexpectedSymbol s) \<Rightarrow> ((None, Some (ErrUnexpectedSymbol s)), st')
      | MtimeOk mtimeSecs mtimeNSecs \<Rightarrow>
          ((Some (response \<lparr> Output := Some (mk mtimeSecs mtimeNSecs) \<rparr>), None), st'))"

definition PutItemSync ::
  "stdlib \<Rightarrow> client_context \<Rightarrow> PutItemInput \<Rightarrow> net \<Rightarrow> 'c sync_result" where
  "PutItemSync L c putItemInput st =
     (let body = (if PutItem_UpdateMode putItemInput \<noteq> []
                  then Some [(''UpdateMode'', JString (PutItem_UpdateMode putItemInput))]
                  else None)
      in on_response
           (putItem L c (PutItem_dpi putItemInput) (PutItem_Path putItemInput)
              (PutItem_Attributes putItemInput) (PutItem_Condition putItemInput)
              (headers_of L putItemHeaders) body st)
           (with_mtime (\<lambda>s n. OutPutItem \<lparr> PutItem_MtimeSecs = s, PutItem_MtimeNSecs = n \<rparr>)))"

text \<open>
  The loop of \<open>PutItemsSync\<close> over the items, with the output it updates; the response
  of each \<open>putItem\<close> is dropped.
\<close>

fun putItems_loop ::
  "stdlib \<Rightarrow> client_context \<Rightarrow> PutItemsInput \<Rightarrow> (string \<times> Item) list \<Rightarrow> PutItemsOutput \<Rightarrow> net
     \<Rightarrow> PutItemsOutput \<times> net" where
  "putItems_loop L c putItemsInput [] putItemsOutput st = (putItemsOutput, st)"
| "putItems_loop L c putItemsInput ((itemKey, itemAttributes) # rest) putItemsOutput st =
     (case (putItem L c (PutItems_dpi putItemsInput)
              (PutItems_Path putItemsInput @ ''/'' @ itemKey) itemAttributes
              (PutItems_Condition putItemsInput) (headers_of L putItemHeaders) None st
              :: unit sync_result) of
        ((_, None), st') \<Rightarrow> putItems_loop L c putItemsInput rest putItemsOutput st'
      | ((_, Some err), st') \<Rightarrow>
          putItems_loop L c putItemsInput rest
            (putItemsOutput \<lparr> Errors := map_put itemKey err (Errors putItemsOutput),
                              Success := False \<rparr>) st')"

definition PutItemsSync ::
  "stdlib \<Rightarrow> client_context \<Rightarrow> PutItemsInput \<Rightarrow> net \<Rightarrow> 'c sync_result" where
  "PutItemsSync L c putItemsInput st =
     (case putItems_loop L c putItemsInput (PutItems_Items putItemsInput)
             \<lparr> Success = True, Errors = [] \<rparr> st of
        (putItemsOutput, st') \<Rightarrow>
          ((Some (allocateResponse \<lparr> Output := Some (OutPutItems putItemsOutput) \<rparr>), None), st'))"

definition UpdateItemSync ::
  "stdlib \<Rightarrow> client_context \<Rightarrow> UpdateItemInput \<Rightarrow> net \<Rightarrow> 'c sync_result" where
  "UpdateItemSync L c updateItemInput st =
     (case UpdateItem_Attributes updateItemInput of
        Some attributes \<Rightarrow>
          (let body1 = [(''UpdateMode'', JString ''CreateOrReplaceAttributes'')];
               body = (if UpdateItem_UpdateMode updateItemInput \<noteq> []
                       then map_put ''UpdateMode'' (JString (UpdateItem_UpdateMode updateItemInput))
                              body1
                       else body1)
           in on_response
                (putItem L c (UpdateItem_dpi updateItemInput) (UpdateItem_Path updateItemInput)
                   attributes (UpdateItem_Condition updateItemInput)
                   (headers_of L putItemHeaders) (Some body) st)
                (with_mtime
                   (\<lambda>s n. OutUpdateItem \<lparr> UpdateItem_MtimeSecs = s, UpdateItem_MtimeNSecs = n \<rparr>)))
      | None \<Rightarrow>
          (case UpdateItem_Expression updateItemInput of
             Some expression \<Rightarrow>
               on_response
                 (updateItemWithExpression L c (UpdateItem_dpi updateItemInput)
                    (UpdateItem_Path updateItemInput) expression
                    (UpdateItem_Condition updateItemInput) (headers_of L updateItemHeaders)
                    (UpdateItem_UpdateMode updateItemInput) st)
                 (with_mtime
                    (\<lambda>s n. OutUpdateItem \<lparr> UpdateItem_MtimeSecs = s, UpdateItem_MtimeNSecs = n \<rparr>))
           | None \<Rightarrow> ((None, None), st)))"

text \<open>The headers that \<open>GetObjectSync\<close> sets: the byte range and the creation time.\<close>

definition getObjectHeaders :: "GetObjectInput \<Rightarrow> (string \<times> string) list" where
  "getObjectHeaders getObjectInput =
     (let headers =
            (if GetObject_Offset getObjectInput \<noteq> 0 \<or> NumBytes getObjectInput \<noteq> 0
             then [(''Range'', ''bytes='' @ FormatInt (GetObject_Offset getObjectInput) @ ''-''
                      @ FormatInt (GetObject_Offset getObjectInput + NumBytes getObjectInput - 1))]
             else [])
      in if 0 < CtimeSec getObjectInput
         then map_put ''ctime-nsec'' (FormatInt (CtimeNsec getObjectInput))
                (map_put ''ctime-sec'' (FormatInt (CtimeSec getObjectInput)) headers)
         else headers)"

definition GetObjectSync ::
  "stdlib \<Rightarrow> client_context \<Rightarrow> GetObjectInput \<Rightarrow> net \<Rightarrow> 'c sync_result" where
  "GetObjectSync L c getObjectInput st =
     sendRequest L c (GetObject_dpi getObjectInput) ''GET'' (GetObject_Path getObjectInput) []
       (getObjectHeaders getObjectInput) [] False st"

definition PutObjectSync ::
  "stdlib \<Rightarrow> client_context \<Rightarrow> PutObjectInput \<Rightarrow> net \<Rightarrow> error_result" where
  "PutObjectSync L c putObjectInput st =
     (let headers = (if Append putObjectInput then [(''Range'', ''-1'')] else [])
      in error_only
           (sendRequest L c (PutObject_dpi putObjectInput) ''PUT'' (PutObject_Path putObjectInput)
              [] headers (PutObject_Body putObjectInput) True st))"

definition UpdateObjectSync ::
  "stdlib \<Rightarrow> client_context \<Rightarrow> UpdateObjectInput \<Rightarrow> net \<Rightarrow> error_result" where
  "UpdateObjectSync L c updateObjectInput st =
     (let headers = [(''X-v3io-function'', ''DirSetAttr'')]
      in case json_Marshal_DirAttributes L (UpdateObject_DirAttributes updateObjectInput) of
           None \<Rightarrow> (Some ErrJSONMarshal, st)
         | Some marshaledDirAttributes \<Rightarrow>
             error_only
               (sendRequest L c (UpdateObject_dpi updateObjectInput) ''PUT''
                  (UpdateObject_Path updateObjectInput) [] headers marshaledDirAttributes True st))"

definition DeleteObjectSync ::
  "stdlib \<Rightarrow> client_context \<Rightarrow> DeleteObjectInput \<Rightarrow> net \<Rightarrow> error_result" where
  "DeleteObjectSync L c deleteObjectInput st =
     error_only
       (sendRequest L c (DeleteObject_dpi deleteObjectInput) ''DELETE''
          (DeleteObject_Path deleteObjectInput) [] [] [] True st)"

definition CreateStreamSync ::
  "stdlib \<Rightarrow> client_context \<Rightarrow> CreateStreamInput \<Rightarrow> net \<Rightarrow> error_result" where
  "CreateStreamSync L c createStreamInput st =
     (let body = ''{'' @ quote @ ''ShardCount'' @ quote @ '': ''
                 @ FormatInt (CreateStream_ShardCount createStreamInput)
                 @ '', '' @ quote @ ''RetentionPeriodHours'' @ quote @ '': ''
                 @ FormatInt (CreateStream_RetentionPeriodHours createStreamInput) @ ''}''
      in error_only
           (sendRequest L c (CreateStream_dpi createStreamInput) ''POST''
              (CreateStream_Path createStreamInput) [] (headers_of L createStreamHeaders)
              body True st))"

definition DescribeStreamSync ::
  "stdlib \<Rightarrow> client_context \<Rightarrow> DescribeStreamInput \<Rightarrow> net \<Rightarrow> 'c sync_result" where
  "DescribeStreamSync L c describeStreamInput st =
     on_response
       (sendRequest L c (DescribeStream_dpi describeStreamInput) ''PUT''
          (DescribeStream_Path describeStreamInput) [] (headers_of L describeStreamHeaders)
          [] False st)
       (\<lambda>response st'.
          case json_Unmarshal_DescribeStream L (Response_Body response) of
            None \<Rightarrow> ((None, Some ErrJSONUnmarshal), st')
          | Some describeStreamOutput \<Rightarrow>
              ((Some (response \<lparr> Output := Some (OutDescribeStream describeStreamOutput) \<rparr>),
                None), st'))"

definition CheckPathExistsSync ::
  "stdlib \<Rightarrow> client_context \<Rightarrow> CheckPathExistsInput \<Rightarrow> net \<Rightarrow> error_result" where
  "CheckPathExistsSync L c checkPathExistsInput st =
     error_only
       (sendRequest L c (CheckPathExists_dpi checkPathExistsInput) ''HEAD''
          (CheckPathExists_Path checkPathExistsInput) [] [] [] True st)"

text \<open>
  The loop of \<open>DeleteStreamSync\<close> over the shards: one \<open>DeleteObjectSync\<close> per entry,
  whose result is not looked at.
\<close>

fun deleteShards ::
  "stdlib \<Rightarrow> client_context \<Rightarrow> DataPlaneInput \<Rightarrow> Content list \<Rightarrow> net \<Rightarrow> net" where
  "deleteShards L c dataPlaneInput [] st = st"
| "deleteShards L c dataPlaneInput (content # rest) st =
     deleteShards L c dataPlaneInput rest
       (snd (DeleteObjectSync L c
               \<lparr> DeleteObject_dpi = dataPlaneInput, DeleteObject_Path = ''/'' @ Key content \<rparr>
               st))"

definition DeleteStreamSync ::
  "stdlib \<Rightarrow> client_context \<Rightarrow> DeleteStreamInput \<Rightarrow> net \<Rightarrow> error_result" where
  "DeleteStreamSync L c deleteStreamInput st =
     (case (GetContainerContentsSync L c
              \<lparr> GetContainerContents_dpi = DeleteStream_dpi deleteStreamInput,
                GetContainerContents_Path = DeleteStream_Path deleteStreamInput,
                GetAllAttributes = False, DirectoriesOnly = False,
                GetContainerContents_Limit = 0, GetContainerContents_Marker = [] \<rparr> st
              :: unit sync_result) of
        ((_, Some err), st') \<Rightarrow> (Some err, st')
      | ((response, None), st') \<Rightarrow>
          (case response of
             Some r \<Rightarrow>
               (case Output r of
                  Some (OutGetContainerContents out) \<Rightarrow>
                    DeleteObjectSync L c
                      \<lparr> DeleteObject_dpi = DeleteStream_dpi deleteStreamInput,
                        DeleteObject_Path =
                          ''/'' @ path_Dir (DeleteStream_Path deleteStreamInput) @ ''/'' \<rparr>
                      (deleteShards L c (DeleteStream_dpi deleteStreamInput) (Contents out) st')
                | _ \<Rightarrow> (Some (RuntimePanic ''interface conversion''), st'))
           | None \<Rightarrow> (Some (RuntimePanic ''nil response''), st')))"

text \<open>The body that \<open>SeekShardSync\<close> writes into its buffer.\<close>

definition seekShardBody :: "stdlib \<Rightarrow> SeekShardInput \<Rightarrow> string" where
  "seekShardBody L seekShardInput =
     ''{'' @ quote @ ''Type'' @ quote @ '': '' @ quote
     @ seekShardsInputTypeToString L (SeekShard_Type seekShardInput) @ quote
     @ (if SeekShard_Type seekShardInput = SeekShardInputTypeSequence then
          '', '' @ quote @ ''StartingSequenceNumber'' @ quote @ '': ''
          @ FormatUint (unat (StartingSequenceNumber seekShardInput))
        else if SeekShard_Type seekShardInput = SeekShardInputTypeTime then
          '', '' @ quote @ ''TimestampSec'' @ quote @ '': ''
          @ FormatInt (Timestamp seekShardInput)
          @ '', '' @ quote @ ''TimestampNSec'' @ quote @ '': 0''
        else [])
     @ ''}''"

definition SeekShardSync ::
  "stdlib \<Rightarrow> client_context \<Rightarrow> SeekShardInput \<Rightarrow> net \<Rightarrow> 'c sync_result" where
  "SeekShardSync L c seekShardInput st =
     on_response
       (sendRequest L c (SeekShard_dpi seekShardInput) ''PUT'' (SeekShard_Path seekShardInput)
          [] (headers_of L seekShardsHeaders) (seekShardBody L seekShardInput) False st)
       (\<lambda>response st'.
          case json_Unmarshal_SeekShard L (Response_Body response) of
            None \<Rightarrow> ((None, Some ErrJSONUnmarshal), st')
          | Some seekShardOutput \<Rightarrow>
              ((Some (response \<lparr> Output := Some (OutSeekShard seekShardOutput) \<rparr>), None),
               st'))"

text \<open>The records of \<open>PutRecordsSync\<close>, encoded by hand as the function does.\<close>

fun encodeRecords :: "StreamRecord list \<Rightarrow> string" where
  "encodeRecords [] = []"
| "encodeRecords (record # rest) =
     ''{'' @ quote @ ''Data'' @ quote @ '': '' @ quote
     @ EncodeToString (StreamRecord_Data record) @ quote
     @ (case StreamRecord_ClientInfo record of
          None \<Rightarrow> []
        | Some clientInfo \<Rightarrow>
            '','' @ quote @ ''ClientInfo'' @ quote @ '': '' @ quote
            @ EncodeToString clientInfo @ quote)
     @ (case StreamRecord_ShardID record of
          None \<Rightarrow> []
        | Some shardID \<Rightarrow> '', '' @ quote @ ''ShardId'' @ quote @ '': '' @ FormatInt shardID)
     @ (if StreamRecord_PartitionKey record \<noteq> []
        then '', '' @ quote @ ''PartitionKey'' @ quote @ '': ''
             @ quote @ StreamRecord_PartitionKey record @ quote
        else [])
     @ (if rest \<noteq> [] then ''}, '' else ''}'')
     @ encodeRecords rest"

definition PutRecordsSync ::
  "stdlib \<Rightarrow> client_context \<Rightarrow> PutRecordsInput \<Rightarrow> net \<Rightarrow> 'c sync_result" where
  "PutRecordsSync L c putRecordsInput st =
     (let buffer = ''{'' @ quote @ ''Records'' @ quote @ '': [''
                   @ encodeRecords (PutRecords_Records putRecordsInput) @ '']}''
      in on_response
           (sendRequest L c (PutRecords_dpi putRecordsInput) ''POST''
              (PutRecords_Path putRecordsInput) [] (headers_of L putRecordsHeaders)
              buffer False st)
           (\<lambda>response st'.
              case json_Unmarshal_PutRecords L (Response_Body response) of
                None \<Rightarrow> ((None, Some ErrJSONUnmarshal), st')
              | Some putRecordsOutput \<Rightarrow>
                  ((Some (response \<lparr> Output := Some (OutPutRecords putRecordsOutput) \<rparr>), None),
                   st')))"

definition PutChunkSync ::
  "stdlib \<Rightarrow> client_context \<Rightarrow> PutChunkInput \<Rightarrow> net \<Rightarrow> error_result" where
  "PutChunkSync L c putChunkInput st =
     (case json_Marshal_PutChunkInput L putChunkInput of
        None \<Rightarrow> (Some ErrJSONMarshal, st)
      | Some buffer \<Rightarrow>
          error_only
            (sendRequest L c (PutChunk_dpi putChunkInput) ''POST'' (PutChunk_Path putChunkInput)
               [] (headers_of L putChunkHeaders) buffer True st))"

definition GetRecordsSync ::
  "stdlib \<Rightarrow> client_context \<Rightarrow> GetRecordsInput \<Rightarrow> net \<Rightarrow> 'c sync_result" where
  "GetRecordsSync L c getRecordsInput st =
     (let body = ''{'' @ quote @ ''Location'' @ quote @ '': '' @ quote
                 @ GetRecords_Location getRecordsInput @ quote
                 @ '', '' @ quote @ ''Limit'' @ quote @ '': ''
                 @ FormatInt (GetRecords_Limit getRecordsInput) @ ''}''
      in on_response
           (sendRequest L c (GetRecords_dpi getRecordsInput) ''PUT''
              (GetRecords_Path getRecordsInput) [] (headers_of L getRecordsHeaders) body False st)
           (\<lambda>response st'.
              case json_Unmarshal_GetRecords L (Response_Body response) of
                None \<Rightarrow> ((None, Some ErrJSONUnmarshal), st')
              | Some getRecordsOutput \<Rightarrow>
                  ((Some (response \<lparr> Output := Some (OutGetRecords getRecordsOutput) \<rparr>), None),
                   st')))"

text \<open>A lookup \<open>m[k]\<close> in a Go map of strings: the empty string when the key is absent.\<close>

definition map_get :: "(string \<times> string) list \<Rightarrow> string \<Rightarrow> string" where
  "map_get m k = (case map_of m k of None \<Rightarrow> [] | Some v \<Rightarrow> v)"

definition PutOOSObjectSync ::
  "stdlib \<Rightarrow> client_context \<Rightarrow> PutOOSObjectInput \<Rightarrow> net \<Rightarrow> error_result" where
  "PutOOSObjectSync L c putOOSObjectInput st =
     (let iovecSizes =
            FormatInt (int (length (PutOOSObject_Header putOOSObjectInput)))
            @ concat (map (\<lambda>ioVec. '','' @ FormatInt (int (length ioVec)))
                        (PutOOSObject_Data putOOSObjectInput));
          buffer = PutOOSObject_Header putOOSObjectInput
                   @ concat (PutOOSObject_Data putOOSObjectInput);
          headers =
            [(''Content-Type'', map_get (headers_of L putOOSObjectHeaders) ''Content-Type''),
             (''X-v3io-function'', map_get (headers_of L putOOSObjectHeaders) ''X-v3io-function''),
             (''io-vec-num'',
                FormatInt (int (length (PutOOSObject_Data putOOSObjectInput)) + 1)),
             (''io-vec-sizes'', iovecSizes)]
      in error_only
           (sendRequest L c (PutOOSObject_dpi putOOSObjectInput) ''PUT''
              (PutOOSObject_Path putOOSObjectInput) [] headers buffer True st))"
section \<open>Parsing the answer of GetItems\<close>

text \<open>\<open>strconv.ParseBool\<close>; the callers ignore its error and take \<open>false\<close> then.\<close>

definition ParseBool :: "string \<Rightarrow> bool option" where
  "ParseBool str =
     (if str \<in> set [''1'', ''t'', ''T'', ''TRUE'', ''true'', ''True''] then Some True
      else if str \<in> set [''0'', ''f'', ''F'', ''FALSE'', ''false'', ''False''] then Some False
      else None)"

definition ParseBool_or_false :: "string \<Rightarrow> bool" where
  "ParseBool_or_false str = (case ParseBool str of None \<Rightarrow> False | Some b \<Rightarrow> b)"

fun decodeItems :: "stdlib \<Rightarrow> typed_attributes list \<Rightarrow> error + Item list" where
  "decodeItems L [] = Inr []"
| "decodeItems L (typedItem # rest) =
     (case decodeTypedAttributes L typedItem of
        Inl err \<Rightarrow> Inl err
      | Inr item \<Rightarrow>
          (case decodeItems L rest of
             Inl err \<Rightarrow> Inl err
           | Inr items \<Rightarrow> Inr (item # items)))"

text \<open>
  \<open>getItemsParseJSONResponse\<close>.  The warning that the function logs for an answer
  without a usable marker has no effect on the result and is left out.
\<close>

definition getItemsParseJSONResponse ::
  "stdlib \<Rightarrow> 'c Response \<Rightarrow> GetItemsInput \<Rightarrow> error + GetItemsOutput" where
  "getItemsParseJSONResponse L response getItemsInput =
     (case json_Unmarshal_getItemsResponse L (Response_Body response) of
        None \<Rightarrow> Inl ErrJSONUnmarshal
      | Some getItemsResponse \<Rightarrow>
          let lastItemIncluded = ParseBool_or_false (LastItemIncluded getItemsResponse);
              scattered = ParseBool_or_false (getItemsResponse_Scattered getItemsResponse)
          in case decodeItems L (getItemsResponse_Items getItemsResponse) of
               Inl err \<Rightarrow> Inl err
             | Inr items \<Rightarrow>
                 Inr \<lparr> Last = lastItemIncluded,
                       NextMarker = getItemsResponse_NextMarker getItemsResponse,
                       Scattered = scattered,
                       Items = items \<rparr>)"

record attributeValuesSection =
  accumulatedPreviousSectionsLength :: int
  data :: value_list

fun sectionSearch ::
  "attributeValuesSection list \<Rightarrow> nat \<Rightarrow> int \<Rightarrow> int \<Rightarrow> (nat \<times> int) option" where
  "sectionSearch [] i prevLength idx = None"
| "sectionSearch (v # vs) i prevLength idx =
     (if idx < accumulatedPreviousSectionsLength v then Some (i, idx - prevLength)
      else sectionSearch vs (Suc i) (accumulatedPreviousSectionsLength v) idx)"

definition getSectionAndIndex :: "attributeValuesSection list \<Rightarrow> int \<Rightarrow> nat \<times> int" where
  "getSectionAndIndex values idx =
     (if length values = 1 then (0, idx)
      else if idx < accumulatedPreviousSectionsLength (hd values) then (0, idx)
      else case sectionSearch (tl values) 1 (accumulatedPreviousSectionsLength (hd values)) idx of
             Some r \<Rightarrow> r
           | None \<Rightarrow> (0, idx))"

text \<open>
  The loop of \<open>decodeCapnpAttributes\<close> with the map it fills.  An index outside the
  table of names is a run-time panic; the list accessor \<open>At\<close> of the capnp library is
  taken to panic on an index outside the list as well.
\<close>

fun decodeCapnpAttributes_loop ::
  "(int \<times> int) list \<Rightarrow> attributeValuesSection list \<Rightarrow> string list \<Rightarrow> Item \<Rightarrow> error + Item" where
  "decodeCapnpAttributes_loop [] values attributeNames attributes = Inr attributes"
| "decodeCapnpAttributes_loop ((attrIdx, valIdx0) # rest) values attributeNames attributes =
     (if attrIdx < 0 \<or> int (length attributeNames) \<le> attrIdx
      then Inl (RuntimePanic ''index out of range'')
      else
        let attributeName = attributeNames ! nat attrIdx in
        case getSectionAndIndex values valIdx0 of
          (sectIdx, valIdx) \<Rightarrow>
            if valIdx < 0 \<or> int (length (data (values ! sectIdx))) \<le> valIdx
            then Inl (RuntimePanic ''list index out of bounds'')
            else
              case data (values ! sectIdx) ! nat valIdx of
                Inl _ \<Rightarrow> Inl (ErrCapnp ''values.data.At.Value'')
              | Inr value \<Rightarrow>
                  (case value of
                     Qword w \<Rightarrow>
                       decodeCapnpAttributes_loop rest values attributeNames
                         (map_put attributeName (VInt w) attributes)
                   | Uqword w \<Rightarrow>
                       decodeCapnpAttributes_loop rest values attributeNames
                         (map_put attributeName (VInt w) attributes)
                   | Blob b \<Rightarrow>
                       (case b of
                          Inl _ \<Rightarrow> Inl (ErrCapnp ''unable to get value of BLOB attribute'')
                        | Inr bs \<Rightarrow>
                            decodeCapnpAttributes_loop rest values attributeNames
                              (map_put attributeName (VBytes bs) attributes))
                   | Str s \<Rightarrow>
                       (case s of
                          Inl _ \<Rightarrow> Inl (ErrCapnp ''unable to get value of String attribute'')
                        | Inr str \<Rightarrow>
                            decodeCapnpAttributes_loop rest values attributeNames
                              (map_put attributeName (VString str) attributes))
                   | Dfloat f \<Rightarrow>
                       decodeCapnpAttributes_loop rest values attributeNames
                         (map_put attributeName (VFloat64 f) attributes)
                   | Boolean b \<Rightarrow>
                       decodeCapnpAttributes_loop rest values attributeNames
                         (map_put attributeName (VBool b) attributes)
                   | TimeValue t \<Rightarrow>
                       (case t of
                          Inl e \<Rightarrow> Inl (ErrCapnp e)
                        | Inr (tvSec, tvNsec) \<Rightarrow>
                            decodeCapnpAttributes_loop rest values attributeNames
                              (map_put attributeName (VTime (time_Unix tvSec tvNsec)) attributes))
                   | NotExists \<Rightarrow>
                       decodeCapnpAttributes_loop rest values attributeNames attributes
                   | UnknownWhich w \<Rightarrow> Inl (ErrCapnp ''type is not expected'')))"

definition decodeCapnpAttributes ::
  "(int \<times> int) list \<Rightarrow> attributeValuesSection list \<Rightarrow> string list \<Rightarrow> error + Item" where
  "decodeCapnpAttributes keyValues values attributeNames =
     decodeCapnpAttributes_loop keyValues values attributeNames []"

text \<open>
  The parts of \<open>getItemsParseCAPNPResponse\<close>: the loop over the data sections "in
  between" (from the second frame to the one before the last), the loop that reads the
  attribute names, and the loop over the items.
\<close>

fun dataSections ::
  "capnp_message list \<Rightarrow> int \<Rightarrow> error + attributeValuesSection list \<times> int" where
  "dataSections [] accLength = Inr ([], accLength)"
| "dataSections (capnpSection # rest) accLength =
     (case ReadRootDataPayload capnpSection of
        Inl _ \<Rightarrow> Inl (ErrCapnp ''node_common_capnp.ReadRootVnObjectAttributeValueMap'')
      | Inr payload \<Rightarrow>
          (case DataPayload_ValueMap_Values payload of
             Inl _ \<Rightarrow> Inl (ErrCapnp ''data.ValueMap'')
           | Inr (Inl _) \<Rightarrow> Inl (ErrCapnp ''data.ValueMap.Values'')
           | Inr (Inr dv) \<Rightarrow>
               (case dataSections rest (accLength + int (length dv)) of
                  Inl err \<Rightarrow> Inl err
                | Inr (sections, totalLength) \<Rightarrow>
                    Inr (\<lparr> accumulatedPreviousSectionsLength = accLength + int (length dv),
                            data = dv \<rparr> # sections, totalLength))))"

fun readAttributeNames :: "string fallible list \<Rightarrow> error + string list" where
  "readAttributeNames [] = Inr []"
| "readAttributeNames (p # ps) =
     (case p of
        Inl _ \<Rightarrow> Inl (ErrCapnp ''attributeNamesPtr.At'')
      | Inr name \<Rightarrow>
          (case readAttributeNames ps of
             Inl err \<Rightarrow> Inl err
           | Inr names \<Rightarrow> Inr (name # names)))"

fun decodeCapnpItems ::
  "capnp_item fallible list \<Rightarrow> attributeValuesSection list \<Rightarrow> string list \<Rightarrow> bool
     \<Rightarrow> error + Item list" where
  "decodeCapnpItems [] valuesSections attributeNames withWildcard = Inr []"
| "decodeCapnpItems (itemPtr # rest) valuesSections attributeNames withWildcard =
     (case itemPtr of
        Inl _ \<Rightarrow> Inl (ErrCapnp ''itemPtr.Item'')
      | Inr item \<Rightarrow>
          (case capnp_Attrs item of
             Inl _ \<Rightarrow> Inl (ErrCapnp ''item.Attrs'')
           | Inr itemAttributes \<Rightarrow>
               (case decodeCapnpAttributes itemAttributes valuesSections attributeNames of
                  Inl (RuntimePanic m) \<Rightarrow> Inl (RuntimePanic m)
                | Inl _ \<Rightarrow> Inl (ErrCapnp ''decodeCapnpAttributes'')
                | Inr ditem \<Rightarrow>
                    (case (if withWildcard
                           then (case capnp_Name item of
                                   Inl _ \<Rightarrow> Inl (ErrCapnp ''item.Name'')
                                 | Inr name \<Rightarrow> Inr (map_put ''__name'' (VString name) ditem))
                           else Inr ditem) of
                       Inl err \<Rightarrow> Inl err
                     | Inr ditem' \<Rightarrow>
                         (case decodeCapnpItems rest valuesSections attributeNames withWildcard of
                            Inl err \<Rightarrow> Inl err
                          | Inr items \<Rightarrow> Inr (ditem' # items))))))"

definition getItemsParseCAPNPResponse ::
  "stdlib \<Rightarrow> 'c Response \<Rightarrow> bool \<Rightarrow> error + GetItemsOutput" where
  "getItemsParseCAPNPResponse L response withWildcard =
     (let capnpSections = readAllCapnpMessages L (Response_Body response) in
      if length capnpSections < 2 then Inl (ErrCapnp ''Expecting at least 2 capnp sections'')
      else
        let cookie = Response_HeaderPeek response ''X-v3io-cookie'';
            scattered = Response_HeaderPeek response ''X-v3io-scattered''
        in
        case ReadRootMetadataPayload (last capnpSections) of
          Inl _ \<Rightarrow> Inl (ErrCapnp ''ReadRootVnObjectItemsGetResponseMetadataPayload'')
        | Inr metadataPayload \<Rightarrow>
        (case KeyMap_Names_Arr metadataPayload of
          Inl _ \<Rightarrow> Inl (ErrCapnp ''metadataPayload.KeyMap'')
        | Inr (Inl _) \<Rightarrow> Inl (ErrCapnp ''attributeMap.Names'')
        | Inr (Inr (Inl _)) \<Rightarrow> Inl (ErrCapnp ''attributeMapNames.Arr'')
        | Inr (Inr (Inr attributeNamesPtr)) \<Rightarrow>
        (case ValueMap_Values metadataPayload of
          Inl _ \<Rightarrow> Inl (ErrCapnp ''metadataPayload.ValueMap'')
        | Inr (Inl _) \<Rightarrow> Inl (ErrCapnp ''valueMap.Values'')
        | Inr (Inr values) \<Rightarrow>
        (case capnp_Items metadataPayload of
          Inl _ \<Rightarrow> Inl (ErrCapnp ''metadataPayload.Items'')
        | Inr items \<Rightarrow>
        (case dataSections (butlast (tl capnpSections)) 0 of
          Inl err \<Rightarrow> Inl err
        | Inr (sections, accLength) \<Rightarrow>
            let valuesSections =
                  sections @ [\<lparr> accumulatedPreviousSectionsLength = accLength + int (length values),
                                data = values \<rparr>]
            in
            (case readAttributeNames attributeNamesPtr of
               Inl err \<Rightarrow> Inl err
             | Inr attributeNames \<Rightarrow>
                 (case decodeCapnpItems items valuesSections attributeNames withWildcard of
                    Inl err \<Rightarrow> Inl err
                  | Inr ditems \<Rightarrow>
                      Inr \<lparr> Last = (length cookie = 0),
                            NextMarker = cookie,
                            Scattered = (scattered = ''TRUE''),
                            Items = ditems \<rparr>)))))))"

text \<open>
  \<open>parseGetItemsResponse\<close> stores the parsed output in the response (nil when parsing
  failed) and returns the error.
\<close>

definition parseGetItemsResponse ::
  "stdlib \<Rightarrow> GetItemsInput \<Rightarrow> 'c Response \<Rightarrow> 'c Response \<times> error option" where
  "parseGetItemsResponse L getItemsInput response =
     (let contentType = Response_HeaderPeek response ''Content-Type'';
          parsed =
            (if contentType \<noteq> ''application/octet-capnp''
             then getItemsParseJSONResponse L response getItemsInput
             else
               let withWildcard =
                     list_ex (\<lambda>attributeName. attributeName = ''*'' \<or> attributeName = ''**'')
                       (AttributeNames getItemsInput)
               in getItemsParseCAPNPResponse L response withWildcard)
      in case parsed of
           Inl err \<Rightarrow> (response \<lparr> Output := None \<rparr>, Some err)
         | Inr out \<Rightarrow> (response \<lparr> Output := Some (OutGetItems out) \<rparr>, None))"

text \<open>
  The body map and the headers that \<open>GetItemsSync\<close> builds from its input, each in the
  order of the assignments.
\<close>

definition getItemsBody :: "GetItemsInput \<Rightarrow> (string \<times> json) list" where
  "getItemsBody getItemsInput =
     (if AttributeNames getItemsInput \<noteq> []
      then [(''AttributesToGet'', JString (Join (AttributeNames getItemsInput) '',''))]
      else [])
     @ (if TableName getItemsInput \<noteq> []
        then [(''TableName'', JString (TableName getItemsInput))] else [])
     @ (if Filter getItemsInput \<noteq> []
        then [(''FilterExpression'', JString (Filter getItemsInput))] else [])
     @ (if Marker getItemsInput \<noteq> []
        then [(''Marker'', JString (Marker getItemsInput))] else [])
     @ (if ShardingKey getItemsInput \<noteq> []
        then [(''ShardingKey'', JString (ShardingKey getItemsInput))] else [])
     @ (if Limit getItemsInput \<noteq> 0
        then [(''Limit'', JInt (Limit getItemsInput))] else [])
     @ (if TotalSegments getItemsInput \<noteq> 0
        then [(''TotalSegment'', JInt (TotalSegments getItemsInput)),
              (''Segment'', JInt (Segment getItemsInput))] else [])
     @ (if SortKeyRangeStart getItemsInput \<noteq> []
        then [(''SortKeyRangeStart'', JString (SortKeyRangeStart getItemsInput))] else [])
     @ (if SortKeyRangeEnd getItemsInput \<noteq> []
        then [(''SortKeyRangeEnd'', JString (SortKeyRangeEnd getItemsInput))] else [])
     @ (if AllowObjectScatter getItemsInput \<noteq> []
        then [(''AllowObjectScatter'', JString (AllowObjectScatter getItemsInput))] else [])
     @ (if ReturnData getItemsInput \<noteq> []
        then [(''ReturnData'', JString (ReturnData getItemsInput))] else [])
     @ (if DataMaxSize getItemsInput \<noteq> 0
        then [(''DataMaxSize'', JInt (DataMaxSize getItemsInput))] else [])"

definition getItemsRequestHeaders :: "stdlib \<Rightarrow> GetItemsInput \<Rightarrow> (string \<times> string) list" where
  "getItemsRequestHeaders L getItemsInput =
     (let commonHeaders = (if RequestJSONResponse getItemsInput
                           then headers_of L getItemsHeaders
                           else headers_of L getItemsHeadersCapnp)
      in if MtimeSec (GetItems_dpi getItemsInput) \<noteq> []
         then map_put ''conditional-mtime-nsec'' (MtimeNsec (GetItems_dpi getItemsInput))
                (map_put ''conditional-mtime-sec'' (MtimeSec (GetItems_dpi getItemsInput))
                   commonHeaders)
         else commonHeaders)"

definition GetItemsSync ::
  "stdlib \<Rightarrow> client_context \<Rightarrow> GetItemsInput \<Rightarrow> net \<Rightarrow> 'c sync_result" where
  "GetItemsSync L c getItemsInput st =
     (case json_Marshal L (getItemsBody getItemsInput) of
        None \<Rightarrow> ((None, Some ErrJSONMarshal), st)
      | Some marshalledBody \<Rightarrow>
          (case sendRequest L c (GetItems_dpi getItemsInput) ''PUT''
                  (GetItems_Path getItemsInput) [] (getItemsRequestHeaders L getItemsInput)
                  marshalledBody False st of
             ((_, Some err), st') \<Rightarrow>
               (case extractResponseFromError (GetItems_dpi getItemsInput) err of
                  None \<Rightarrow> ((None, Some err), st')
                | Some response \<Rightarrow>
                    ((Some (fst (parseGetItemsResponse L getItemsInput response)), Some err),
                     st'))
           | ((Some response, None), st') \<Rightarrow>
               (case parseGetItemsResponse L getItemsInput response of
                  (response', err) \<Rightarrow> ((Some response', err), st'))
           | ((None, None), st') \<Rightarrow> ((None, Some (RuntimePanic ''nil response'')), st')))"

section \<open>The asynchronous envelope and the worker (sendRequestToWorker, workerEntry)\<close>

text \<open>
  Modelled from the spec (see \<open>Response\<close> above): a request.  The response channel is
  known by a number.
\<close>

record 'c Request =
  Request_ID :: "64 word"
  Input :: op_input
  Request_Context :: "'c option"
  ResponseChan :: nat
  SendTimeNanoseconds :: "64 word"

text \<open>
  The state of the dispatcher: the global counter \<open>requestID\<close>, the request channel (a
  queue), and the responses sent so far on the response channels.
\<close>

record 'c dispatcher =
  requestID :: "64 word"
  requestChan :: "'c Request list"
  sent :: "(nat \<times> 'c Response) list"

definition sendRequestToWorker ::
  "op_input \<Rightarrow> 'c option \<Rightarrow> nat \<Rightarrow> 64 word \<Rightarrow> 'c dispatcher \<Rightarrow> 'c Request \<times> 'c dispatcher" where
  "sendRequestToWorker inp ctx responseChan now d =
     (let id = requestID d + 1;
          request = \<lparr> Request_ID = id, Input = inp, Request_Context = ctx,
                      ResponseChan = responseChan, SendTimeNanoseconds = now \<rparr>
      in (request, d \<lparr> requestID := id, requestChan := requestChan d @ [request] \<rparr>))"

text \<open>The asynchronous method for out-of-sequence objects, like its nineteen siblings.\<close>

definition PutOOSObject ::
  "PutOOSObjectInput \<Rightarrow> 'c option \<Rightarrow> nat \<Rightarrow> 64 word \<Rightarrow> 'c dispatcher
     \<Rightarrow> 'c Request \<times> 'c dispatcher" where
  "PutOOSObject putOOSObjectInput ctx responseChan now d =
     sendRequestToWorker (InPutOOSObject putOOSObjectInput) ctx responseChan now d"

text \<open>
  The type switch of \<open>workerEntry\<close>: the response (possibly nil) and the error of the
  synchronous operation chosen by the type of the input.  There is no case for
  \<open>*PutOOSObjectInput\<close>: it falls to \<open>default\<close>, which only logs.
\<close>

definition error_to_sync :: "error_result \<Rightarrow> 'c sync_result" where
  "error_to_sync r = ((None, fst r), snd r)"

definition dispatch :: "stdlib \<Rightarrow> client_context \<Rightarrow> op_input \<Rightarrow> net \<Rightarrow> 'c sync_result" where
  "dispatch L c inp st =
     (case inp of
        InPutObject typedInput \<Rightarrow> error_to_sync (PutObjectSync L c typedInput st)
      | InGetObject typedInput \<Rightarrow> GetObjectSync L c typedInput st
      | InDeleteObject typedInput \<Rightarrow> error_to_sync (DeleteObjectSync L c typedInput st)
      | InGetItem typedInput \<Rightarrow> GetItemSync L c typedInput st
      | InGetItems typedInput \<Rightarrow> GetItemsSync L c typedInput st
      | InPutItem typedInput \<Rightarrow> PutItemSync L c typedInput st
      | InPutItems typedInput \<Rightarrow> PutItemsSync L c typedInput st
      | InUpdateItem typedInput \<Rightarrow> UpdateItemSync L c typedInput st
      | InCreateStream typedInput \<Rightarrow> error_to_sync (CreateStreamSync L c typedInput st)
      | InDescribeStream typedInput \<Rightarrow> DescribeStreamSync L c typedInput st
      | InDeleteStream typedInput \<Rightarrow> error_to_sync (DeleteStreamSync L c typedInput st)
      | InGetRecords typedInput \<Rightarrow> GetRecordsSync L c typedInput st
      | InPutRecords typedInput \<Rightarrow> PutRecordsSync L c typedInput st
      | InPutChunk typedInput \<Rightarrow> error_to_sync (PutChunkSync L c typedInput st)
      | InSeekShard typedInput \<Rightarrow> SeekShardSync L c typedInput st
      | InGetContainers typedInput \<Rightarrow> GetContainersSync L c typedInput st
      | InGetContainerContents typedInput \<Rightarrow> GetContainerContentsSync L c typedInput st
      | InGetClusterMD typedInput \<Rightarrow> GetClusterMDSync L c typedInput st
      | InCheckPathExists typedInput \<Rightarrow> error_to_sync (CheckPathExistsSync L c typedInput st)
      | InPutOOSObject typedInput \<Rightarrow> ((None, None), st))"

text \<open>
  One turn of the loop of \<open>workerEntry\<close> on a request taken from the queue: the
  pre-allocated response slot (all fields zero) takes the response of the operation if
  there is one, then the identifier, the error and the caller context, and is sent on the
  channel of the request.  A panic of the operation ends the worker without a response.
\<close>

definition zeroResponse :: "'c Response" where
  "zeroResponse =
     \<lparr> HTTPResponse = None, Output = None, ID = 0, Error = None, Context = None \<rparr>"

definition handleRequest ::
  "stdlib \<Rightarrow> client_context \<Rightarrow> 'c Request \<Rightarrow> net \<Rightarrow> (nat \<times> 'c Response) option \<times> net" where
  "handleRequest L c request st =
     (case dispatch L c (Input request) st of
        ((response, err), st') \<Rightarrow>
          (case err of
             Some (RuntimePanic m) \<Rightarrow> (None, st')
           | _ \<Rightarrow>
               let slot = (case response of None \<Rightarrow> zeroResponse | Some r \<Rightarrow> r)
               in (Some (ResponseChan request,
                         slot \<lparr> ID := Request_ID request, Error := err,
                                Context := Request_Context request \<rparr>), st')))"

text \<open>The worker blocks on an empty queue (\<open>None\<close>).\<close>

definition workerEntry_step ::
  "stdlib \<Rightarrow> client_context \<Rightarrow> 'c dispatcher \<times> net \<Rightarrow> ('c dispatcher \<times> net) option" where
  "workerEntry_step L c s =
     (case s of
        (d, st) \<Rightarrow>
          (case requestChan d of
             [] \<Rightarrow> None
           | request # rest \<Rightarrow>
               (case handleRequest L c request st of
                  (None, st') \<Rightarrow> Some (d \<lparr> requestChan := rest \<rparr>, st')
                | (Some delivery, st') \<Rightarrow>
                    Some (d \<lparr> requestChan := rest, sent := sent d @ [delivery] \<rparr>, st'))))"
section \<open>Notions used to state the claims about the operations\<close>

text \<open>
  The errors that an operation raises while it validates its input and prepares the
  request, before anything is sent: the empty container name, an attribute of an
  unsupported type, a body that cannot be marshalled.
\<close>

definition input_validation_error :: "error \<Rightarrow> bool" where
  "input_validation_error e =
     (case e of
        ErrEmptyContainerName \<Rightarrow> True
      | ErrUnexpectedAttributeType _ \<Rightarrow> True
      | ErrJSONMarshal \<Rightarrow> True
      | _ \<Rightarrow> False)"

text \<open>
  An operation started in network state \<open>st\<close> is rejected before any I/O when it
  returns no response, an input-validation error, and the state \<open>st\<close> itself.
\<close>

definition rejected_before_io :: "'c sync_result \<Rightarrow> net \<Rightarrow> bool" where
  "rejected_before_io r st =
     (case r of
        ((None, Some e), st') \<Rightarrow> input_validation_error e \<and> st' = st
      | _ \<Rightarrow> False)"

text \<open>The path of the request URI that \<open>buildRequestURI\<close> computes.\<close>

definition request_path :: "string \<Rightarrow> string \<Rightarrow> string" where
  "request_path containerName pathStr =
     path_Clean (path_Join [''/'', containerName, pathStr])
     @ (if HasSuffix pathStr ''/'' then ''/'' else [])"

text \<open>
  The call that \<open>DeleteObjectSync\<close> issues for a path, given the parsed end point: a
  \<open>DELETE\<close> without query, extra headers or body.
\<close>

definition delete_call :: "url \<Rightarrow> DataPlaneInput \<Rightarrow> string \<Rightarrow> http_call" where
  "delete_call u dataPlaneInput pathStr =
     initRequest (u \<lparr> Path := request_path (ContainerName dataPlaneInput) pathStr,
                      RawQuery := [] \<rparr>)
       dataPlaneInput ''DELETE'' [] []"

section \<open>Sample values\<close>

text \<open>
  A standard library, a context and an input on which the theorems below are tried: the
  URL parser accepts everything and keeps the text as the end point, the decoders fail,
  the encoders return an empty body, and the transport answers every call with status
  200.
\<close>

definition sample_stdlib :: stdlib where
  "sample_stdlib =
     \<lparr> url_Parse = (\<lambda>s. Some \<lparr> Endpoint = s, Path = [], RawQuery = [] \<rparr>),
       url_QueryEscape = (\<lambda>s. s),
       FormatFloat = (\<lambda>w. ''NaN''),
       ParseFloat = (\<lambda>s. Inl ErrSyntax),
       json_Marshal = (\<lambda>b. Some []),
       json_Marshal_DirAttributes = (\<lambda>a. Some []),
       json_Marshal_PutChunkInput = (\<lambda>i. Some []),
       json_Unmarshal_GetClusterMD = (\<lambda>b. None),
       json_Unmarshal_DescribeStream = (\<lambda>b. None),
       json_Unmarshal_SeekShard = (\<lambda>b. None),
       json_Unmarshal_PutRecords = (\<lambda>b. None),
       json_Unmarshal_GetRecords = (\<lambda>b. None),
       json_Unmarshal_Item = (\<lambda>b. None),
       json_Unmarshal_getItemsResponse = (\<lambda>b. None),
       xml_Unmarshal_GetContainers = (\<lambda>b. (\<lparr> Results = [] \<rparr>, False)),
       xml_Unmarshal_GetContainerContents =
         (\<lambda>b. (\<lparr> Name = [], GetContainerContents_NextMarker = [], MaxKeys = [],
                   Contents = [], CommonPrefixes = [], IsTruncated = False \<rparr>, False)),
       readAllCapnpMessages = (\<lambda>b. []),
       headers_of = (\<lambda>t. []),
       seekShardsInputTypeToString = (\<lambda>t. []) \<rparr>"

definition ok_response :: HTTPResponse where
  "ok_response = \<lparr> StatusCode = 200, Header = [], Body = [] \<rparr>"

definition sample_context :: client_context where
  "sample_context =
     \<lparr> httpClient = (\<lambda>n call. Inr ok_response), connSemaphore = None, numWorkers = 8 \<rparr>"

definition sample_dpi :: DataPlaneInput where
  "sample_dpi =
     \<lparr> URL = ''https://h'', ContainerName = ''c'', AuthenticationToken = [], AccessKey = [],
       MtimeSec = [], MtimeNsec = [], Timeout = 0, IncludeResponseInError = False \<rparr>"

definition no_calls :: net where
  "no_calls = \<lparr> calls = [] \<rparr>"

text \<open>
  The listing request of \<open>DeleteStreamSync\<close>, and sample surroundings for it: a
  standard library whose XML decoder finds one shard, and a transport that answers the
  second call (the deletion of that shard) with status 500.
\<close>

definition listingInput :: "DeleteStreamInput \<Rightarrow> GetContainerContentsInput" where
  "listingInput deleteStreamInput =
     \<lparr> GetContainerContents_dpi = DeleteStream_dpi deleteStreamInput,
       GetContainerContents_Path = DeleteStream_Path deleteStreamInput,
       GetAllAttributes = False, DirectoriesOnly = False,
       GetContainerContents_Limit = 0, GetContainerContents_Marker = [] \<rparr>"

definition one_shard_stdlib :: stdlib where
  "one_shard_stdlib =
     sample_stdlib \<lparr> xml_Unmarshal_GetContainerContents :=
       (\<lambda>b. (\<lparr> Name = [], GetContainerContents_NextMarker = [], MaxKeys = [],
                 Contents = [\<lparr> Key = ''s/0'', Mode = [] \<rparr>], CommonPrefixes = [],
                 IsTruncated = False \<rparr>, True)) \<rparr>"

definition second_call_fails :: client_context where
  "second_call_fails =
     sample_context \<lparr> httpClient :=
       (\<lambda>n call. if n = 1 then Inr \<lparr> StatusCode = 500, Header = [], Body = [] \<rparr>
                  else Inr ok_response) \<rparr>"

text \<open>
  A sample request for items with the wildcard attribute name, a response without a
  \<open>Content-Type\<close> header (so that the JSON envelope is expected), and a standard library
  whose JSON decoder finds one item with the single attribute \<open>a\<close>.
\<close>

definition wildcard_input :: GetItemsInput where
  "wildcard_input =
     \<lparr> GetItems_dpi = sample_dpi, GetItems_Path = ''/t/'', TableName = [],
       AttributeNames = [''*''], Filter = [], Marker = [], ShardingKey = [], Limit = 0,
       Segment = 0, TotalSegments = 0, SortKeyRangeStart = [], SortKeyRangeEnd = [],
       AllowObjectScatter = [], ReturnData = [], ReturnAllInodes = False, DataMaxSize = 0,
       RequestJSONResponse = True, ChokeGetItemsMS = 0 \<rparr>"

definition one_item_stdlib :: stdlib where
  "one_item_stdlib =
     sample_stdlib \<lparr> json_Unmarshal_getItemsResponse :=
       (\<lambda>b. Some \<lparr> getItemsResponse_Items = [[(''a'', [(''S'', TString ''x'')])]],
                    getItemsResponse_NextMarker = [], LastItemIncluded = ''TRUE'',
                    getItemsResponse_Scattered = [] \<rparr>) \<rparr>"

text \<open>
  A framed answer of two sections whose metadata section holds one item named \<open>k1\<close>
  without attributes, and a response that announces the capnp content type.
\<close>

definition one_capnp_item :: "capnp_message list" where
  "one_capnp_item =
     [\<lparr> ReadRootMetadataPayload = Inl ''not a metadata payload'',
         ReadRootDataPayload = Inl ''not a data payload'' \<rparr>,
      \<lparr> ReadRootMetadataPayload =
           Inr \<lparr> KeyMap_Names_Arr = Inr (Inr (Inr [])),
                 ValueMap_Values = Inr (Inr []),
                 capnp_Items = Inr [Inr \<lparr> capnp_Name = Inr ''k1'', capnp_Attrs = Inr [] \<rparr>] \<rparr>,
         ReadRootDataPayload = Inl ''not a data payload'' \<rparr>]"

definition capnp_stdlib :: stdlib where
  "capnp_stdlib = sample_stdlib \<lparr> readAllCapnpMessages := (\<lambda>b. one_capnp_item) \<rparr>"

definition capnp_response :: "unit Response" where
  "capnp_response =
     allocateResponse
       \<lparr> HTTPResponse :=
           Some \<lparr> StatusCode = 200, Header = [(''Content-Type'', ''application/octet-capnp'')],
                  Body = [] \<rparr> \<rparr>"

section \<open>The attribute kinds of the specification\<close>

text \<open>
  Following the words of the specification: an attribute value is of one of six kinds, a
  signed 64-bit integer, a double-precision float (its bit pattern), a UTF-8 string, a
  byte blob, a boolean or a time stamp (seconds and nanoseconds).  \<open>spec_value\<close> reads a
  Go value as a value of the specification: both \<open>int\<close> and \<open>int64\<close> are the signed
  64-bit integer; an \<open>uint64\<close> and a value of any other type are of none of the six kinds.
\<close>

datatype spec_attribute =
    SInteger int
  | SFloat "64 word"
  | SString string
  | SBlob bytes
  | SBoolean bool
  | STimestamp int nat

fun spec_value :: "attr_value \<Rightarrow> spec_attribute option" where
  "spec_value (VInt v) = Some (SInteger (sint v))"
| "spec_value (VInt64 v) = Some (SInteger (sint v))"
| "spec_value (VFloat64 v) = Some (SFloat v)"
| "spec_value (VString v) = Some (SString v)"
| "spec_value (VBytes v) = Some (SBlob v)"
| "spec_value (VBool v) = Some (SBoolean v)"
| "spec_value (VTime v) =
     (if valid_Time v then Some (STimestamp (sint (Unix v)) (Nanosecond v)) else None)"
| "spec_value (VUint64 v) = None"
| "spec_value (VUnsupported t) = None"

text \<open>
  What the client relies on from \<open>strconv\<close> for a float: the rendering in format \<open>E\<close> with
  the shortest precision parses back to the same float, and it is no decimal integer (it
  holds an exponent, or is \<open>NaN\<close> or an infinity).
\<close>

definition float_round_trip :: "stdlib \<Rightarrow> 64 word \<Rightarrow> bool" where
  "float_round_trip L f =
     (ParseFloat L (FormatFloat L f) = Inr f
      \<and> (case Atoi (FormatFloat L f) of Inl _ \<Rightarrow> True | Inr _ \<Rightarrow> False))"

text \<open>
  A standard library that renders and parses the float 1.0, and an item with one
  attribute of each of the six kinds.
\<close>

definition float_stdlib :: stdlib where
  "float_stdlib =
     sample_stdlib
       \<lparr> FormatFloat := (\<lambda>f. if f = 0x3FF0000000000000 then ''1E+00'' else ''NaN''),
         ParseFloat := (\<lambda>s. if s = ''1E+00'' then Inr 0x3FF0000000000000 else Inl ErrSyntax) \<rparr>"

definition sample_item :: Item where
  "sample_item =
     [(''age'', VInt 30), (''ratio'', VFloat64 0x3FF0000000000000),
      (''name'', VString ''foo''), (''raw'', VBytes [CHR 0x00, CHR 0xFF, CHR ''a'', CHR ''b'']),
      (''ok'', VBool True), (''at'', VTime (Time 1600000000 5))]"

section \<open>Properties of the number parsers\<close>

lemma foldl_horner_mono:
  "list_all (digit_below base) s \<Longrightarrow> n \<le> foldl (horner base) n s"
proof (induction s arbitrary: n)
  case Nil
  then show ?case by simp
next
  case (Cons c cs)
  then obtain d where d: "digit_val c = Some d" "d < base"
    by (auto simp: digit_below_def split: option.splits)
  then have "0 < base" by simp
  then have "n \<le> n * base + d" by (cases base) auto
  also have "\<dots> \<le> foldl (horner base) (n * base + d) cs" using Cons by simp
  finally have "n \<le> foldl (horner base) (n * base + d) cs" .
  moreover have "horner base n c = n * base + d" using d by (simp add: horner_def)
  ultimately show ?case by simp
qed

lemma parse_digits_Inr_iff:
  "n \<le> maxVal \<Longrightarrow>
   parse_digits base maxVal n s = Inr v \<longleftrightarrow>
     list_all (digit_below base) s \<and> foldl (horner base) n s \<le> maxVal
       \<and> v = foldl (horner base) n s"
proof (induction s arbitrary: n)
  case Nil
  then show ?case by auto
next
  case (Cons c cs)
  show ?case
  proof (cases "digit_val c")
    case None
    then have "\<not> digit_below base c" by (simp add: digit_below_def)
    with None show ?thesis by simp
  next
    case (Some d)
    then have step: "horner base n c = n * base + d" by (simp add: horner_def)
    show ?thesis
    proof (cases "base \<le> d")
      case True
      with Some have "\<not> digit_below base c" by (simp add: digit_below_def)
      with True Some show ?thesis by simp
    next
      case False
      with Some have db: "digit_below base c" by (simp add: digit_below_def)
      show ?thesis
      proof (cases "maxVal < n * base + d")
        case True
        have "list_all (digit_below base) cs \<Longrightarrow>
              n * base + d \<le> foldl (horner base) (n * base + d) cs"
          by (rule foldl_horner_mono)
        with True Some False db step show ?thesis by auto
      next
        case fits: False
        then have "n * base + d \<le> maxVal" by simp
        from Cons.IH [OF this] Some False fits db step show ?thesis by simp
      qed
    qed
  qed
qed

lemma ParseUint_Inr_iff:
  "ParseUint s base bitSize = Inr v \<longleftrightarrow>
     is_numeral base s \<and> digits_value base s < 2 ^ bitSize \<and> v = digits_value base s"
proof -
  have "(x \<le> 2 ^ bitSize - Suc 0) = (x < 2 ^ bitSize)" for x :: nat
    by (metis One_nat_def Suc_pred' less_Suc_eq_le zero_less_numeral zero_less_power)
  then show ?thesis
    by (auto simp: ParseUint_def is_numeral_def digits_value_def parse_digits_Inr_iff)
qed

lemma ParseUint_cases:
  "ParseUint s base bitSize = Inr (digits_value base s) \<and> is_numeral base s
       \<and> digits_value base s < 2 ^ bitSize
   \<or> (\<exists>e. ParseUint s base bitSize = Inl e)
       \<and> \<not> (is_numeral base s \<and> digits_value base s < 2 ^ bitSize)"
proof (cases "ParseUint s base bitSize")
  case (Inl e)
  then show ?thesis using ParseUint_Inr_iff [of s base bitSize] by auto
next
  case (Inr v)
  then show ?thesis using ParseUint_Inr_iff [of s base bitSize v] by auto
qed

section \<open>Consumer-group defaults\<close>

text \<open>
  Claim C9 as stated: the default session timeout is three times the default heartbeat
  interval.  The defaults are 10 s and 3 s, so the equation fails.
\<close>

theorem NewConfig_timeout_not_three_heartbeats:
  "Session_Timeout NewConfig \<noteq> 3 * Session_HeartbeatInterval NewConfig"
  by (simp add: NewConfig_def Second_def Millisecond_def)

text \<open>
  Claim C9, amended: under the configuration produced by \<open>NewConfig\<close> the session timeout
  is 10 seconds and the heartbeat interval 3 seconds; the timeout lies strictly between
  three and four heartbeat intervals (9 s < 10 s < 12 s), so three missed intervals do not
  yet exhaust it.
\<close>

theorem NewConfig_session_defaults:
  "Session_Timeout NewConfig = 10 * Second
   \<and> Session_HeartbeatInterval NewConfig = 3 * Second
   \<and> sint (Session_Timeout NewConfig) = 10000000000
   \<and> sint (3 * Session_HeartbeatInterval NewConfig) = 9000000000
   \<and> sint (4 * Session_HeartbeatInterval NewConfig) = 12000000000
   \<and> sint (3 * Session_HeartbeatInterval NewConfig) < sint (Session_Timeout NewConfig)
   \<and> sint (Session_Timeout NewConfig) < sint (4 * Session_HeartbeatInterval NewConfig)"
  by (simp add: NewConfig_def Second_def Millisecond_def)

section \<open>File-mode decoding\<close>

lemma spec_remap_bits:
  "spec_remap m = take_bit 32 (push_bit 29 (take_bit 4 (drop_bit 12 m)) OR take_bit 13 m)"
proof -
  have "push_bit 29 (take_bit 4 (drop_bit 12 m)) + take_bit 13 m
      = push_bit 29 (take_bit 4 (drop_bit 12 m)) OR take_bit 13 m"
    by (rule disjunctive_add_eq_or, rule bit_eqI) (auto simp: bit_simps)
  then show ?thesis
    by (simp add: spec_remap_def take_bit_eq_mod drop_bit_eq_div push_bit_eq_mult)
qed

lemma remap_word:
  "(ucast (push_bit 17 ((word_of_nat m :: 64 word) AND S_IFMT)
             OR ((word_of_nat m :: 64 word) AND IP_OFFMASK)) :: 32 word)
     = word_of_nat (spec_remap m)"
proof -
  have nibble: "(0xf000 :: 64 word) = push_bit 12 (mask 4)"
    by (simp add: mask_eq_exp_minus_1)
  have low: "(0x1fff :: 64 word) = mask 13"
    by (simp add: mask_eq_exp_minus_1)
  show ?thesis
    unfolding S_IFMT_def IP_OFFMASK_def nibble low spec_remap_bits
    by (rule bit_word_eqI) (auto simp: bit_simps)
qed

lemma ucast_word_of_nat_64_32:
  "(ucast (word_of_nat m :: 64 word) :: 32 word) = word_of_nat m"
  by (rule bit_word_eqI) (auto simp: bit_simps)

lemma mode_octal:
  assumes "take 1 s = ''0''"
  shows "mode s = (case ParseUint s 8 32 of
                     Inl err \<Rightarrow> (ucast S_IFMT, Some err)
                   | Inr m \<Rightarrow> (word_of_nat (spec_remap m), None))"
proof (cases "ParseUint s 8 32")
  case (Inl err)
  with assms show ?thesis by (simp add: mode_def)
next
  case (Inr m)
  with assms have "mode s =
      (ucast (push_bit 17 ((word_of_nat m :: 64 word) AND S_IFMT)
                OR ((word_of_nat m :: 64 word) AND IP_OFFMASK)), None)"
    by (simp only: mode_def Let_def refl if_True sum.case)
  with Inr show ?thesis by (simp only: remap_word sum.case)
qed

lemma mode_decimal:
  "take 1 s \<noteq> ''0'' \<Longrightarrow>
   mode s = (case ParseUint s 10 32 of
               Inl err \<Rightarrow> (ucast S_IFMT, Some err)
             | Inr m \<Rightarrow> (word_of_nat m, None))"
  by (simp add: mode_def Let_def ucast_word_of_nat_64_32 split: sum.splits)

lemmas mode_eval =
  mode_def ParseUint_def digit_val_def byte_of_def S_IFMT_def IP_OFFMASK_def
  IsRegular_def IsDir_def Perm_def ModeType_def ModePerm_def ModeDir_def ModeSymlink_def
  ModeDevice_def ModeNamedPipe_def ModeSocket_def ModeCharDevice_def ModeIrregular_def

text \<open>
  Claim C4: a mode string that begins with \<open>0\<close> is read in base 8 and remapped (the
  file-type nibble moved up by 17 bits, the low 13 bits kept, the result stored in the 32
  bits of a file mode); any other mode string is read in base 10 and taken as it is; a
  string that is no numeral of its base, or does not fit 32 bits, is an error.  Both
  \<open>0100664\<close> and \<open>33204\<close> decode without error to a regular file with permission bits
  0664 (decimal 436).
\<close>

theorem mode_decoding:
  "(\<forall>s. take 1 s = ''0'' \<and> is_numeral 8 s \<and> digits_value 8 s < 2 ^ 32 \<longrightarrow>
        mode s = (word_of_nat (spec_remap (digits_value 8 s)), None))
   \<and> (\<forall>s. take 1 s \<noteq> ''0'' \<and> is_numeral 10 s \<and> digits_value 10 s < 2 ^ 32 \<longrightarrow>
        mode s = (word_of_nat (digits_value 10 s), None))
   \<and> (\<forall>s. snd (mode s) = None \<longrightarrow>
        is_numeral (if take 1 s = ''0'' then 8 else 10) s
        \<and> digits_value (if take 1 s = ''0'' then 8 else 10) s < 2 ^ 32)
   \<and> snd (mode ''0100664'') = None
   \<and> IsRegular (fst (mode ''0100664'')) \<and> Perm (fst (mode ''0100664'')) = 436
   \<and> snd (mode ''33204'') = None
   \<and> IsRegular (fst (mode ''33204'')) \<and> Perm (fst (mode ''33204'')) = 436"
proof (intro conjI allI impI)
  fix s
  assume "take 1 s = ''0'' \<and> is_numeral 8 s \<and> digits_value 8 s < 2 ^ 32"
  then show "mode s = (word_of_nat (spec_remap (digits_value 8 s)), None)"
    using ParseUint_cases [of s 8 32] by (auto simp: mode_octal)
next
  fix s
  assume "take 1 s \<noteq> ''0'' \<and> is_numeral 10 s \<and> digits_value 10 s < 2 ^ 32"
  then show "mode s = (word_of_nat (digits_value 10 s), None)"
    using ParseUint_cases [of s 10 32] by (auto simp: mode_decimal)
next
  fix s
  assume ok: "snd (mode s) = None"
  show "is_numeral (if take 1 s = ''0'' then 8 else 10) s"
    using ok ParseUint_cases [of s 8 32] ParseUint_cases [of s 10 32]
    by (cases "take 1 s = ''0''") (auto simp: mode_octal mode_decimal)
  show "digits_value (if take 1 s = ''0'' then 8 else 10) s < 2 ^ 32"
    using ok ParseUint_cases [of s 8 32] ParseUint_cases [of s 10 32]
    by (cases "take 1 s = ''0''") (auto simp: mode_octal mode_decimal)
qed (simp_all add: mode_eval)

theorem mode_decoding_witness:
  "take 1 ''040775'' = ''0'' \<and> is_numeral 8 ''040775'' \<and> digits_value 8 ''040775'' < 2 ^ 32
   \<and> mode ''040775'' = (ModeDir OR 509, None) \<and> IsDir (fst (mode ''040775''))
   \<and> take 1 ''33204'' \<noteq> ''0'' \<and> is_numeral 10 ''33204'' \<and> digits_value 10 ''33204'' < 2 ^ 32
   \<and> mode ''33204'' = (33204, None)
   \<and> snd (mode ''0100664'') = None \<and> is_numeral 8 ''0100664''
   \<and> digits_value 8 ''0100664'' = 33204"
proof -
  have oct: "take 1 ''040775'' = ''0'' \<and> is_numeral 8 ''040775''
               \<and> digits_value 8 ''040775'' < 2 ^ 32"
    by (simp add: is_numeral_def digits_value_def digit_below_def horner_def
          digit_val_def byte_of_def)
  have dec: "take 1 ''33204'' \<noteq> ''0'' \<and> is_numeral 10 ''33204''
               \<and> digits_value 10 ''33204'' < 2 ^ 32"
    by (simp add: is_numeral_def digits_value_def digit_below_def horner_def
          digit_val_def byte_of_def)
  have ok: "snd (mode ''0100664'') = None"
    by (simp add: mode_eval)
  from mode_decoding oct
  have m1: "mode ''040775'' = (word_of_nat (spec_remap (digits_value 8 ''040775'')), None)"
    by blast
  from mode_decoding dec
  have m2: "mode ''33204'' = (word_of_nat (digits_value 10 ''33204''), None)"
    by blast
  from mode_decoding ok
  have m3: "is_numeral (if take 1 ''0100664'' = ''0'' then 8 else 10) ''0100664''"
    by blast
  have v1: "(word_of_nat (spec_remap (digits_value 8 ''040775'')) :: 32 word) = ModeDir OR 509"
    by (simp add: spec_remap_def digits_value_def horner_def digit_val_def byte_of_def
          ModeDir_def)
  have v2: "digits_value 10 ''33204'' = 33204" "digits_value 8 ''0100664'' = 33204"
    by (simp_all add: digits_value_def horner_def digit_val_def byte_of_def)
  have d: "IsDir (ModeDir OR 509)"
    by (simp add: IsDir_def ModeDir_def)
  from oct dec ok m1 m2 m3 v1 v2 d show ?thesis by simp
qed

section \<open>The modification-time header\<close>

lemmas strconv_eval = Atoi_def ParseInt64_def ParseUint_def digit_val_def byte_of_def

lemmas trim_eval = TrimSpace_def space_runes_def strip_prefixes_None strip_prefixes_Some

lemma split_aux_nonempty: "split_aux sep k acc s \<noteq> []"
  by (induction sep k acc s rule: split_aux.induct) auto

lemma Split_nonempty: "Split s sep \<noteq> []"
  by (simp add: Split_def split_aux_nonempty)

lemma TrimSpace_mtime_names:
  "TrimSpace ''__mtime_secs'' = ''__mtime_secs''"
  "TrimSpace '' __mtime_nsecs'' = ''__mtime_nsecs''"
  "TrimSpace ''1 '' = ''1''" "TrimSpace ''1'' = ''1''" "TrimSpace ''2'' = ''2''"
  "TrimSpace ''foo'' = ''foo''"
  by (simp_all add: trim_eval)

lemma Atoi_small: "Atoi ''1'' = Inr 1" "Atoi ''2'' = Inr 2"
  by (simp_all add: strconv_eval)

lemma parseMtimeHeaderValue_example:
  "parseMtimeHeaderValue ''__mtime_secs==1 and __mtime_nsecs==2'' = MtimeOk 1 2"
proof -
  have s: "Split ''__mtime_secs==1 and __mtime_nsecs==2'' ''and''
             = [''__mtime_secs==1 '', '' __mtime_nsecs==2'']"
    by (simp add: Split_def)
  have p1: "Split ''__mtime_secs==1 '' ''=='' = [''__mtime_secs'', ''1 '']"
    by (simp add: Split_def)
  have p2: "Split '' __mtime_nsecs==2'' ''=='' = ['' __mtime_nsecs'', ''2'']"
    by (simp add: Split_def)
  show ?thesis
    by (simp add: parseMtimeHeaderValue_def s p1 p2 TrimSpace_mtime_names Atoi_small
          trimAndParseInt_def)
qed

text \<open>
  An expression without \<open>==\<close> whose name is one of the two known ones makes the index
  expression \<open>mtimeParts[1]\<close> panic.
\<close>

lemma parseMtimeHeaderValue_index_panic:
  "parseMtimeHeaderValue ''__mtime_secs'' = MtimePanic"
proof -
  have s: "Split ''__mtime_secs'' ''and'' = [''__mtime_secs'']"
    by (simp add: Split_def)
  have p: "Split ''__mtime_secs'' ''=='' = [''__mtime_secs'']"
    by (simp add: Split_def)
  show ?thesis
    by (simp add: parseMtimeHeaderValue_def s p TrimSpace_mtime_names)
qed

lemma parseMtimeExpressions_no_panic:
  "list_all (\<lambda>e. known_mtime_name e \<longrightarrow> 2 \<le> length (Split e ''=='')) es \<Longrightarrow>
   parseMtimeExpressions a b es \<noteq> MtimePanic"
proof (induction es arbitrary: a b)
  case Nil
  then show ?case by simp
next
  case (Cons e es)
  then have e: "known_mtime_name e \<longrightarrow> \<not> length (Split e ''=='') < 2"
    and rest: "list_all (\<lambda>e. known_mtime_name e \<longrightarrow> 2 \<le> length (Split e ''=='')) es"
    by auto
  from e Cons.IH [OF rest] show ?case
    by (auto simp: known_mtime_name_def Let_def split: sum.splits)
qed

lemma parseMtimeExpressions_outcome:
  "parseMtimeExpressions a b es \<noteq> MtimePanic \<Longrightarrow>
   (if list_all mtime_expression_ok es
    then \<exists>s n. parseMtimeExpressions a b es = MtimeOk s n
    else \<exists>err. parseMtimeExpressions a b es = MtimeErr err)"
proof (induction es arbitrary: a b)
  case Nil
  then show ?case by simp
next
  case (Cons e es)
  show ?case
  proof (cases "mtime_expression_ok e")
    case True
    then obtain v where v: "trimAndParseInt (Split e ''=='' ! 1) = Inr v"
      and len: "\<not> length (Split e ''=='') < 2"
      by (auto simp: mtime_expression_ok_def Let_def split: sum.splits)
    from True have "TrimSpace (hd (Split e ''=='')) = ''__mtime_secs''
                  \<or> TrimSpace (hd (Split e ''=='')) = ''__mtime_nsecs''"
      by (auto simp: mtime_expression_ok_def known_mtime_name_def Let_def)
    then show ?thesis
    proof
      assume "TrimSpace (hd (Split e ''=='')) = ''__mtime_secs''"
      then have step: "parseMtimeExpressions a b (e # es) = parseMtimeExpressions v b es"
        using len v by (simp add: Let_def)
      with Cons.prems have "parseMtimeExpressions v b es \<noteq> MtimePanic"
        by simp
      from Cons.IH [OF this] step True show ?thesis by simp
    next
      assume "TrimSpace (hd (Split e ''=='')) = ''__mtime_nsecs''"
      then have step: "parseMtimeExpressions a b (e # es) = parseMtimeExpressions a v es"
        using len v by (simp add: Let_def)
      with Cons.prems have "parseMtimeExpressions a v es \<noteq> MtimePanic"
        by simp
      from Cons.IH [OF this] step True show ?thesis by simp
    qed
  next
    case False
    with Cons.prems have "\<exists>err. parseMtimeExpressions a b (e # es) = MtimeErr err"
      by (auto simp: mtime_expression_ok_def known_mtime_name_def Let_def
          split: sum.splits if_splits)
    with False show ?thesis by simp
  qed
qed

text \<open>
  Claim C3 as stated: every header that is not of the shape
  \<open>__mtime_secs==<n> and __mtime_nsecs==<n>\<close> is answered with an error.  The header
  \<open>__mtime_secs==1\<close> is not of that shape, and it is accepted with the pair (1, 0).
\<close>

theorem parseMtimeHeader_accepts_single_expression:
  "\<not> literal_mtime_shape ''__mtime_secs==1''
   \<and> parseMtimeHeaderValue ''__mtime_secs==1'' = MtimeOk 1 0"
proof -
  have s: "Split ''__mtime_secs==1'' ''and'' = [''__mtime_secs==1'']"
    by (simp add: Split_def)
  have s': "Split ''__mtime_secs==1'' '' and '' = [''__mtime_secs==1'']"
    by (simp add: Split_def)
  have p: "Split ''__mtime_secs==1'' ''=='' = [''__mtime_secs'', ''1'']"
    by (simp add: Split_def)
  show ?thesis
    by (simp add: parseMtimeHeaderValue_def literal_mtime_shape_def s s' p
          TrimSpace_mtime_names Atoi_small trimAndParseInt_def)
qed

lemma TrimSpace_more:
  "TrimSpace [] = []" "TrimSpace ''9223372036854775808'' = ''9223372036854775808''"
  "TrimSpace '' '' = []"
  by (simp_all add: trim_eval)

lemma Atoi_out_of_range: "Atoi ''9223372036854775808'' = Inl ErrRange"
  by (simp add: strconv_eval)

text \<open>
  Claim C3, amended: the header \<open>__mtime_secs==1 and __mtime_nsecs==2\<close> parses to (1, 2).
  A header is cut at every \<open>and\<close> into expressions and an expression at every \<open>==\<close>
  into pieces.  On every header in which each expression whose first piece trims to
  \<open>__mtime_secs\<close> or \<open>__mtime_nsecs\<close> contains a \<open>==\<close>, the parser returns (it does not
  run into the index \<open>mtimeParts[1]\<close> of a list of one piece).  Whenever the parser
  returns, it returns success if every expression has a first piece that trims to one of
  the two names, has a second piece, and \<open>strconv.Atoi\<close> accepts the trimmed second
  piece; otherwise it returns an error.  So the absent header, an unknown name, a
  second piece that is no decimal integer of 64 bits and a trailing \<open>and\<close> are errors,
  while fewer, more or reordered expressions, white space around the pieces, and further
  pieces after the second are accepted.
\<close>

theorem parseMtimeHeader_outcome:
  "parseMtimeHeaderValue ''__mtime_secs==1 and __mtime_nsecs==2'' = MtimeOk 1 2
   \<and> (\<forall>h. list_all (\<lambda>e. known_mtime_name e \<longrightarrow> 2 \<le> length (Split e ''==''))
              (Split h ''and'') \<longrightarrow>
         parseMtimeHeaderValue h \<noteq> MtimePanic)
   \<and> (\<forall>h. parseMtimeHeaderValue h \<noteq> MtimePanic \<longrightarrow>
         (if list_all mtime_expression_ok (Split h ''and'')
          then \<exists>s n. parseMtimeHeaderValue h = MtimeOk s n
          else \<exists>err. parseMtimeHeaderValue h = MtimeErr err))"
proof (intro conjI allI impI)
  show "parseMtimeHeaderValue ''__mtime_secs==1 and __mtime_nsecs==2'' = MtimeOk 1 2"
    by (rule parseMtimeHeaderValue_example)
next
  fix h
  assume "list_all (\<lambda>e. known_mtime_name e \<longrightarrow> 2 \<le> length (Split e ''==''))
            (Split h ''and'')"
  then show "parseMtimeHeaderValue h \<noteq> MtimePanic"
    unfolding parseMtimeHeaderValue_def by (rule parseMtimeExpressions_no_panic)
next
  fix h
  assume "parseMtimeHeaderValue h \<noteq> MtimePanic"
  then show "if list_all mtime_expression_ok (Split h ''and'')
             then \<exists>s n. parseMtimeHeaderValue h = MtimeOk s n
             else \<exists>err. parseMtimeHeaderValue h = MtimeErr err"
    unfolding parseMtimeHeaderValue_def by (rule parseMtimeExpressions_outcome)
qed

theorem parseMtimeHeader_outcome_witness:
  "(\<exists>err. parseMtimeHeaderValue [] = MtimeErr err)
   \<and> (\<exists>err. parseMtimeHeaderValue ''foo'' = MtimeErr err)
   \<and> (\<exists>err. parseMtimeHeaderValue ''__mtime_secs==1 and '' = MtimeErr err)
   \<and> (\<exists>err. parseMtimeHeaderValue ''__mtime_secs==9223372036854775808'' = MtimeErr err)
   \<and> (\<exists>s n. parseMtimeHeaderValue ''__mtime_secs==1'' = MtimeOk s n)
   \<and> (\<exists>s n. parseMtimeHeaderValue ''__mtime_secs==1==2'' = MtimeOk s n)"
proof -
  note returns = parseMtimeHeader_outcome [THEN conjunct2, THEN conjunct1, rule_format]
  note outcome = parseMtimeHeader_outcome [THEN conjunct2, THEN conjunct2, rule_format]
  have s: "Split [] ''and'' = [[]]" "Split ''foo'' ''and'' = [''foo'']"
    "Split ''__mtime_secs==1 and '' ''and'' = [''__mtime_secs==1 '', '' '']"
    "Split ''__mtime_secs==9223372036854775808'' ''and''
       = [''__mtime_secs==9223372036854775808'']"
    "Split ''__mtime_secs==1'' ''and'' = [''__mtime_secs==1'']"
    "Split ''__mtime_secs==1==2'' ''and'' = [''__mtime_secs==1==2'']"
    by (simp_all add: Split_def)
  have p: "Split [] ''=='' = [[]]" "Split ''foo'' ''=='' = [''foo'']"
    "Split ''__mtime_secs==1 '' ''=='' = [''__mtime_secs'', ''1 '']"
    "Split '' '' ''=='' = ['' '']"
    "Split ''__mtime_secs==9223372036854775808'' ''==''
       = [''__mtime_secs'', ''9223372036854775808'']"
    "Split ''__mtime_secs==1'' ''=='' = [''__mtime_secs'', ''1'']"
    "Split ''__mtime_secs==1==2'' ''=='' = [''__mtime_secs'', ''1'', ''2'']"
    by (simp_all add: Split_def)
  note ev = s p known_mtime_name_def mtime_expression_ok_def trimAndParseInt_def
    TrimSpace_mtime_names TrimSpace_more Atoi_small Atoi_out_of_range
  have r1: "\<exists>err. parseMtimeHeaderValue [] = MtimeErr err"
  proof -
    have "list_all (\<lambda>e. known_mtime_name e \<longrightarrow> 2 \<le> length (Split e ''=='')) (Split [] ''and'')"
      by (simp add: ev)
    from outcome [OF returns [OF this]] show ?thesis
      by (simp add: ev)
  qed
  have r2: "\<exists>err. parseMtimeHeaderValue ''foo'' = MtimeErr err"
  proof -
    have "list_all (\<lambda>e. known_mtime_name e \<longrightarrow> 2 \<le> length (Split e ''==''))
            (Split ''foo'' ''and'')"
      by (simp add: ev)
    from outcome [OF returns [OF this]] show ?thesis
      by (simp add: ev)
  qed
  have r3: "\<exists>err. parseMtimeHeaderValue ''__mtime_secs==1 and '' = MtimeErr err"
  proof -
    have "list_all (\<lambda>e. known_mtime_name e \<longrightarrow> 2 \<le> length (Split e ''==''))
            (Split ''__mtime_secs==1 and '' ''and'')"
      by (simp add: ev)
    from outcome [OF returns [OF this]] show ?thesis
      by (simp add: ev)
  qed
  have r4: "\<exists>err. parseMtimeHeaderValue ''__mtime_secs==9223372036854775808'' = MtimeErr err"
  proof -
    have "list_all (\<lambda>e. known_mtime_name e \<longrightarrow> 2 \<le> length (Split e ''==''))
            (Split ''__mtime_secs==9223372036854775808'' ''and'')"
      by (simp add: ev)
    from outcome [OF returns [OF this]] show ?thesis
      by (simp add: ev)
  qed
  have r5: "\<exists>s n. parseMtimeHeaderValue ''__mtime_secs==1'' = MtimeOk s n"
  proof -
    have "list_all (\<lambda>e. known_mtime_name e \<longrightarrow> 2 \<le> length (Split e ''==''))
            (Split ''__mtime_secs==1'' ''and'')"
      by (simp add: ev)
    from outcome [OF returns [OF this]] show ?thesis
      by (simp add: ev)
  qed
  have r6: "\<exists>s n. parseMtimeHeaderValue ''__mtime_secs==1==2'' = MtimeOk s n"
  proof -
    have "list_all (\<lambda>e. known_mtime_name e \<longrightarrow> 2 \<le> length (Split e ''==''))
            (Split ''__mtime_secs==1==2'' ''and'')"
      by (simp add: ev)
    from outcome [OF returns [OF this]] show ?thesis
      by (simp add: ev)
  qed
  from r1 r2 r3 r4 r5 r6 show ?thesis by blast
qed

section \<open>The retry policy of sendRequest\<close>


lemma retry_stops:
  "(\<forall>i<k. httpClient c (length (calls st) + i) call = Inl ErrConnectionClosed) \<Longrightarrow>
   httpClient c (length (calls st) + k) call = r \<Longrightarrow> r \<noteq> Inl ErrConnectionClosed \<Longrightarrow> k < n \<Longrightarrow>
   retry n c call prev st = (r, st \<lparr> calls := calls st @ replicate (Suc k) call \<rparr>)"
proof (induction n arbitrary: st prev k)
  case 0
  then show ?case by simp
next
  case (Suc n)
  show ?case
  proof (cases k)
    case 0
    with Suc.prems show ?thesis by (simp add: perform_def)
  next
    case (Suc j)
    let ?st = "st \<lparr> calls := calls st @ [call] \<rparr>"
    from Suc.prems Suc have first: "httpClient c (length (calls st)) call = Inl ErrConnectionClosed"
      by (metis add.right_neutral zero_less_Suc)
    have a: "\<forall>i<j. httpClient c (length (calls ?st) + i) call = Inl ErrConnectionClosed"
      using Suc.prems(1) Suc by auto
    have b: "httpClient c (length (calls ?st) + j) call = r"
      using Suc.prems(2) Suc by simp
    have "j < n" using Suc.prems(4) Suc by simp
    from Suc.IH [OF a b Suc.prems(3) this]
    have "retry n c call (Inl ErrConnectionClosed) ?st
        = (r, ?st \<lparr> calls := calls ?st @ replicate (Suc j) call \<rparr>)" .
    with first Suc show ?thesis
      by (simp add: perform_def replicate_app_Cons_same)
  qed
qed

lemma sendRequest_with_uri:
  assumes "ContainerName dpi \<noteq> []"
    and "buildRequestURI L (URL dpi) (ContainerName dpi) query path = Inr uri"
  shows "sendRequest L c dpi verb path query headers body rel st =
     (case retry 8 c (initRequest uri dpi verb headers body) (Inr AcquireResponse) st of
        (r, st') \<Rightarrow>
          (case outcome_error dpi r of
             Some err \<Rightarrow> ((None, Some err), st')
           | None \<Rightarrow>
               if rel then ((None, None), st')
               else ((Some (allocateResponse
                        \<lparr> HTTPResponse := (case r of Inl _ \<Rightarrow> None | Inr h \<Rightarrow> Some h) \<rparr>), None), st')))"
  using assms
  by (auto simp: sendRequest_def outcome_error_def Let_def split: prod.splits sum.splits)


lemmas path_eval = path_Clean_def path_Join_def path_Dir_def path_Split_def elements_def
  clean_step_def HasSuffix_def



section \<open>Empty container names\<close>

lemma sendRequest_empty_container:
  "ContainerName dpi = [] \<Longrightarrow>
   sendRequest L c dpi verb path query headers body rel st
     = ((None, Some ErrEmptyContainerName), st)"
  by (simp add: sendRequest_def)

lemma rejected_before_io_iff:
  "rejected_before_io r st \<longleftrightarrow> (\<exists>e. r = ((None, Some e), st) \<and> input_validation_error e)"
  by (auto simp: rejected_before_io_def split: prod.splits option.splits)

lemma ive_simps [simp]:
  "input_validation_error ErrEmptyContainerName"
  "input_validation_error (ErrUnexpectedAttributeType n)"
  "input_validation_error ErrJSONMarshal"
  by (simp_all add: input_validation_error_def)

lemma rejected_send:
  "ContainerName dpi = [] \<Longrightarrow>
   rejected_before_io (sendRequest L c dpi verb path query headers body rel st) st"
  by (simp add: sendRequest_empty_container rejected_before_io_def)

lemma rejected_on_response:
  "rejected_before_io r st \<Longrightarrow> rejected_before_io (on_response r k) st"
  by (auto simp: rejected_before_io_def on_response_def split: prod.splits option.splits)

lemma rejected_error_only:
  "rejected_before_io r st \<Longrightarrow> rejected_before_io (error_to_sync (error_only r) :: 'c sync_result) st"
  by (auto simp: rejected_before_io_def error_to_sync_def error_only_def
      split: prod.splits option.splits)

lemma rejected_xml:
  "ContainerName dpi = [] \<Longrightarrow>
   rejected_before_io
     (sendRequestAndXMLUnmarshal L c dpi verb path query headers body unmarshal st) st"
  by (simp add: sendRequestAndXMLUnmarshal_def sendRequest_empty_container
      extractResponseFromError_def rejected_before_io_def)

lemma encodeTypedAttributes_error:
  "encodeTypedAttributes L attributes = Inl e \<Longrightarrow> input_validation_error e"
  by (induction attributes arbitrary: e) (auto split: option.splits sum.splits)

lemma rejected_putItem:
  "ContainerName dpi = [] \<Longrightarrow>
   rejected_before_io (putItem L c dpi path attributes condition headers body st) st"
  by (auto simp: putItem_def Let_def sendRequest_empty_container rejected_before_io_def
      encodeTypedAttributes_error split: sum.splits option.splits)

lemma rejected_updateItemWithExpression:
  "ContainerName dpi = [] \<Longrightarrow>
   rejected_before_io
     (updateItemWithExpression L c dpi path expression condition headers updateMode st) st"
  by (auto simp: updateItemWithExpression_def Let_def sendRequest_empty_container
      rejected_before_io_def split: option.splits)

lemma map_of_map_put: "map_of (map_put k v m) = (map_of m)(k \<mapsto> v)"
  by (induction m) auto

lemma putItems_loop_empty_container:
  assumes "ContainerName (PutItems_dpi i) = []"
  shows "\<exists>out'. putItems_loop L c i items out st = (out', st)
          \<and> (Success out' \<longleftrightarrow> Success out \<and> items = [])
          \<and> (\<forall>k. (k \<in> fst ` set items
                    \<or> (\<exists>e. map_of (Errors out) k = Some e \<and> input_validation_error e))
                 \<longrightarrow> (\<exists>e. map_of (Errors out') k = Some e \<and> input_validation_error e))"
proof (induction items arbitrary: out)
  case Nil
  then show ?case by simp
next
  case (Cons item items)
  obtain itemKey itemAttributes where item: "item = (itemKey, itemAttributes)"
    by (cases item)
  let ?r = "putItem L c (PutItems_dpi i) (PutItems_Path i @ ''/'' @ itemKey) itemAttributes
              (PutItems_Condition i) (headers_of L putItemHeaders) None st :: unit sync_result"
  have "rejected_before_io ?r st"
    using assms by (rule rejected_putItem)
  then obtain e where e: "?r = ((None, Some e), st)" "input_validation_error e"
    by (auto simp: rejected_before_io_iff)
  let ?out = "out \<lparr> Errors := map_put itemKey e (Errors out), Success := False \<rparr>"
  from Cons.IH [of ?out] obtain out' where
    o: "putItems_loop L c i items ?out st = (out', st)"
       "Success out' \<longleftrightarrow> Success ?out \<and> items = []"
       "\<forall>k. (k \<in> fst ` set items
                \<or> (\<exists>e. map_of (Errors ?out) k = Some e \<and> input_validation_error e))
             \<longrightarrow> (\<exists>e. map_of (Errors out') k = Some e \<and> input_validation_error e)"
    by blast
  have step: "putItems_loop L c i (item # items) out st = (out', st)"
    using e o(1) by (simp add: item)
  have keys: "\<exists>e'. map_of (Errors out') k = Some e' \<and> input_validation_error e'"
    if "k \<in> fst ` set (item # items)
        \<or> (\<exists>e. map_of (Errors out) k = Some e \<and> input_validation_error e)" for k
  proof (cases "k = itemKey")
    case True
    then have "map_of (Errors ?out) k = Some e" by (simp add: map_of_map_put)
    with e(2) o(3) show ?thesis by blast
  next
    case False
    then have "map_of (Errors ?out) k = map_of (Errors out) k" by (simp add: map_of_map_put)
    with that False item o(3) show ?thesis by auto
  qed
  from step o(2) keys show ?case by auto
qed

lemma rejected_error_result:
  "rejected_before_io (error_to_sync (Some e, st) :: 'c sync_result) st \<longleftrightarrow> input_validation_error e"
  by (simp add: rejected_before_io_def error_to_sync_def)

lemma rej_GetContainers:
  "ContainerName (GetContainers_dpi i) = [] \<Longrightarrow> rejected_before_io (GetContainersSync L c i st) st"
  by (simp add: GetContainersSync_def rejected_xml)

lemma rej_GetClusterMD:
  "ContainerName (GetClusterMD_dpi i) = [] \<Longrightarrow> rejected_before_io (GetClusterMDSync L c i st) st"
  by (simp add: GetClusterMDSync_def rejected_on_response rejected_send)

lemma rej_GetContainerContents:
  "ContainerName (GetContainerContents_dpi i) = [] \<Longrightarrow>
   rejected_before_io (GetContainerContentsSync L c i st) st"
  by (simp add: GetContainerContentsSync_def rejected_xml)

lemma rej_GetItem:
  "ContainerName (GetItem_dpi i) = [] \<Longrightarrow> rejected_before_io (GetItemSync L c i st) st"
  by (simp add: GetItemSync_def Let_def rejected_on_response rejected_send)

lemma rej_GetItems:
  "ContainerName (GetItems_dpi i) = [] \<Longrightarrow> rejected_before_io (GetItemsSync L c i st) st"
  by (simp add: GetItemsSync_def sendRequest_empty_container extractResponseFromError_def
      rejected_before_io_def split: option.splits)

lemma rej_PutItem:
  "ContainerName (PutItem_dpi i) = [] \<Longrightarrow> rejected_before_io (PutItemSync L c i st) st"
  by (simp add: PutItemSync_def Let_def rejected_on_response rejected_putItem)

lemma rej_UpdateItem:
  "ContainerName (UpdateItem_dpi i) = [] \<Longrightarrow>
   UpdateItem_Attributes i \<noteq> None \<or> UpdateItem_Expression i \<noteq> None \<Longrightarrow>
   rejected_before_io (UpdateItemSync L c i st) st"
  by (auto simp: UpdateItemSync_def Let_def rejected_on_response rejected_putItem
      rejected_updateItemWithExpression split: option.splits)

lemma UpdateItem_without_update:
  "UpdateItem_Attributes i = None \<Longrightarrow> UpdateItem_Expression i = None \<Longrightarrow>
   UpdateItemSync L c i st = ((None, None), st)"
  by (simp add: UpdateItemSync_def)

lemma rej_GetObject:
  "ContainerName (GetObject_dpi i) = [] \<Longrightarrow> rejected_before_io (GetObjectSync L c i st) st"
  by (simp add: GetObjectSync_def rejected_send)

lemma rej_PutObject:
  "ContainerName (PutObject_dpi i) = [] \<Longrightarrow>
   rejected_before_io (error_to_sync (PutObjectSync L c i st) :: 'c sync_result) st"
  by (simp add: PutObjectSync_def Let_def rejected_error_only rejected_send)

lemma rej_UpdateObject:
  "ContainerName (UpdateObject_dpi i) = [] \<Longrightarrow>
   rejected_before_io (error_to_sync (UpdateObjectSync L c i st) :: 'c sync_result) st"
  by (simp add: UpdateObjectSync_def Let_def rejected_error_only rejected_send
      rejected_error_result split: option.splits)

lemma rej_DeleteObject:
  "ContainerName (DeleteObject_dpi i) = [] \<Longrightarrow>
   rejected_before_io (error_to_sync (DeleteObjectSync L c i st) :: 'c sync_result) st"
  by (simp add: DeleteObjectSync_def rejected_error_only rejected_send)

lemma rej_CreateStream:
  "ContainerName (CreateStream_dpi i) = [] \<Longrightarrow>
   rejected_before_io (error_to_sync (CreateStreamSync L c i st) :: 'c sync_result) st"
  by (simp add: CreateStreamSync_def Let_def rejected_error_only rejected_send)

lemma rej_DescribeStream:
  "ContainerName (DescribeStream_dpi i) = [] \<Longrightarrow>
   rejected_before_io (DescribeStreamSync L c i st) st"
  by (simp add: DescribeStreamSync_def rejected_on_response rejected_send)

lemma rej_CheckPathExists:
  "ContainerName (CheckPathExists_dpi i) = [] \<Longrightarrow>
   rejected_before_io (error_to_sync (CheckPathExistsSync L c i st) :: 'c sync_result) st"
  by (simp add: CheckPathExistsSync_def rejected_error_only rejected_send)

lemma rej_DeleteStream:
  assumes "ContainerName (DeleteStream_dpi i) = []"
  shows "rejected_before_io (error_to_sync (DeleteStreamSync L c i st) :: 'c sync_result) st"
proof -
  let ?list = "\<lparr> GetContainerContents_dpi = DeleteStream_dpi i,
                  GetContainerContents_Path = DeleteStream_Path i,
                  GetAllAttributes = False, DirectoriesOnly = False,
                  GetContainerContents_Limit = 0, GetContainerContents_Marker = [] \<rparr>"
  have "rejected_before_io (GetContainerContentsSync L c ?list st :: unit sync_result) st"
    using assms by (intro rej_GetContainerContents) simp
  then obtain e where "(GetContainerContentsSync L c ?list st :: unit sync_result)
                         = ((None, Some e), st)" "input_validation_error e"
    by (auto simp: rejected_before_io_iff)
  then show ?thesis
    by (simp add: DeleteStreamSync_def rejected_error_result)
qed

lemma rej_SeekShard:
  "ContainerName (SeekShard_dpi i) = [] \<Longrightarrow> rejected_before_io (SeekShardSync L c i st) st"
  by (simp add: SeekShardSync_def rejected_on_response rejected_send)

lemma rej_PutRecords:
  "ContainerName (PutRecords_dpi i) = [] \<Longrightarrow> rejected_before_io (PutRecordsSync L c i st) st"
  by (simp add: PutRecordsSync_def Let_def rejected_on_response rejected_send)

lemma rej_PutChunk:
  "ContainerName (PutChunk_dpi i) = [] \<Longrightarrow>
   rejected_before_io (error_to_sync (PutChunkSync L c i st) :: 'c sync_result) st"
  by (simp add: PutChunkSync_def rejected_error_only rejected_send rejected_error_result
      split: option.splits)

lemma rej_GetRecords:
  "ContainerName (GetRecords_dpi i) = [] \<Longrightarrow> rejected_before_io (GetRecordsSync L c i st) st"
  by (simp add: GetRecordsSync_def Let_def rejected_on_response rejected_send)

lemma rej_PutOOSObject:
  "ContainerName (PutOOSObject_dpi i) = [] \<Longrightarrow>
   rejected_before_io (error_to_sync (PutOOSObjectSync L c i st) :: 'c sync_result) st"
  by (simp add: PutOOSObjectSync_def Let_def rejected_error_only rejected_send)

lemma PutItems_empty_container:
  assumes "ContainerName (PutItems_dpi i) = []"
  shows "\<exists>out. (PutItemsSync L c i st :: 'c sync_result)
               = ((Some (allocateResponse \<lparr> Output := Some (OutPutItems out) \<rparr>), None), st)
          \<and> (Success out \<longleftrightarrow> PutItems_Items i = [])
          \<and> (\<forall>k \<in> fst ` set (PutItems_Items i).
                \<exists>e. map_of (Errors out) k = Some e \<and> input_validation_error e)"
proof -
  from putItems_loop_empty_container [OF assms, of L c "PutItems_Items i"
      "\<lparr> Success = True, Errors = [] \<rparr>" st]
  obtain out where
    o: "putItems_loop L c i (PutItems_Items i) \<lparr> Success = True, Errors = [] \<rparr> st = (out, st)"
       "Success out \<longleftrightarrow> PutItems_Items i = []"
       "\<forall>k. k \<in> fst ` set (PutItems_Items i)
            \<longrightarrow> (\<exists>e. map_of (Errors out) k = Some e \<and> input_validation_error e)"
    by auto
  then show ?thesis
    by (intro exI [of _ out]) (simp add: PutItemsSync_def)
qed

text \<open>
  Claim C6 as stated: every synchronous operation called with an empty container name
  returns an input-validation error and no response.  \<open>PutItemsSync\<close> on one item
  returns a response and no error; the error of the item is in the output.
\<close>

theorem PutItemsSync_empty_container_returns_response:
  "(PutItemsSync sample_stdlib sample_context
      \<lparr> PutItems_dpi = sample_dpi \<lparr> ContainerName := [] \<rparr>, PutItems_Path = ''/t'',
        PutItems_Condition = [], PutItems_Items = [(''k'', [(''age'', VInt 30)])] \<rparr>
      no_calls :: unit sync_result)
   = ((Some (allocateResponse
        \<lparr> Output := Some (OutPutItems
            \<lparr> Success = False, Errors = [(''k'', ErrEmptyContainerName)] \<rparr>) \<rparr>), None),
      no_calls)"
  by (simp add: PutItemsSync_def putItem_def encode_value_def sendRequest_def sample_dpi_def
      sample_stdlib_def)

text \<open>
  Claim C6, amended: called with an empty container name, every synchronous operation
  returns an input-validation error and no response, and makes no call on the transport,
  with two exceptions.  \<open>UpdateItemSync\<close> given neither attributes nor an update
  expression returns no response and no error, whatever the container name is (given
  either of them it is rejected like the others).  \<open>PutItemsSync\<close> makes no call
  either, but it returns no error: it returns a response whose output records an
  input-validation error for every item key and reports success only when there are no
  items.
\<close>

theorem empty_container_rejected:
  "(\<forall>i st. ContainerName (GetContainers_dpi i) = [] \<longrightarrow>
      rejected_before_io (GetContainersSync L c i st :: 'c sync_result) st)
   \<and> (\<forall>i st. ContainerName (GetClusterMD_dpi i) = [] \<longrightarrow>
      rejected_before_io (GetClusterMDSync L c i st :: 'c sync_result) st)
   \<and> (\<forall>i st. ContainerName (GetContainerContents_dpi i) = [] \<longrightarrow>
      rejected_before_io (GetContainerContentsSync L c i st :: 'c sync_result) st)
   \<and> (\<forall>i st. ContainerName (GetItem_dpi i) = [] \<longrightarrow>
      rejected_before_io (GetItemSync L c i st :: 'c sync_result) st)
   \<and> (\<forall>i st. ContainerName (GetItems_dpi i) = [] \<longrightarrow>
      rejected_before_io (GetItemsSync L c i st :: 'c sync_result) st)
   \<and> (\<forall>i st. ContainerName (PutItem_dpi i) = [] \<longrightarrow>
      rejected_before_io (PutItemSync L c i st :: 'c sync_result) st)
   \<and> (\<forall>i st. ContainerName (UpdateItem_dpi i) = []
        \<and> (UpdateItem_Attributes i \<noteq> None \<or> UpdateItem_Expression i \<noteq> None) \<longrightarrow>
      rejected_before_io (UpdateItemSync L c i st :: 'c sync_result) st)
   \<and> (\<forall>i st. UpdateItem_Attributes i = None \<and> UpdateItem_Expression i = None \<longrightarrow>
      (UpdateItemSync L c i st :: 'c sync_result) = ((None, None), st))
   \<and> (\<forall>i st. ContainerName (GetObject_dpi i) = [] \<longrightarrow>
      rejected_before_io (GetObjectSync L c i st :: 'c sync_result) st)
   \<and> (\<forall>i st. ContainerName (PutObject_dpi i) = [] \<longrightarrow>
      rejected_before_io (error_to_sync (PutObjectSync L c i st) :: 'c sync_result) st)
   \<and> (\<forall>i st. ContainerName (UpdateObject_dpi i) = [] \<longrightarrow>
      rejected_before_io (error_to_sync (UpdateObjectSync L c i st) :: 'c sync_result) st)
   \<and> (\<forall>i st. ContainerName (DeleteObject_dpi i) = [] \<longrightarrow>
      rejected_before_io (error_to_sync (DeleteObjectSync L c i st) :: 'c sync_result) st)
   \<and> (\<forall>i st. ContainerName (CreateStream_dpi i) = [] \<longrightarrow>
      rejected_before_io (error_to_sync (CreateStreamSync L c i st) :: 'c sync_result) st)
   \<and> (\<forall>i st. ContainerName (DescribeStream_dpi i) = [] \<longrightarrow>
      rejected_before_io (DescribeStreamSync L c i st :: 'c sync_result) st)
   \<and> (\<forall>i st. ContainerName (CheckPathExists_dpi i) = [] \<longrightarrow>
      rejected_before_io (error_to_sync (CheckPathExistsSync L c i st) :: 'c sync_result) st)
   \<and> (\<forall>i st. ContainerName (DeleteStream_dpi i) = [] \<longrightarrow>
      rejected_before_io (error_to_sync (DeleteStreamSync L c i st) :: 'c sync_result) st)
   \<and> (\<forall>i st. ContainerName (SeekShard_dpi i) = [] \<longrightarrow>
      rejected_before_io (SeekShardSync L c i st :: 'c sync_result) st)
   \<and> (\<forall>i st. ContainerName (PutRecords_dpi i) = [] \<longrightarrow>
      rejected_before_io (PutRecordsSync L c i st :: 'c sync_result) st)
   \<and> (\<forall>i st. ContainerName (PutChunk_dpi i) = [] \<longrightarrow>
      rejected_before_io (error_to_sync (PutChunkSync L c i st) :: 'c sync_result) st)
   \<and> (\<forall>i st. ContainerName (GetRecords_dpi i) = [] \<longrightarrow>
      rejected_before_io (GetRecordsSync L c i st :: 'c sync_result) st)
   \<and> (\<forall>i st. ContainerName (PutOOSObject_dpi i) = [] \<longrightarrow>
      rejected_before_io (error_to_sync (PutOOSObjectSync L c i st) :: 'c sync_result) st)
   \<and> (\<forall>i st. ContainerName (PutItems_dpi i) = [] \<longrightarrow>
      (\<exists>out. (PutItemsSync L c i st :: 'c sync_result)
                = ((Some (allocateResponse \<lparr> Output := Some (OutPutItems out) \<rparr>), None), st)
             \<and> (Success out \<longleftrightarrow> PutItems_Items i = [])
             \<and> (\<forall>k \<in> fst ` set (PutItems_Items i).
                   \<exists>e. map_of (Errors out) k = Some e \<and> input_validation_error e)))"
  by (intro conjI allI impI rej_GetContainers rej_GetClusterMD rej_GetContainerContents
      rej_GetItem rej_GetItems rej_PutItem rej_GetObject rej_PutObject rej_UpdateObject
      rej_DeleteObject rej_CreateStream rej_DescribeStream rej_CheckPathExists rej_DeleteStream
      rej_SeekShard rej_PutRecords rej_PutChunk rej_GetRecords rej_PutOOSObject
      PutItems_empty_container;
      (elim conjE)?; (rule rej_UpdateItem UpdateItem_without_update)?; assumption?)

theorem empty_container_rejected_witness:
  "rejected_before_io
     (GetObjectSync sample_stdlib sample_context
        \<lparr> GetObject_dpi = sample_dpi \<lparr> ContainerName := [] \<rparr>, GetObject_Path = ''/o'',
          GetObject_Offset = 0, NumBytes = 0, CtimeSec = 0, CtimeNsec = 0 \<rparr> no_calls
      :: unit sync_result) no_calls
   \<and> rejected_before_io
       (error_to_sync
          (DeleteStreamSync sample_stdlib sample_context
             \<lparr> DeleteStream_dpi = sample_dpi \<lparr> ContainerName := [] \<rparr>,
               DeleteStream_Path = ''/s/'' \<rparr> no_calls) :: unit sync_result) no_calls
   \<and> rejected_before_io
       (UpdateItemSync sample_stdlib sample_context
          \<lparr> UpdateItem_dpi = sample_dpi \<lparr> ContainerName := [] \<rparr>, UpdateItem_Path = ''/t/it'',
            UpdateItem_Attributes = None, UpdateItem_Expression = Some ''a=1'',
            UpdateItem_Condition = [], UpdateItem_UpdateMode = [] \<rparr> no_calls
        :: unit sync_result) no_calls
   \<and> (UpdateItemSync sample_stdlib sample_context
          \<lparr> UpdateItem_dpi = sample_dpi \<lparr> ContainerName := [] \<rparr>, UpdateItem_Path = ''/t/it'',
            UpdateItem_Attributes = None, UpdateItem_Expression = None,
            UpdateItem_Condition = [], UpdateItem_UpdateMode = [] \<rparr> no_calls
        :: unit sync_result) = ((None, None), no_calls)
   \<and> (\<exists>out. (PutItemsSync sample_stdlib sample_context
                 \<lparr> PutItems_dpi = sample_dpi \<lparr> ContainerName := [] \<rparr>, PutItems_Path = ''/t'',
                   PutItems_Condition = [],
                   PutItems_Items = [(''k'', [(''age'', VInt 30)])] \<rparr> no_calls
               :: unit sync_result)
              = ((Some (allocateResponse \<lparr> Output := Some (OutPutItems out) \<rparr>), None),
                 no_calls)
            \<and> \<not> Success out)"
proof -
  note all = empty_container_rejected [of sample_stdlib sample_context, where ?'c = unit]
  have e: "ContainerName (sample_dpi \<lparr> ContainerName := [] \<rparr>) = []"
    by simp
  have "rejected_before_io
     (GetObjectSync sample_stdlib sample_context
        \<lparr> GetObject_dpi = sample_dpi \<lparr> ContainerName := [] \<rparr>, GetObject_Path = ''/o'',
          GetObject_Offset = 0, NumBytes = 0, CtimeSec = 0, CtimeNsec = 0 \<rparr> no_calls
      :: unit sync_result) no_calls"
    using all e by simp
  moreover have "rejected_before_io
       (error_to_sync
          (DeleteStreamSync sample_stdlib sample_context
             \<lparr> DeleteStream_dpi = sample_dpi \<lparr> ContainerName := [] \<rparr>,
               DeleteStream_Path = ''/s/'' \<rparr> no_calls) :: unit sync_result) no_calls"
    using all e by simp
  moreover have "rejected_before_io
       (UpdateItemSync sample_stdlib sample_context
          \<lparr> UpdateItem_dpi = sample_dpi \<lparr> ContainerName := [] \<rparr>, UpdateItem_Path = ''/t/it'',
            UpdateItem_Attributes = None, UpdateItem_Expression = Some ''a=1'',
            UpdateItem_Condition = [], UpdateItem_UpdateMode = [] \<rparr> no_calls
        :: unit sync_result) no_calls"
    using all e by simp
  moreover have "(UpdateItemSync sample_stdlib sample_context
          \<lparr> UpdateItem_dpi = sample_dpi \<lparr> ContainerName := [] \<rparr>, UpdateItem_Path = ''/t/it'',
            UpdateItem_Attributes = None, UpdateItem_Expression = None,
            UpdateItem_Condition = [], UpdateItem_UpdateMode = [] \<rparr> no_calls
        :: unit sync_result) = ((None, None), no_calls)"
    using all by simp
  moreover have "\<exists>out. (PutItemsSync sample_stdlib sample_context
                 \<lparr> PutItems_dpi = sample_dpi \<lparr> ContainerName := [] \<rparr>, PutItems_Path = ''/t'',
                   PutItems_Condition = [],
                   PutItems_Items = [(''k'', [(''age'', VInt 30)])] \<rparr> no_calls
               :: unit sync_result)
              = ((Some (allocateResponse \<lparr> Output := Some (OutPutItems out) \<rparr>), None),
                 no_calls)
            \<and> \<not> Success out"
  proof -
    let ?i = "\<lparr> PutItems_dpi = sample_dpi \<lparr> ContainerName := [] \<rparr>, PutItems_Path = ''/t'',
                PutItems_Condition = [], PutItems_Items = [(''k'', [(''age'', VInt 30)])] \<rparr>"
    have empty: "ContainerName (PutItems_dpi ?i) = []" by simp
    from all have "\<forall>i st. ContainerName (PutItems_dpi i) = [] \<longrightarrow>
      (\<exists>out. (PutItemsSync sample_stdlib sample_context i st :: unit sync_result)
                = ((Some (allocateResponse \<lparr> Output := Some (OutPutItems out) \<rparr>), None), st)
             \<and> (Success out \<longleftrightarrow> PutItems_Items i = [])
             \<and> (\<forall>k \<in> fst ` set (PutItems_Items i).
                   \<exists>e. map_of (Errors out) k = Some e \<and> input_validation_error e))"
      by (elim conjE)
    from this [rule_format, OF empty, of no_calls] obtain out where
      "(PutItemsSync sample_stdlib sample_context ?i no_calls :: unit sync_result)
         = ((Some (allocateResponse \<lparr> Output := Some (OutPutItems out) \<rparr>), None), no_calls)"
      "Success out \<longleftrightarrow> PutItems_Items ?i = []"
      by blast
    then show ?thesis by auto
  qed
  ultimately show ?thesis by blast
qed

section \<open>The worker\<close>

text \<open>
  Claim C5 does not hold of the code for the input of \<open>PutOOSObject\<close>: the synchronous
  operation rejects an empty container name, while the worker, having no case for this
  input type, reports no error and an empty response without running the operation.
\<close>

theorem worker_skips_PutOOSObject:
  "fst (PutOOSObjectSync L c
          (i \<lparr> PutOOSObject_dpi := (PutOOSObject_dpi i) \<lparr> ContainerName := [] \<rparr> \<rparr>) st)
     = Some ErrEmptyContainerName
   \<and> handleRequest L c
         \<lparr> Request_ID = n,
           Input = InPutOOSObject
                     (i \<lparr> PutOOSObject_dpi := (PutOOSObject_dpi i) \<lparr> ContainerName := [] \<rparr> \<rparr>),
           Request_Context = ctx, ResponseChan = ch, SendTimeNanoseconds = t \<rparr> st
     = (Some (ch, zeroResponse \<lparr> ID := n, Error := None, Context := ctx \<rparr>), st)"
  by (simp add: PutOOSObjectSync_def error_only_def sendRequest_empty_container
      handleRequest_def dispatch_def)

lemma handleRequest_PutOOSObject:
  "handleRequest L c
     \<lparr> Request_ID = n, Input = InPutOOSObject i, Request_Context = ctx, ResponseChan = ch,
       SendTimeNanoseconds = t \<rparr> st
   = (Some (ch, zeroResponse \<lparr> ID := n, Error := None, Context := ctx \<rparr>), st)"
  by (simp add: handleRequest_def dispatch_def)

text \<open>
  For every request whose operation does not panic, the worker sends on the channel of
  the request a response with the request's identifier and context, the error that
  \<open>dispatch\<close> returned, and the output of the response that \<open>dispatch\<close> returned.
\<close>

lemma handleRequest_delivers:
  fixes request :: "'c Request" and response :: "'c Response option"
  assumes "dispatch L c (Input request) st = ((response, err), st')"
    and "\<forall>m. err \<noteq> Some (RuntimePanic m)"
  shows "\<exists>r. handleRequest L c request st = (Some (ResponseChan request, r), st')
           \<and> ID r = Request_ID request \<and> Context r = Request_Context request
           \<and> Error r = err
           \<and> Output r = (case response of None \<Rightarrow> None | Some x \<Rightarrow> Output x)"
proof -
  have h: "handleRequest L c request st =
      (case err of
         Some (RuntimePanic m) \<Rightarrow> (None, st')
       | _ \<Rightarrow>
           let slot = (case response of None \<Rightarrow> zeroResponse | Some r \<Rightarrow> r)
           in (Some (ResponseChan request,
                     slot \<lparr> ID := Request_ID request, Error := err,
                            Context := Request_Context request \<rparr>), st'))"
    unfolding handleRequest_def assms(1) by simp
  show ?thesis
  proof (cases err)
    case None
    then show ?thesis
      unfolding h by (cases response) (simp_all add: zeroResponse_def)
  next
    case (Some e)
    with assms(2) have "\<forall>m. e \<noteq> RuntimePanic m" by simp
    with Some show ?thesis
      unfolding h by (cases response; cases e) (simp_all add: zeroResponse_def)
  qed
qed


section \<open>DeleteStreamSync\<close>

lemma buildRequestURI_parsed:
  "url_Parse L urlString = Some u \<Longrightarrow>
   buildRequestURI L urlString containerName query pathStr
     = Inr (u \<lparr> Path := request_path containerName pathStr,
                 RawQuery := Replace query (CHR '' '') ''%20'' \<rparr>)"
  by (simp add: buildRequestURI_def request_path_def)

lemma retry_first_answer:
  assumes "httpClient c (length (calls st)) call \<noteq> Inl ErrConnectionClosed"
  shows "retry 8 c call prev st
           = (httpClient c (length (calls st)) call, st \<lparr> calls := calls st @ [call] \<rparr>)"
  using retry_stops [of 0 c st call "httpClient c (length (calls st)) call" 8 prev] assms
  by simp

lemma sendRequest_single_call:
  assumes "\<forall>n call. httpClient c n call \<noteq> Inl ErrConnectionClosed"
    and "ContainerName dpi \<noteq> []"
    and "url_Parse L (URL dpi) = Some u"
  shows "sendRequest L c dpi verb path query headers body True st
     = ((None,
         outcome_error dpi
           (httpClient c (length (calls st))
              (initRequest (u \<lparr> Path := request_path (ContainerName dpi) path,
                                RawQuery := Replace query (CHR '' '') ''%20'' \<rparr>)
                 dpi verb headers body))),
        st \<lparr> calls := calls st
               @ [initRequest (u \<lparr> Path := request_path (ContainerName dpi) path,
                                    RawQuery := Replace query (CHR '' '') ''%20'' \<rparr>)
                    dpi verb headers body] \<rparr>)"
proof -
  let ?uri = "u \<lparr> Path := request_path (ContainerName dpi) path,
                   RawQuery := Replace query (CHR '' '') ''%20'' \<rparr>"
  let ?call = "initRequest ?uri dpi verb headers body"
  have uri: "buildRequestURI L (URL dpi) (ContainerName dpi) query path = Inr ?uri"
    using assms(3) by (rule buildRequestURI_parsed)
  have "retry 8 c ?call (Inr AcquireResponse) st
          = (httpClient c (length (calls st)) ?call, st \<lparr> calls := calls st @ [?call] \<rparr>)"
    using assms(1) by (intro retry_first_answer) simp
  then show ?thesis
    by (simp add: sendRequest_with_uri [OF assms(2) uri] split: option.splits)
qed

lemma DeleteObjectSync_single_call:
  assumes "\<forall>n call. httpClient c n call \<noteq> Inl ErrConnectionClosed"
    and "ContainerName dpi \<noteq> []"
    and "url_Parse L (URL dpi) = Some u"
  shows "DeleteObjectSync L c \<lparr> DeleteObject_dpi = dpi, DeleteObject_Path = p \<rparr> st
     = (outcome_error dpi (httpClient c (length (calls st)) (delete_call u dpi p)),
        st \<lparr> calls := calls st @ [delete_call u dpi p] \<rparr>)"
  by (simp add: DeleteObjectSync_def error_only_def delete_call_def Replace_def
      sendRequest_single_call [OF assms])

lemma deleteShards_calls:
  assumes "\<forall>n call. httpClient c n call \<noteq> Inl ErrConnectionClosed"
    and "ContainerName dpi \<noteq> []"
    and "url_Parse L (URL dpi) = Some u"
  shows "deleteShards L c dpi cs st
     = st \<lparr> calls := calls st @ map (\<lambda>content. delete_call u dpi (''/'' @ Key content)) cs \<rparr>"
proof (induction cs arbitrary: st)
  case Nil
  then show ?case by simp
next
  case (Cons content cs)
  show ?case
    by (simp add: DeleteObjectSync_single_call [OF assms] Cons.IH)
qed

lemma xml_response_output:
  assumes "sendRequestAndXMLUnmarshal L c dpi verb path query headers body unmarshal st
             = ((Some r, None), st1)"
  shows "\<exists>out ok. unmarshal (Response_Body r) = (out, ok) \<and> Output r = Some out"
  using assms
  by (auto simp: sendRequestAndXMLUnmarshal_def Response_Body_def
      split: prod.splits option.splits if_splits)

lemma DeleteStreamSync_listing:
  "DeleteStreamSync L c i st =
     (case (GetContainerContentsSync L c (listingInput i) st :: unit sync_result) of
        ((_, Some err), st') \<Rightarrow> (Some err, st')
      | ((response, None), st') \<Rightarrow>
          (case response of
             Some r \<Rightarrow>
               (case Output r of
                  Some (OutGetContainerContents out) \<Rightarrow>
                    DeleteObjectSync L c
                      \<lparr> DeleteObject_dpi = DeleteStream_dpi i,
                        DeleteObject_Path = ''/'' @ path_Dir (DeleteStream_Path i) @ ''/'' \<rparr>
                      (deleteShards L c (DeleteStream_dpi i) (Contents out) st')
                | _ \<Rightarrow> (Some (RuntimePanic ''interface conversion''), st'))
           | None \<Rightarrow> (Some (RuntimePanic ''nil response''), st')))"
  by (simp add: DeleteStreamSync_def listingInput_def)

lemma listing_output:
  assumes "(GetContainerContentsSync L c li st :: unit sync_result) = ((Some r, None), st1)"
  shows "\<exists>out. Output r = Some (OutGetContainerContents out)"
  using xml_response_output [OF assms [unfolded GetContainerContentsSync_def]]
  by (auto split: prod.splits)

text \<open>
  Claim C8, amended: \<open>DeleteStreamSync\<close> lists the children of the stream, issues one
  deletion per child in the order of the listing, whatever the earlier deletions
  returned, and then one last deletion; the error it returns is the error of the listing
  if the listing fails (then nothing is deleted), and otherwise the outcome of the last
  deletion alone.  (For a container name that is not empty, an end point that parses and
  a transport that does not close connections, so that every request is one call.)
\<close>

theorem DeleteStreamSync_last_deletion_decides:
  assumes "\<forall>n call. httpClient c n call \<noteq> Inl ErrConnectionClosed"
    and "ContainerName (DeleteStream_dpi i) \<noteq> []"
    and "url_Parse L (URL (DeleteStream_dpi i)) = Some u"
  shows
   "(\<forall>r e st1.
       (GetContainerContentsSync L c (listingInput i) st :: unit sync_result)
          = ((r, Some e), st1) \<longrightarrow>
       DeleteStreamSync L c i st = (Some e, st1))
    \<and> (\<forall>r st1.
       (GetContainerContentsSync L c (listingInput i) st :: unit sync_result)
          = ((Some r, None), st1) \<longrightarrow>
       (\<exists>out. Output r = Some (OutGetContainerContents out)
          \<and> DeleteStreamSync L c i st
              = (outcome_error (DeleteStream_dpi i)
                   (httpClient c (length (calls st1) + length (Contents out))
                      (delete_call u (DeleteStream_dpi i)
                         (''/'' @ path_Dir (DeleteStream_Path i) @ ''/''))),
                 st1 \<lparr> calls := calls st1
                     @ map (\<lambda>content. delete_call u (DeleteStream_dpi i) (''/'' @ Key content))
                         (Contents out)
                     @ [delete_call u (DeleteStream_dpi i)
                          (''/'' @ path_Dir (DeleteStream_Path i) @ ''/'')] \<rparr>)))"
proof (intro conjI allI impI)
  fix r e st1
  assume "(GetContainerContentsSync L c (listingInput i) st :: unit sync_result)
            = ((r, Some e), st1)"
  then show "DeleteStreamSync L c i st = (Some e, st1)"
    by (simp add: DeleteStreamSync_listing)
next
  fix r :: "unit Response" and st1 :: net
  assume listing: "(GetContainerContentsSync L c (listingInput i) st :: unit sync_result)
            = ((Some r, None), st1)"
  from listing_output [OF this] obtain out where out: "Output r = Some (OutGetContainerContents out)"
    by blast
  have "DeleteStreamSync L c i st
      = (outcome_error (DeleteStream_dpi i)
           (httpClient c (length (calls st1) + length (Contents out))
              (delete_call u (DeleteStream_dpi i)
                 (''/'' @ path_Dir (DeleteStream_Path i) @ ''/''))),
         st1 \<lparr> calls := calls st1
             @ map (\<lambda>content. delete_call u (DeleteStream_dpi i) (''/'' @ Key content))
                 (Contents out)
             @ [delete_call u (DeleteStream_dpi i)
                  (''/'' @ path_Dir (DeleteStream_Path i) @ ''/'')] \<rparr>)"
    by (simp add: DeleteStreamSync_listing listing out
        DeleteObjectSync_single_call [OF assms] deleteShards_calls [OF assms])
  with out show "\<exists>out. Output r = Some (OutGetContainerContents out)
          \<and> DeleteStreamSync L c i st
              = (outcome_error (DeleteStream_dpi i)
                   (httpClient c (length (calls st1) + length (Contents out))
                      (delete_call u (DeleteStream_dpi i)
                         (''/'' @ path_Dir (DeleteStream_Path i) @ ''/''))),
                 st1 \<lparr> calls := calls st1
                     @ map (\<lambda>content. delete_call u (DeleteStream_dpi i) (''/'' @ Key content))
                         (Contents out)
                     @ [delete_call u (DeleteStream_dpi i)
                          (''/'' @ path_Dir (DeleteStream_Path i) @ ''/'')] \<rparr>)"
    by blast
qed

lemma sample_dpi_fields:
  "URL sample_dpi = ''https://h''" "ContainerName sample_dpi = ''c''"
  "IncludeResponseInError sample_dpi = False" "Timeout sample_dpi = 0"
  "AuthenticationToken sample_dpi = []" "AccessKey sample_dpi = []"
  by (simp_all add: sample_dpi_def)

lemma sample_facts:
  "\<forall>n call. httpClient second_call_fails n call \<noteq> Inl ErrConnectionClosed"
  "ContainerName sample_dpi \<noteq> []"
  "url_Parse one_shard_stdlib (URL sample_dpi)
     = Some \<lparr> Endpoint = ''https://h'', Path = [], RawQuery = [] \<rparr>"
  by (simp_all add: second_call_fails_def sample_context_def sample_dpi_def one_shard_stdlib_def
      sample_stdlib_def)

lemma sample_listing:
  "(GetContainerContentsSync one_shard_stdlib second_call_fails
      (listingInput \<lparr> DeleteStream_dpi = sample_dpi, DeleteStream_Path = ''/s/'' \<rparr>) no_calls
      :: unit sync_result)
   = ((Some (allocateResponse
        \<lparr> HTTPResponse := Some ok_response,
          Output := Some (OutGetContainerContents
            \<lparr> Name = [], GetContainerContents_NextMarker = [], MaxKeys = [],
              Contents = [\<lparr> Key = ''s/0'', Mode = [] \<rparr>], CommonPrefixes = [],
              IsTruncated = False \<rparr>) \<rparr>), None),
      \<lparr> calls = [initRequest
                    \<lparr> Endpoint = ''https://h'', Path = ''/c'', RawQuery = ''prefix=/s/'' \<rparr>
                    sample_dpi ''GET'' [] []] \<rparr>)"
proof -
  have p: "request_path ''c'' [] = ''/c''"
    by (simp add: request_path_def path_eval)
  have uri: "buildRequestURI one_shard_stdlib (URL sample_dpi) (ContainerName sample_dpi)
               ''prefix=/s/'' []
             = Inr \<lparr> Endpoint = ''https://h'', Path = ''/c'', RawQuery = ''prefix=/s/'' \<rparr>"
    unfolding buildRequestURI_parsed [OF sample_facts(3)]
    by (simp add: sample_dpi_fields p Replace_def)
  have q: "contentsQuery one_shard_stdlib
             (listingInput \<lparr> DeleteStream_dpi = sample_dpi, DeleteStream_Path = ''/s/'' \<rparr>)
           = ''prefix=/s/''"
    by (simp add: contentsQuery_def listingInput_def one_shard_stdlib_def sample_stdlib_def
        Replace_def)
  let ?call = "initRequest \<lparr> Endpoint = ''https://h'', Path = ''/c'', RawQuery = ''prefix=/s/'' \<rparr>
                 sample_dpi ''GET'' [] []"
  have first: "httpClient second_call_fails (length (calls no_calls)) ?call = Inr ok_response"
    by (simp add: second_call_fails_def sample_context_def no_calls_def)
  have r: "retry 8 second_call_fails ?call (Inr AcquireResponse) no_calls
             = (Inr ok_response, \<lparr> calls = [?call] \<rparr>)"
    using retry_first_answer [of second_call_fails no_calls ?call "Inr AcquireResponse"]
    by (simp add: first) (simp add: no_calls_def)
  have s: "(sendRequest one_shard_stdlib second_call_fails sample_dpi ''GET'' [] ''prefix=/s/''
              [] [] False no_calls :: unit sync_result)
           = ((Some (allocateResponse \<lparr> HTTPResponse := Some ok_response \<rparr>), None),
              \<lparr> calls = [?call] \<rparr>)"
    unfolding sendRequest_with_uri [OF sample_facts(2) uri] r
    by (simp add: outcome_error_def ok_response_def)
  have li: "GetContainerContents_dpi
              (listingInput \<lparr> DeleteStream_dpi = sample_dpi, DeleteStream_Path = ''/s/'' \<rparr>)
            = sample_dpi"
    by (simp add: listingInput_def)
  have x: "xml_Unmarshal_GetContainerContents one_shard_stdlib
      = (\<lambda>b. (\<lparr> Name = [], GetContainerContents_NextMarker = [], MaxKeys = [],
                 Contents = [\<lparr> Key = ''s/0'', Mode = [] \<rparr>], CommonPrefixes = [],
                 IsTruncated = False \<rparr>, True))"
    by (simp add: one_shard_stdlib_def)
  show ?thesis
    unfolding GetContainerContentsSync_def sendRequestAndXMLUnmarshal_def q li s x
    by (simp add: allocateResponse_def)
qed

text \<open>
  Claim C8 as stated: the error returned is the last error that occurred among the
  deletions.  Here the deletion of the only shard fails with status 500, the deletion
  that follows it succeeds, and \<open>DeleteStreamSync\<close> reports success.
\<close>

theorem DeleteStreamSync_forgets_shard_error:
  "fst (DeleteObjectSync one_shard_stdlib second_call_fails
          \<lparr> DeleteObject_dpi = sample_dpi, DeleteObject_Path = ''/s/0'' \<rparr>
          (snd (GetContainerContentsSync one_shard_stdlib second_call_fails
                  (listingInput \<lparr> DeleteStream_dpi = sample_dpi, DeleteStream_Path = ''/s/'' \<rparr>)
                  no_calls :: unit sync_result)))
     = Some (ErrorWithStatusCode 500)
   \<and> fst (DeleteStreamSync one_shard_stdlib second_call_fails
            \<lparr> DeleteStream_dpi = sample_dpi, DeleteStream_Path = ''/s/'' \<rparr> no_calls)
     = None"
proof -
  note single = DeleteObjectSync_single_call [OF sample_facts]
  have after_listing:
    "snd (GetContainerContentsSync one_shard_stdlib second_call_fails
            (listingInput \<lparr> DeleteStream_dpi = sample_dpi, DeleteStream_Path = ''/s/'' \<rparr>)
            no_calls :: unit sync_result)
     = \<lparr> calls = [initRequest
                      \<lparr> Endpoint = ''https://h'', Path = ''/c'', RawQuery = ''prefix=/s/'' \<rparr>
                      sample_dpi ''GET'' [] []] \<rparr>"
    by (simp add: sample_listing)
  have answers:
    "\<And>n call. httpClient second_call_fails n call
       = (if n = 1 then Inr \<lparr> StatusCode = 500, Header = [], Body = [] \<rparr>
          else Inr ok_response)"
    by (simp add: second_call_fails_def sample_context_def)
  have a: "fst (DeleteObjectSync one_shard_stdlib second_call_fails
          \<lparr> DeleteObject_dpi = sample_dpi, DeleteObject_Path = ''/s/0'' \<rparr>
          (snd (GetContainerContentsSync one_shard_stdlib second_call_fails
                  (listingInput \<lparr> DeleteStream_dpi = sample_dpi, DeleteStream_Path = ''/s/'' \<rparr>)
                  no_calls :: unit sync_result)))
     = Some (ErrorWithStatusCode 500)"
    unfolding after_listing single
    by (simp add: answers outcome_error_def sample_dpi_fields)
  have dpi: "DeleteStream_dpi \<lparr> DeleteStream_dpi = sample_dpi, DeleteStream_Path = ''/s/'' \<rparr>
               = sample_dpi"
    by simp
  have b: "fst (DeleteStreamSync one_shard_stdlib second_call_fails
            \<lparr> DeleteStream_dpi = sample_dpi, DeleteStream_Path = ''/s/'' \<rparr> no_calls)
     = None"
    unfolding DeleteStreamSync_listing sample_listing dpi
    by (simp add: allocateResponse_def single deleteShards_calls [OF sample_facts] answers
        outcome_error_def ok_response_def)
  from a b show ?thesis by simp
qed

theorem DeleteStreamSync_last_deletion_decides_witness:
  "DeleteStreamSync one_shard_stdlib second_call_fails
     \<lparr> DeleteStream_dpi = sample_dpi, DeleteStream_Path = ''/s/'' \<rparr> no_calls
   = (None,
      \<lparr> calls =
          [initRequest \<lparr> Endpoint = ''https://h'', Path = ''/c'', RawQuery = ''prefix=/s/'' \<rparr>
             sample_dpi ''GET'' [] [],
           delete_call \<lparr> Endpoint = ''https://h'', Path = [], RawQuery = [] \<rparr> sample_dpi ''/s/0'',
           delete_call \<lparr> Endpoint = ''https://h'', Path = [], RawQuery = [] \<rparr> sample_dpi
             ''//s/''] \<rparr>)"
proof -
  let ?i = "\<lparr> DeleteStream_dpi = sample_dpi, DeleteStream_Path = ''/s/'' \<rparr>"
  have dpi: "DeleteStream_dpi ?i = sample_dpi" "DeleteStream_Path ?i = ''/s/''"
    by simp_all
  note general = DeleteStreamSync_last_deletion_decides
    [of second_call_fails ?i one_shard_stdlib
        "\<lparr> Endpoint = ''https://h'', Path = [], RawQuery = [] \<rparr>" no_calls,
     unfolded dpi, OF sample_facts, THEN conjunct2, rule_format, OF sample_listing]
  have dir: "path_Dir ''/s/'' = ''/s''"
    by (simp add: path_eval)
  have answers:
    "\<And>n call. httpClient second_call_fails n call
       = (if n = 1 then Inr \<lparr> StatusCode = 500, Header = [], Body = [] \<rparr>
          else Inr ok_response)"
    by (simp add: second_call_fails_def sample_context_def)
  from general show ?thesis
    by (simp add: allocateResponse_def dir answers outcome_error_def ok_response_def)
qed

section \<open>The item name under a wildcard request\<close>

lemma decodeCapnpItems_names:
  "decodeCapnpItems items valuesSections attributeNames True = Inr ditems \<Longrightarrow>
   list_all2
     (\<lambda>itemPtr ditem.
        \<exists>item name. itemPtr = Inr item \<and> capnp_Name item = Inr name
          \<and> map_of ditem ''__name'' = Some (VString name))
     items ditems"
proof (induction items arbitrary: ditems)
  case Nil
  then show ?case by simp
next
  case (Cons itemPtr items)
  from Cons.prems obtain item itemAttributes ditem name rest where
    parts: "itemPtr = Inr item" "capnp_Attrs item = Inr itemAttributes"
      "decodeCapnpAttributes itemAttributes valuesSections attributeNames = Inr ditem"
      "capnp_Name item = Inr name"
      "decodeCapnpItems items valuesSections attributeNames True = Inr rest"
      "ditems = map_put ''__name'' (VString name) ditem # rest"
    by (auto split: sum.splits error.splits)
  from Cons.IH [OF parts(5)] parts show ?case
    by (simp add: map_of_map_put)
qed

lemma parse_capnp_wildcard:
  assumes "getItemsParseCAPNPResponse L response True = Inr out"
  shows "\<exists>metadataPayload items.
           ReadRootMetadataPayload (last (readAllCapnpMessages L (Response_Body response)))
             = Inr metadataPayload
           \<and> capnp_Items metadataPayload = Inr items
           \<and> list_all2
                (\<lambda>itemPtr ditem.
                   \<exists>item name. itemPtr = Inr item \<and> capnp_Name item = Inr name
                     \<and> map_of ditem ''__name'' = Some (VString name))
                items (Items out)"
  using assms
  by (auto simp: getItemsParseCAPNPResponse_def Let_def
      split: if_splits sum.splits prod.splits dest!: decodeCapnpItems_names)

text \<open>
  Claim C7 as stated: with a wildcard among the attribute names every parsed item carries
  \<open>__name\<close>, whichever envelope the answer comes in.  An item decoded from the JSON
  envelope has the attributes of the envelope and nothing else.
\<close>

theorem json_envelope_gets_no_synthetic_name:
  "list_ex (\<lambda>attributeName. attributeName = ''*'' \<or> attributeName = ''**'')
     (AttributeNames wildcard_input)
   \<and> parseGetItemsResponse one_item_stdlib wildcard_input (allocateResponse :: unit Response)
     = (allocateResponse
          \<lparr> Output := Some (OutGetItems
              \<lparr> Last = True, NextMarker = [], Scattered = False,
                Items = [[(''a'', VString ''x'')]] \<rparr>) \<rparr>, None)
   \<and> map_of [(''a'', VString ''x'')] ''__name'' = None"
proof -
  have ct: "Response_HeaderPeek (allocateResponse :: unit Response) ''Content-Type'' = []"
    by (simp add: Response_HeaderPeek_def allocateResponse_def AcquireResponse_def
        HeaderPeek_def)
  have js: "json_Unmarshal_getItemsResponse one_item_stdlib
      = (\<lambda>b. Some \<lparr> getItemsResponse_Items = [[(''a'', [(''S'', TString ''x'')])]],
                    getItemsResponse_NextMarker = [], LastItemIncluded = ''TRUE'',
                    getItemsResponse_Scattered = [] \<rparr>)"
    by (simp add: one_item_stdlib_def)
  have dec: "decodeItems one_item_stdlib [[(''a'', [(''S'', TString ''x'')])]]
               = Inr [[(''a'', VString ''x'')]]"
    by (simp add: decode_value_def)
  have pb: "ParseBool_or_false ''TRUE'' = True" "ParseBool_or_false [] = False"
    by (simp_all add: ParseBool_or_false_def ParseBool_def)
  have parsed: "getItemsParseJSONResponse one_item_stdlib (allocateResponse :: unit Response)
                  wildcard_input
      = Inr \<lparr> Last = True, NextMarker = [], Scattered = False,
              Items = [[(''a'', VString ''x'')]] \<rparr>"
    by (simp add: getItemsParseJSONResponse_def js dec pb del: decodeItems.simps)
  show ?thesis
    by (simp add: parseGetItemsResponse_def ct parsed) (simp add: wildcard_input_def)
qed

text \<open>
  Claim C7, amended: for a GetItems call whose attribute names contain \<open>*\<close> or \<open>**\<close>,
  every item in an output parsed from the binary framed (capnp) envelope carries the
  attribute \<open>__name\<close> holding the name of that item in the envelope.  An answer in the
  JSON envelope is parsed in the same way whatever the attribute names of the call are:
  nothing is added to its items.
\<close>

theorem wildcard_name_only_in_capnp_envelope:
  "(\<forall>L getItemsInput (response :: 'c Response) response'.
      Response_HeaderPeek response ''Content-Type'' = ''application/octet-capnp''
      \<and> list_ex (\<lambda>attributeName. attributeName = ''*'' \<or> attributeName = ''**'')
            (AttributeNames getItemsInput)
      \<and> parseGetItemsResponse L getItemsInput response = (response', None) \<longrightarrow>
      (\<exists>out metadataPayload items.
          Output response' = Some (OutGetItems out)
          \<and> ReadRootMetadataPayload (last (readAllCapnpMessages L (Response_Body response)))
              = Inr metadataPayload
          \<and> capnp_Items metadataPayload = Inr items
          \<and> list_all2
               (\<lambda>itemPtr ditem.
                  \<exists>item name. itemPtr = Inr item \<and> capnp_Name item = Inr name
                    \<and> map_of ditem ''__name'' = Some (VString name))
               items (Items out)))
   \<and> (\<forall>L getItemsInput names (response :: 'c Response).
      Response_HeaderPeek response ''Content-Type'' \<noteq> ''application/octet-capnp'' \<longrightarrow>
      parseGetItemsResponse L (getItemsInput \<lparr> AttributeNames := names \<rparr>) response
        = parseGetItemsResponse L getItemsInput response)"
proof (intro conjI allI impI)
  fix L getItemsInput and response response' :: "'c Response"
  assume h: "Response_HeaderPeek response ''Content-Type'' = ''application/octet-capnp''
      \<and> list_ex (\<lambda>attributeName. attributeName = ''*'' \<or> attributeName = ''**'')
            (AttributeNames getItemsInput)
      \<and> parseGetItemsResponse L getItemsInput response = (response', None)"
  then obtain out where
    out: "getItemsParseCAPNPResponse L response True = Inr out"
      "response' = response \<lparr> Output := Some (OutGetItems out) \<rparr>"
    by (auto simp: parseGetItemsResponse_def Let_def split: sum.splits)
  from parse_capnp_wildcard [OF out(1)] out(2)
  show "\<exists>out metadataPayload items.
          Output response' = Some (OutGetItems out)
          \<and> ReadRootMetadataPayload (last (readAllCapnpMessages L (Response_Body response)))
              = Inr metadataPayload
          \<and> capnp_Items metadataPayload = Inr items
          \<and> list_all2
               (\<lambda>itemPtr ditem.
                  \<exists>item name. itemPtr = Inr item \<and> capnp_Name item = Inr name
                    \<and> map_of ditem ''__name'' = Some (VString name))
               items (Items out)"
    by auto
next
  fix L getItemsInput names and response :: "'c Response"
  assume "Response_HeaderPeek response ''Content-Type'' \<noteq> ''application/octet-capnp''"
  then show "parseGetItemsResponse L (getItemsInput \<lparr> AttributeNames := names \<rparr>) response
        = parseGetItemsResponse L getItemsInput response"
    by (simp add: parseGetItemsResponse_def getItemsParseJSONResponse_def)
qed

theorem wildcard_name_only_in_capnp_envelope_witness:
  "parseGetItemsResponse capnp_stdlib wildcard_input capnp_response
     = (capnp_response
          \<lparr> Output := Some (OutGetItems
              \<lparr> Last = True, NextMarker = [], Scattered = False,
                Items = [[(''__name'', VString ''k1'')]] \<rparr>) \<rparr>, None)
   \<and> (\<exists>out. Output (fst (parseGetItemsResponse capnp_stdlib wildcard_input capnp_response))
             = Some (OutGetItems out)
          \<and> list_all2
               (\<lambda>itemPtr ditem.
                  \<exists>item name. itemPtr = Inr item \<and> capnp_Name item = Inr name
                    \<and> map_of ditem ''__name'' = Some (VString name))
               [Inr \<lparr> capnp_Name = Inr ''k1'', capnp_Attrs = Inr [] \<rparr>] (Items out))
   \<and> parseGetItemsResponse one_item_stdlib (wildcard_input \<lparr> AttributeNames := [] \<rparr>)
        (allocateResponse :: unit Response)
     = parseGetItemsResponse one_item_stdlib wildcard_input allocateResponse"
proof -
  have ct: "Response_HeaderPeek capnp_response ''Content-Type'' = ''application/octet-capnp''"
    by (simp add: Response_HeaderPeek_def capnp_response_def allocateResponse_def HeaderPeek_def)
  have hp: "Response_HeaderPeek capnp_response ''X-v3io-cookie'' = []"
    "Response_HeaderPeek capnp_response ''X-v3io-scattered'' = []"
    by (simp_all add: Response_HeaderPeek_def capnp_response_def allocateResponse_def
        HeaderPeek_def)
  have wc: "list_ex (\<lambda>attributeName. attributeName = ''*'' \<or> attributeName = ''**'')
              (AttributeNames wildcard_input)"
    by (simp add: wildcard_input_def)
  have rd: "readAllCapnpMessages capnp_stdlib = (\<lambda>b. one_capnp_item)"
    by (simp add: capnp_stdlib_def)
  have parsed: "getItemsParseCAPNPResponse capnp_stdlib capnp_response True
      = Inr \<lparr> Last = True, NextMarker = [], Scattered = False,
              Items = [[(''__name'', VString ''k1'')]] \<rparr>"
    by (simp add: getItemsParseCAPNPResponse_def rd hp one_capnp_item_def
        decodeCapnpAttributes_def)
  have p: "parseGetItemsResponse capnp_stdlib wildcard_input capnp_response
     = (capnp_response
          \<lparr> Output := Some (OutGetItems
              \<lparr> Last = True, NextMarker = [], Scattered = False,
                Items = [[(''__name'', VString ''k1'')]] \<rparr>) \<rparr>, None)"
    by (simp add: parseGetItemsResponse_def ct wc parsed)
  have ct2: "Response_HeaderPeek (allocateResponse :: unit Response) ''Content-Type''
               \<noteq> ''application/octet-capnp''"
    by (simp add: Response_HeaderPeek_def allocateResponse_def AcquireResponse_def
        HeaderPeek_def)
  note capnp = wildcard_name_only_in_capnp_envelope [THEN conjunct1, rule_format,
      where ?'c = unit, OF conjI [OF ct conjI [OF wc p]]]
  note json = wildcard_name_only_in_capnp_envelope [THEN conjunct2, rule_format,
      where ?'c = unit and L = one_item_stdlib and getItemsInput = wildcard_input
        and names = "[]", OF ct2]
  from capnp have "\<exists>out. Output (fst (parseGetItemsResponse capnp_stdlib wildcard_input
                                      capnp_response)) = Some (OutGetItems out)
          \<and> list_all2
               (\<lambda>itemPtr ditem.
                  \<exists>item name. itemPtr = Inr item \<and> capnp_Name item = Inr name
                    \<and> map_of ditem ''__name'' = Some (VString name))
               [Inr \<lparr> capnp_Name = Inr ''k1'', capnp_Attrs = Inr [] \<rparr>] (Items out)"
    by (simp add: p rd one_capnp_item_def)
  with p json show ?thesis by simp
qed

section \<open>The target of the last deletion of a stream\<close>

lemma elements_aux_slash:
  "elements_aux acc (xs @ CHR ''/'' # ys) = elements_aux acc xs @ elements_aux [] ys"
  by (induction xs arbitrary: acc) simp_all

lemma elements_aux_plain:
  "CHR ''/'' \<notin> set e \<Longrightarrow>
   elements_aux acc e = (if acc = [] \<and> e = [] then [] else [rev acc @ e])"
  by (induction e arbitrary: acc) auto

lemma elements_aux_sound:
  "CHR ''/'' \<notin> set acc \<Longrightarrow>
   \<forall>x \<in> set (elements_aux acc p). x \<noteq> [] \<and> CHR ''/'' \<notin> set x"
proof (induction p arbitrary: acc)
  case Nil
  then show ?case by simp
next
  case (Cons c cs)
  from Cons.IH [of "[]"] Cons.IH [of "c # acc"] Cons.prems
  show ?case by simp
qed

lemma elements_sound: "\<forall>x \<in> set (elements p). x \<noteq> [] \<and> CHR ''/'' \<notin> set x"
  using elements_aux_sound [of "[]" p] by (simp add: elements_def)

lemma elements_Nil [simp]: "elements [] = []"
  by (simp add: elements_def)

lemma elements_slash_front [simp]: "elements (CHR ''/'' # p) = elements p"
  by (simp add: elements_def)

lemma elements_slash_between:
  "elements (xs @ CHR ''/'' # ys) = elements xs @ elements ys"
  by (simp add: elements_def elements_aux_slash)

lemma elements_slash_back [simp]: "elements (p @ ''/'') = elements p"
  by (simp add: elements_slash_between)

lemma elements_plain: "CHR ''/'' \<notin> set e \<Longrightarrow> e \<noteq> [] \<Longrightarrow> elements e = [e]"
  by (simp add: elements_def elements_aux_plain)

lemma elements_join_slash:
  "\<forall>e \<in> set es. e \<noteq> [] \<and> CHR ''/'' \<notin> set e \<Longrightarrow> elements (join_slash es) = es"
proof (induction es rule: join_slash.induct)
  case 1
  then show ?case by simp
next
  case (2 e)
  then show ?case by (simp add: elements_plain)
next
  case (3 e e' es)
  then show ?case by (simp add: elements_slash_between elements_plain)
qed

lemma clean_step_dot [simp]: "clean_step rooted out ''.'' = out"
  by (simp add: clean_step_def)

lemma clean_step_name:
  "e \<noteq> ''.'' \<Longrightarrow> e \<noteq> ''..'' \<Longrightarrow> clean_step rooted out e = e # out"
  by (simp add: clean_step_def)

lemma foldl_clean_step_filter:
  "foldl (clean_step rooted) S (filter (\<lambda>e. e \<noteq> ''.'') es) = foldl (clean_step rooted) S es"
  by (induction es arbitrary: S) simp_all

lemma foldl_clean_step_names:
  "''..'' \<notin> set es \<Longrightarrow>
   foldl (clean_step rooted) S es = rev (filter (\<lambda>e. e \<noteq> ''.'') es) @ S"
  by (induction es arbitrary: S) (auto simp: clean_step_name)

lemma clean_step_rooted_subset:
  "set (clean_step True out e) \<subseteq> set out \<union> ({e} - {''.'', ''..''})"
  by (auto simp: clean_step_def split: list.splits if_splits)

lemma foldl_clean_step_rooted_subset:
  "set (foldl (clean_step True) S es) \<subseteq> set S \<union> (set es - {''.'', ''..''})"
proof (induction es arbitrary: S)
  case Nil
  then show ?case by simp
next
  case (Cons e es)
  from Cons.IH [of "clean_step True S e"] clean_step_rooted_subset [of S e]
  show ?case by auto
qed


lemma join_buf_request:
  "join_buf [] [''/'', containerName, pathStr] = ''//'' @ containerName @ ''/'' @ pathStr"
  by simp

lemma elements_request:
  "elements (''//'' @ containerName @ ''/'' @ pathStr) = elements containerName @ elements pathStr"
  by (simp add: elements_slash_between)

lemma path_Clean_rooted:
  "path_Clean (CHR ''/'' # p)
     = ''/'' @ join_slash (rev (foldl (clean_step True) [] (elements p)))"
  by (simp add: path_Clean_def)

lemma cleaned_rooted_sound:
  "\<forall>e \<in> set (foldl (clean_step True) [] (elements p)).
      e \<noteq> [] \<and> CHR ''/'' \<notin> set e \<and> e \<noteq> ''.'' \<and> e \<noteq> ''..''"
  using foldl_clean_step_rooted_subset [of "[]" "elements p"] elements_sound [of p]
  by auto

lemma path_Clean_rooted_again:
  "path_Clean (path_Clean (CHR ''/'' # p)) = path_Clean (CHR ''/'' # p)"
proof -
  let ?out = "rev (foldl (clean_step True) [] (elements p))"
  have sound: "\<forall>e \<in> set ?out. e \<noteq> [] \<and> CHR ''/'' \<notin> set e"
    and names: "''..'' \<notin> set ?out" "filter (\<lambda>e. e \<noteq> ''.'') ?out = ?out"
    using cleaned_rooted_sound [of p] by (auto simp: filter_id_conv)
  have "elements (join_slash ?out) = ?out"
    by (rule elements_join_slash [OF sound])
  then have "foldl (clean_step True) [] (elements (join_slash ?out)) = rev ?out"
    using foldl_clean_step_names [OF names(1), of True "[]"] names(2) by simp
  then show ?thesis
    by (simp add: path_Clean_rooted)
qed

lemma request_path_closed:
  "request_path containerName pathStr
     = ''/'' @ join_slash (rev (foldl (clean_step True) []
                                  (elements containerName @ elements pathStr)))
       @ (if HasSuffix pathStr ''/'' then ''/'' else [])"
proof -
  have "path_Join [''/'', containerName, pathStr]
          = path_Clean (CHR ''/'' # ''/'' @ containerName @ ''/'' @ pathStr)"
    by (simp add: path_Join_def)
  then have "path_Clean (path_Join [''/'', containerName, pathStr])
          = path_Clean (CHR ''/'' # ''/'' @ containerName @ ''/'' @ pathStr)"
    by (simp only: path_Clean_rooted_again)
  also have "\<dots> = ''/'' @ join_slash (rev (foldl (clean_step True) []
                                  (elements containerName @ elements pathStr)))"
    unfolding path_Clean_rooted using elements_request [of containerName pathStr] by simp
  finally show ?thesis
    by (simp add: request_path_def)
qed


lemma request_path_cong:
  assumes "filter (\<lambda>e. e \<noteq> ''.'') (elements p) = filter (\<lambda>e. e \<noteq> ''.'') (elements q)"
    and "HasSuffix p ''/'' = HasSuffix q ''/''"
  shows "request_path containerName p = request_path containerName q"
proof -
  have "foldl (clean_step True) [] (elements containerName @ elements p)
      = foldl (clean_step True) [] (elements containerName @ elements q)"
    using foldl_clean_step_filter [of True "foldl (clean_step True) [] (elements containerName)"
        "elements p"]
      foldl_clean_step_filter [of True "foldl (clean_step True) [] (elements containerName)"
        "elements q"] assms(1)
    by simp
  with assms(2) show ?thesis
    by (simp only: request_path_closed)
qed

lemma HasSuffix_slash: "HasSuffix p ''/'' \<longleftrightarrow> p \<noteq> [] \<and> last p = CHR ''/''"
proof (cases p rule: rev_cases)
  case Nil
  then show ?thesis by (simp add: HasSuffix_def)
next
  case (snoc xs x)
  then show ?thesis by (simp add: HasSuffix_def)
qed

lemma path_Split_append: "fst (path_Split p) @ snd (path_Split p) = p"
proof -
  have "rev (dropWhile (\<lambda>c. c \<noteq> CHR ''/'') (rev p)) @ rev (takeWhile (\<lambda>c. c \<noteq> CHR ''/'') (rev p))
      = rev (takeWhile (\<lambda>c. c \<noteq> CHR ''/'') (rev p) @ dropWhile (\<lambda>c. c \<noteq> CHR ''/'') (rev p))"
    by (simp only: rev_append)
  also have "\<dots> = p"
    by (simp only: takeWhile_dropWhile_id rev_rev_ident)
  finally show ?thesis by (simp add: path_Split_def)
qed

lemma path_Split_dir: "fst (path_Split p) = [] \<or> last (fst (path_Split p)) = CHR ''/''"
proof (cases "dropWhile (\<lambda>c. c \<noteq> CHR ''/'') (rev p)")
  case Nil
  then show ?thesis by (simp add: path_Split_def)
next
  case (Cons x xs)
  then have "x = CHR ''/''"
    using hd_dropWhile [of "\<lambda>c. c \<noteq> CHR ''/''" "rev p"] by fastforce
  with Cons show ?thesis by (simp add: path_Split_def)
qed

lemma path_Split_file: "CHR ''/'' \<notin> set (snd (path_Split p))"
  using set_takeWhileD [of "CHR ''/''" "\<lambda>c. c \<noteq> CHR ''/''" "rev p"]
  by (auto simp: path_Split_def)

lemma path_Split_slash: "HasSuffix p ''/'' \<Longrightarrow> path_Split p = (p, [])"
  by (cases p rule: rev_cases) (simp_all add: HasSuffix_def path_Split_def)

lemma path_Split_file_nonempty:
  "p \<noteq> [] \<Longrightarrow> \<not> HasSuffix p ''/'' \<Longrightarrow> snd (path_Split p) \<noteq> []"
  by (cases p rule: rev_cases) (simp_all add: HasSuffix_def path_Split_def)

lemma elements_dir_file:
  "d = [] \<or> last d = CHR ''/'' \<Longrightarrow> elements (d @ t) = elements d @ elements t"
proof (cases d rule: rev_cases)
  case Nil
  then show ?thesis by simp
next
  case (snoc xs x)
  assume "d = [] \<or> last d = CHR ''/''"
  with snoc have "x = CHR ''/''" by simp
  with snoc show ?thesis
    using elements_slash_between [of xs t] elements_slash_between [of xs "[]"] by simp
qed

lemma elements_path_Split:
  "elements p = elements (fst (path_Split p)) @ elements (snd (path_Split p))"
  using elements_dir_file [OF path_Split_dir, of p "snd (path_Split p)"]
  by (simp add: path_Split_append)

lemma elements_path_Clean:
  assumes "''..'' \<notin> set (elements d)"
  shows "filter (\<lambda>e. e \<noteq> ''.'') (elements (path_Clean d)) = filter (\<lambda>e. e \<noteq> ''.'') (elements d)"
proof -
  let ?names = "filter (\<lambda>e. e \<noteq> ''.'') (elements d)"
  have sound: "\<forall>e \<in> set ?names. e \<noteq> [] \<and> CHR ''/'' \<notin> set e"
    using elements_sound [of d] by simp
  have out: "rev (foldl (clean_step rooted) [] (elements d)) = ?names" for rooted
    using foldl_clean_step_names [OF assms, of rooted "[]"] by simp
  have joined: "elements (join_slash ?names) = ?names"
    by (rule elements_join_slash [OF sound])
  show ?thesis
  proof (cases "d = []")
    case True
    then show ?thesis by (simp add: path_Clean_def elements_plain)
  next
    case False
    show ?thesis
    proof (cases "hd d = CHR ''/''")
      case True
      with False have "path_Clean d = CHR ''/'' # join_slash ?names"
        by (simp add: path_Clean_def out)
      then show ?thesis by (simp add: joined)
    next
      case rel: False
      show ?thesis
      proof (cases "?names = []")
        case True
        with False rel have "path_Clean d = ''.''"
          by (simp add: path_Clean_def out)
        with True show ?thesis by (simp add: elements_plain)
      next
        case nonempty: False
        with False rel have "path_Clean d = join_slash ?names"
          by (simp add: path_Clean_def out)
        then show ?thesis by (simp add: joined)
      qed
    qed
  qed
qed

lemma final_target_parent:
  assumes "''..'' \<notin> set (elements p)"
  shows "request_path containerName (''/'' @ path_Dir p @ ''/'')
           = request_path containerName (''/'' @ fst (path_Split p))"
proof -
  let ?d = "fst (path_Split p)"
  from assms have names: "''..'' \<notin> set (elements ?d)"
    using elements_path_Split [of p] by simp
  have "filter (\<lambda>e. e \<noteq> ''.'') (elements (''/'' @ path_Dir p @ ''/''))
          = filter (\<lambda>e. e \<noteq> ''.'') (elements (''/'' @ ?d))"
    using elements_path_Clean [OF names] by (simp add: path_Dir_def)
  moreover have "HasSuffix (''/'' @ path_Dir p @ ''/'') ''/'' = HasSuffix (''/'' @ ?d) ''/''"
    using path_Split_dir [of p] by (auto simp: HasSuffix_slash)
  ultimately show ?thesis
    by (rule request_path_cong)
qed


lemma join_slash_snoc:
  "join_slash (es @ [t]) = (if es = [] then t else join_slash es @ ''/'' @ t)"
  by (induction es rule: join_slash.induct) simp_all

lemma final_target_stream:
  assumes "''..'' \<notin> set (elements p)" and "HasSuffix p ''/''"
  shows "request_path containerName (''/'' @ path_Dir p @ ''/'') = request_path containerName p"
proof -
  have "request_path containerName (''/'' @ p) = request_path containerName p"
    using assms(2) by (intro request_path_cong) (simp_all add: HasSuffix_slash)
  with final_target_parent [OF assms(1), of containerName] assms(2) show ?thesis
    by (simp add: path_Split_slash)
qed

lemma final_target_top_level:
  assumes "''..'' \<notin> set (elements p)" and "\<not> HasSuffix p ''/''" and "length (elements p) = 1"
  shows "request_path containerName (''/'' @ path_Dir p @ ''/'') = request_path containerName ''/''"
proof -
  from assms(3) have "p \<noteq> []" by auto
  from path_Split_file_nonempty [OF this assms(2)] path_Split_file [of p]
  have "elements (snd (path_Split p)) = [snd (path_Split p)]"
    by (simp add: elements_plain)
  with assms(3) elements_path_Split [of p] have "elements (fst (path_Split p)) = []"
    by simp
  then have "request_path containerName (''/'' @ fst (path_Split p))
               = request_path containerName ''/''"
    using path_Split_dir [of p] by (intro request_path_cong) (auto simp: HasSuffix_slash)
  with final_target_parent [OF assms(1), of containerName] show ?thesis
    by simp
qed

lemma final_target_not_stream:
  assumes "''..'' \<notin> set (elements p)" and "\<not> HasSuffix p ''/''" and "p \<noteq> []"
    and "snd (path_Split p) \<noteq> ''.''"
  shows "request_path containerName (''/'' @ path_Dir p @ ''/'') \<noteq> request_path containerName p"
    and "request_path containerName (''/'' @ path_Dir p @ ''/'')
           \<noteq> request_path containerName (p @ ''/'')"
proof -
  let ?d = "fst (path_Split p)" and ?t = "snd (path_Split p)"
  let ?S = "foldl (clean_step True) [] (elements containerName @ elements ?d)"
  from path_Split_file_nonempty [OF assms(3,2)] path_Split_file [of p]
  have t: "?t \<noteq> []" "CHR ''/'' \<notin> set ?t" "elements ?t = [?t]"
    by (simp_all add: elements_plain)
  have slash: "''/'' \<noteq> ?t"
  proof
    assume "''/'' = ?t"
    then have "CHR ''/'' \<in> set ?t" by (metis list.set_intros(1))
    with t(2) show False by simp
  qed
  from t elements_path_Split [of p] have p: "elements p = elements ?d @ [?t]"
    by simp
  with assms(1) have "?t \<noteq> ''..''" by auto
  with assms(4) p have stream:
    "foldl (clean_step True) [] (elements containerName @ elements p) = ?t # ?S"
    by (simp add: clean_step_name)
  have dir: "HasSuffix (''/'' @ ?d) ''/''"
    using path_Split_dir [of p] by (auto simp: HasSuffix_slash)
  have "request_path containerName (''/'' @ ?d) = ''/'' @ join_slash (rev ?S) @ ''/''"
    unfolding request_path_closed using dir by simp
  with final_target_parent [OF assms(1), of containerName]
  have final: "request_path containerName (''/'' @ path_Dir p @ ''/'')
                 = ''/'' @ join_slash (rev ?S) @ ''/''"
    by simp
  have "request_path containerName p = ''/'' @ join_slash (rev ?S @ [?t])"
    unfolding request_path_closed using assms(2) stream by simp
  with final t slash show
    "request_path containerName (''/'' @ path_Dir p @ ''/'') \<noteq> request_path containerName p"
    by (auto simp: join_slash_snoc)
  have "request_path containerName (p @ ''/'') = ''/'' @ join_slash (rev ?S @ [?t]) @ ''/''"
    unfolding request_path_closed using stream by (simp add: HasSuffix_slash)
  with final t show
    "request_path containerName (''/'' @ path_Dir p @ ''/'')
       \<noteq> request_path containerName (p @ ''/'')"
    by (auto simp: join_slash_snoc)
qed

lemma DeleteStreamSync_final_call:
  assumes "\<forall>n call. httpClient c n call \<noteq> Inl ErrConnectionClosed"
    and "ContainerName (DeleteStream_dpi i) \<noteq> []"
    and "url_Parse L (URL (DeleteStream_dpi i)) = Some u"
    and "(GetContainerContentsSync L c (listingInput i) st :: unit sync_result)
           = ((Some r, None), st1)"
  shows "last (calls (snd (DeleteStreamSync L c i st)))
           = delete_call u (DeleteStream_dpi i) (''/'' @ path_Dir (DeleteStream_Path i) @ ''/'')"
proof -
  from listing_output [OF assms(4)] obtain out where "Output r = Some (OutGetContainerContents out)"
    by blast
  then show ?thesis
    by (simp add: DeleteStreamSync_listing assms(4)
        DeleteObjectSync_single_call [OF assms(1-3)] deleteShards_calls [OF assms(1-3)])
qed

text \<open>
  Claim C10 as stated: for every path with a trailing slash the last deletion resolves to
  the stream directory, and for every path without one to the parent directory and not to
  the stream directory.  In container \<open>c\<close>, the stream path \<open>/../a/\<close> resolves to \<open>/a/\<close>
  while the last deletion resolves to \<open>/c/a/\<close>; and for the stream path \<open>/a/.\<close>, which has
  no trailing slash, the last deletion resolves to \<open>/c/a/\<close>, the stream directory itself.
\<close>

theorem final_deletion_dot_paths:
  "HasSuffix ''/../a/'' ''/''
   \<and> request_path ''c'' ''/../a/'' = ''/a/''
   \<and> request_path ''c'' (''/'' @ path_Dir ''/../a/'' @ ''/'') = ''/c/a/''
   \<and> \<not> HasSuffix ''/a/.'' ''/''
   \<and> request_path ''c'' ''/a/.'' = ''/c/a''
   \<and> request_path ''c'' (''/a/.'' @ ''/'') = ''/c/a/''
   \<and> request_path ''c'' (''/'' @ path_Dir ''/a/.'' @ ''/'') = ''/c/a/''"
  by (simp add: request_path_def path_eval)

text \<open>
  Claim C10, amended: after a successful listing the last call of \<open>DeleteStreamSync\<close> is
  the deletion of \<open>"/" + path.Dir(input.Path) + "/"\<close>.  For an input path without a \<open>..\<close>
  element, the URI path of that deletion is the one the input path itself resolves to if
  the input path ends with a slash; if it does not, it is the URI path of the input path
  cut after its last slash (the parent directory), which is the container root when the
  path has a single element, and, when the path is not empty and its last element is not
  \<open>.\<close>, it differs from what the input path resolves to with or without a slash
  appended.
\<close>

theorem DeleteStreamSync_final_target:
  assumes "''..'' \<notin> set (elements (DeleteStream_Path i))"
  shows
   "(\<forall>L c st u r st1.
       (\<forall>n call. httpClient c n call \<noteq> Inl ErrConnectionClosed)
       \<and> ContainerName (DeleteStream_dpi i) \<noteq> []
       \<and> url_Parse L (URL (DeleteStream_dpi i)) = Some u
       \<and> (GetContainerContentsSync L c (listingInput i) st :: unit sync_result)
           = ((Some r, None), st1) \<longrightarrow>
       last (calls (snd (DeleteStreamSync L c i st)))
         = delete_call u (DeleteStream_dpi i) (''/'' @ path_Dir (DeleteStream_Path i) @ ''/''))
    \<and> (HasSuffix (DeleteStream_Path i) ''/'' \<longrightarrow>
         request_path containerName (''/'' @ path_Dir (DeleteStream_Path i) @ ''/'')
           = request_path containerName (DeleteStream_Path i))
    \<and> (\<not> HasSuffix (DeleteStream_Path i) ''/'' \<longrightarrow>
         request_path containerName (''/'' @ path_Dir (DeleteStream_Path i) @ ''/'')
           = request_path containerName (''/'' @ fst (path_Split (DeleteStream_Path i)))
         \<and> (length (elements (DeleteStream_Path i)) = 1 \<longrightarrow>
              request_path containerName (''/'' @ path_Dir (DeleteStream_Path i) @ ''/'')
                = request_path containerName ''/'')
         \<and> (DeleteStream_Path i \<noteq> [] \<and> snd (path_Split (DeleteStream_Path i)) \<noteq> ''.'' \<longrightarrow>
              request_path containerName (''/'' @ path_Dir (DeleteStream_Path i) @ ''/'')
                \<noteq> request_path containerName (DeleteStream_Path i)
              \<and> request_path containerName (''/'' @ path_Dir (DeleteStream_Path i) @ ''/'')
                \<noteq> request_path containerName (DeleteStream_Path i @ ''/'')))"
proof (intro conjI allI impI)
  fix L :: stdlib and c :: client_context and st st1 :: net and u :: url
    and r :: "unit Response"
  assume "(\<forall>n call. httpClient c n call \<noteq> Inl ErrConnectionClosed)
       \<and> ContainerName (DeleteStream_dpi i) \<noteq> []
       \<and> url_Parse L (URL (DeleteStream_dpi i)) = Some u
       \<and> (GetContainerContentsSync L c (listingInput i) st :: unit sync_result)
           = ((Some r, None), st1)"
  then show "last (calls (snd (DeleteStreamSync L c i st)))
         = delete_call u (DeleteStream_dpi i) (''/'' @ path_Dir (DeleteStream_Path i) @ ''/'')"
    by (intro DeleteStreamSync_final_call [where r = r and ?st1.0 = st1]) simp_all
next
  assume "HasSuffix (DeleteStream_Path i) ''/''"
  with assms show "request_path containerName (''/'' @ path_Dir (DeleteStream_Path i) @ ''/'')
           = request_path containerName (DeleteStream_Path i)"
    by (rule final_target_stream)
next
  show "request_path containerName (''/'' @ path_Dir (DeleteStream_Path i) @ ''/'')
           = request_path containerName (''/'' @ fst (path_Split (DeleteStream_Path i)))"
    using assms by (rule final_target_parent)
next
  assume "\<not> HasSuffix (DeleteStream_Path i) ''/''" "length (elements (DeleteStream_Path i)) = 1"
  with assms show "request_path containerName (''/'' @ path_Dir (DeleteStream_Path i) @ ''/'')
                = request_path containerName ''/''"
    by (rule final_target_top_level)
next
  assume h: "\<not> HasSuffix (DeleteStream_Path i) ''/''"
    "DeleteStream_Path i \<noteq> [] \<and> snd (path_Split (DeleteStream_Path i)) \<noteq> ''.''"
  then show "request_path containerName (''/'' @ path_Dir (DeleteStream_Path i) @ ''/'')
                \<noteq> request_path containerName (DeleteStream_Path i)"
    using final_target_not_stream(1) [OF assms h(1)] by simp
  from h show "request_path containerName (''/'' @ path_Dir (DeleteStream_Path i) @ ''/'')
                \<noteq> request_path containerName (DeleteStream_Path i @ ''/'')"
    using final_target_not_stream(2) [OF assms h(1)] by simp
qed

theorem DeleteStreamSync_final_target_witness:
  "''..'' \<notin> set (elements ''/s/'') \<and> HasSuffix ''/s/'' ''/''
   \<and> last (calls (snd (DeleteStreamSync one_shard_stdlib second_call_fails
        \<lparr> DeleteStream_dpi = sample_dpi, DeleteStream_Path = ''/s/'' \<rparr> no_calls)))
      = delete_call \<lparr> Endpoint = ''https://h'', Path = [], RawQuery = [] \<rparr> sample_dpi ''//s/''
   \<and> request_path ''c'' ''//s/'' = ''/c/s/''
   \<and> request_path ''c'' ''/s/'' = ''/c/s/''
   \<and> ''..'' \<notin> set (elements ''/t/s'') \<and> \<not> HasSuffix ''/t/s'' ''/''
   \<and> request_path ''c'' (''/'' @ path_Dir ''/t/s'' @ ''/'') = ''/c/t/''
   \<and> request_path ''c'' (''/'' @ fst (path_Split ''/t/s'')) = ''/c/t/''
   \<and> request_path ''c'' ''/t/s'' = ''/c/t/s''
   \<and> ''..'' \<notin> set (elements ''/s'') \<and> \<not> HasSuffix ''/s'' ''/'' \<and> length (elements ''/s'') = 1
   \<and> request_path ''c'' (''/'' @ path_Dir ''/s'' @ ''/'') = request_path ''c'' ''/''
   \<and> request_path ''c'' (''/'' @ path_Dir ''/s'' @ ''/'') \<noteq> request_path ''c'' ''/s''
   \<and> request_path ''c'' (''/'' @ path_Dir ''/s'' @ ''/'') \<noteq> request_path ''c'' (''/s'' @ ''/'')"
proof -
  let ?i = "\<lparr> DeleteStream_dpi = sample_dpi, DeleteStream_Path = ''/s/'' \<rparr>"
  let ?j = "\<lparr> DeleteStream_dpi = sample_dpi, DeleteStream_Path = ''/s'' \<rparr>"
  let ?k = "\<lparr> DeleteStream_dpi = sample_dpi, DeleteStream_Path = ''/t/s'' \<rparr>"
  have names: "''..'' \<notin> set (elements ''/s/'')" "''..'' \<notin> set (elements ''/s'')"
    "''..'' \<notin> set (elements ''/t/s'')" "length (elements ''/s'') = 1"
    by (simp_all add: elements_def)
  have slash: "HasSuffix ''/s/'' ''/''" "\<not> HasSuffix ''/s'' ''/''" "\<not> HasSuffix ''/t/s'' ''/''"
    by (simp_all add: HasSuffix_def)
  have split: "snd (path_Split ''/s'') \<noteq> ''.''"
    by (simp add: path_Split_def)
  have dir: "path_Dir ''/s/'' = ''/s''"
    by (simp add: path_eval)
  have paths: "request_path ''c'' ''//s/'' = ''/c/s/''" "request_path ''c'' ''/s/'' = ''/c/s/''"
    "request_path ''c'' (''/'' @ path_Dir ''/t/s'' @ ''/'') = ''/c/t/''"
    "request_path ''c'' ''/t/s'' = ''/c/t/s''"
    by (simp_all add: request_path_def path_eval)
  have i: "DeleteStream_dpi ?i = sample_dpi" "DeleteStream_Path ?i = ''/s/''"
    and j: "DeleteStream_Path ?j = ''/s''" and k: "DeleteStream_Path ?k = ''/t/s''"
    by simp_all
  note at_i = DeleteStreamSync_final_target [of ?i "''c''", unfolded i, OF names(1)]
  note at_j = DeleteStreamSync_final_target [of ?j "''c''", unfolded j, OF names(2)]
  note at_k = DeleteStreamSync_final_target [of ?k "''c''", unfolded k, OF names(3)]
  have call: "last (calls (snd (DeleteStreamSync one_shard_stdlib second_call_fails ?i no_calls)))
      = delete_call \<lparr> Endpoint = ''https://h'', Path = [], RawQuery = [] \<rparr> sample_dpi ''//s/''"
    using at_i [THEN conjunct1, rule_format, OF conjI [OF sample_facts(1)
          conjI [OF sample_facts(2) conjI [OF sample_facts(3) sample_listing]]]]
    by (simp add: dir)
  from at_k [THEN conjunct2, THEN conjunct2, rule_format, OF slash(3), THEN conjunct1] paths(3)
  have parent: "request_path ''c'' (''/'' @ fst (path_Split ''/t/s'')) = ''/c/t/''"
    by simp
  note at_j' = at_j [THEN conjunct2, THEN conjunct2, rule_format, OF slash(2), THEN conjunct2]
  have nonempty: "''/s'' \<noteq> []"
    by simp
  have top: "request_path ''c'' (''/'' @ path_Dir ''/s'' @ ''/'') = request_path ''c'' ''/''"
    "request_path ''c'' (''/'' @ path_Dir ''/s'' @ ''/'') \<noteq> request_path ''c'' ''/s''"
    "request_path ''c'' (''/'' @ path_Dir ''/s'' @ ''/'') \<noteq> request_path ''c'' (''/s'' @ ''/'')"
    using at_j' [THEN conjunct1, rule_format, OF names(4)]
      at_j' [THEN conjunct2, rule_format, OF conjI [OF nonempty split]]
    by blast+
  from names slash call paths parent top show ?thesis
    by simp
qed

section \<open>The round trip of the typed-attribute codec\<close>

lemma byte_of_digit_char: "d < 10 \<Longrightarrow> byte_of (digit_char d) = 48 + d"
  by (simp add: byte_of_def digit_char_def)

lemma digit_val_digit_char: "d < 10 \<Longrightarrow> digit_val (digit_char d) = Some d"
  by (simp add: digit_val_def byte_of_digit_char)

lemma digit_char_not:
  assumes "d < 10" and "byte_of c < 48 \<or> 57 < byte_of c"
  shows "digit_char d \<noteq> c"
  using byte_of_digit_char [OF assms(1)] assms by auto

lemma digit_char_no_sign:
  "d < 10 \<Longrightarrow> digit_char d \<noteq> CHR ''-''" "d < 10 \<Longrightarrow> digit_char d \<noteq> CHR ''+''"
  "d < 10 \<Longrightarrow> digit_char d \<noteq> CHR '':''"
  by (rule digit_char_not; simp add: byte_of_def)+

lemma parse_digits_snoc:
  "d < 10 \<Longrightarrow>
   parse_digits 10 maxVal n (cs @ [digit_char d])
     = (case parse_digits 10 maxVal n cs of
          Inl e \<Rightarrow> Inl e
        | Inr v \<Rightarrow> if maxVal < v * 10 + d then Inl ErrRange else Inr (v * 10 + d))"
  by (induction cs arbitrary: n) (simp_all add: digit_val_digit_char split: option.splits)

lemma parse_digits_digits10:
  "n \<le> maxVal \<Longrightarrow> parse_digits 10 maxVal 0 (digits10 n) = Inr n"
proof (induction n rule: digits10.induct)
  case (1 n)
  show ?case
  proof (cases "n < 10")
    case True
    with 1(2) show ?thesis
      by (simp add: digits10.simps [of n] digit_val_digit_char)
  next
    case False
    from 1(2) have "n div 10 \<le> maxVal" by simp
    with 1(1) [OF False] have "parse_digits 10 maxVal 0 (digits10 (n div 10)) = Inr (n div 10)"
      by simp
    with False 1(2) show ?thesis
      by (simp add: digits10.simps [of n] parse_digits_snoc)
  qed
qed

lemma digits10_shape:
  "digits10 n \<noteq> [] \<and> (\<forall>c \<in> set (digits10 n). \<exists>d<10. c = digit_char d)"
proof (induction n rule: digits10.induct)
  case (1 n)
  show ?case
  proof (cases "n < 10")
    case True
    then show ?thesis by (auto simp: digits10.simps [of n])
  next
    case False
    have "\<exists>d<10. digit_char (n mod 10) = digit_char d"
      by (rule exI [of _ "n mod 10"]) simp
    with 1 [OF False] False show ?thesis
      by (auto simp: digits10.simps [of n])
  qed
qed

lemma digits10_no_sign:
  "digits10 n \<noteq> []" "hd (digits10 n) \<noteq> CHR ''-''" "hd (digits10 n) \<noteq> CHR ''+''"
  "CHR '':'' \<notin> set (digits10 n)"
proof -
  from digits10_shape [of n] show ne: "digits10 n \<noteq> []" by simp
  then have "hd (digits10 n) \<in> set (digits10 n)" by simp
  with digits10_shape [of n] obtain d where "d < 10" "hd (digits10 n) = digit_char d"
    by blast
  then show "hd (digits10 n) \<noteq> CHR ''-''" "hd (digits10 n) \<noteq> CHR ''+''"
    by (simp_all add: digit_char_no_sign)
  show "CHR '':'' \<notin> set (digits10 n)"
  proof
    assume "CHR '':'' \<in> set (digits10 n)"
    with digits10_shape [of n] obtain d' where "d' < 10" "CHR '':'' = digit_char d'"
      by blast
    with digit_char_no_sign(3) [of d'] show False by simp
  qed
qed

lemma ParseInt64_FormatInt:
  assumes "- (2 ^ 63) \<le> x" and "x < 2 ^ 63"
  shows "ParseInt64 (FormatInt x) = Inr x"
proof (cases "x < 0")
  case True
  from assms(1) have "nat (- x) \<le> 2 ^ 63"
    by (simp add: nat_le_iff)
  then have bound: "nat (- x) \<le> 2 ^ 64 - 1" "\<not> (2 :: nat) ^ 63 < nat (- x)"
    by simp_all
  have parsed: "ParseUint (digits10 (nat (- x))) 10 64 = Inr (nat (- x))"
    unfolding ParseUint_def using parse_digits_digits10 [OF bound(1)] digits10_no_sign(1)
    by simp
  have "FormatInt x = CHR ''-'' # digits10 (nat (- x))"
    using True by (simp add: FormatInt_def)
  then show ?thesis
    using True bound(2) by (simp add: ParseInt64_def parsed)
next
  case False
  from assms(2) False have "nat x < 2 ^ 63"
    by (simp add: nat_less_iff)
  then have bound: "nat x \<le> 2 ^ 64 - 1" "\<not> (2 :: nat) ^ 63 \<le> nat x"
    by simp_all
  have parsed: "ParseUint (digits10 (nat x)) 10 64 = Inr (nat x)"
    unfolding ParseUint_def using parse_digits_digits10 [OF bound(1)] digits10_no_sign(1)
    by simp
  have "FormatInt x = digits10 (nat x)"
    using False by (simp add: FormatInt_def)
  then show ?thesis
    using False bound(2) digits10_no_sign [of "nat x"] by (simp add: ParseInt64_def parsed)
qed

lemma ParseInt64_FormatInt_sint:
  "ParseInt64 (FormatInt (sint (w :: 64 word))) = Inr (sint w)"
  using sint_ge [of w] sint_lt [of w] by (intro ParseInt64_FormatInt) simp_all

lemma FormatInt_no_colon: "CHR '':'' \<notin> set (FormatInt x)"
  by (simp add: FormatInt_def digits10_no_sign)

lemma split_aux_colon_last:
  "CHR '':'' \<notin> set b \<Longrightarrow> split_aux '':'' 0 acc b = [rev acc @ b]"
  by (induction b arbitrary: acc) auto

lemma split_aux_colon:
  "CHR '':'' \<notin> set a \<Longrightarrow>
   split_aux '':'' 0 acc (a @ '':'' @ b) = (rev acc @ a) # split_aux '':'' 0 [] b"
  by (induction a arbitrary: acc) auto

lemma Split_colon:
  "CHR '':'' \<notin> set a \<Longrightarrow> CHR '':'' \<notin> set b \<Longrightarrow> Split (a @ '':'' @ b) '':'' = [a, b]"
  using split_aux_colon [of a "[]" b] by (simp add: Split_def split_aux_colon_last)

lemma time_Unix_round_trip:
  "valid_Time t \<Longrightarrow> time_Unix (sint (Unix t)) (int (Nanosecond t)) = t"
  by (cases t) (simp add: valid_Time_def time_Unix_def)

lemma decode_timestamp:
  assumes "valid_Time t"
  shows "decode_value L attributeName
           [(''TS'', TString (FormatInt (sint (Unix t)) @ '':'' @ FormatInt (int (Nanosecond t))))]
         = Inr (Some (VTime t))"
proof -
  let ?secs = "FormatInt (sint (Unix t))" and ?nanos = "FormatInt (int (Nanosecond t))"
  have parts: "Split (?secs @ '':'' @ ?nanos) '':'' = [?secs, ?nanos]"
    by (rule Split_colon) (rule FormatInt_no_colon)+
  from assms have "ParseInt64 ?nanos = Inr (int (Nanosecond t))"
    by (intro ParseInt64_FormatInt) (simp_all add: valid_Time_def)
  with parts time_Unix_round_trip [OF assms] show ?thesis
    by (simp add: decode_value_def ParseInt64_FormatInt_sint)
qed

lemma decode_integer:
  "decode_value L attributeName [(''N'', TString (FormatInt (sint (v :: 64 word))))]
     = Inr (Some (VInt v))"
  by (simp add: decode_value_def Atoi_def ParseInt64_FormatInt_sint)

lemma decode_float:
  "float_round_trip L f \<Longrightarrow>
   decode_value L attributeName [(''N'', TString (FormatFloat L f))] = Inr (Some (VFloat64 f))"
  by (auto simp: decode_value_def float_round_trip_def split: sum.splits)

lemma decode_string:
  "decode_value L attributeName [(''S'', TString v)] = Inr (Some (VString v))"
  by (simp add: decode_value_def)

lemma decode_bool:
  "decode_value L attributeName [(''BOOL'', TBool v)] = Inr (Some (VBool v))"
  by (simp add: decode_value_def)

lemma index_of_nth:
  "distinct xs \<Longrightarrow> n < length xs \<Longrightarrow> index_of xs (xs ! n) = Some n"
proof (induction xs arbitrary: n)
  case Nil
  then show ?case by simp
next
  case (Cons y ys)
  show ?case
  proof (cases n)
    case 0
    then show ?thesis by simp
  next
    case (Suc m)
    with Cons.prems have "ys ! m \<in> set ys" "y \<notin> set ys" "index_of ys (ys ! m) = Some m"
      using Cons.IH [of m] by simp_all
    with Suc show ?thesis by auto
  qed
qed

lemma base64_alphabet_distinct: "distinct base64_alphabet" "length base64_alphabet = 64"
  by (simp_all add: base64_alphabet_def)

lemma b64_val_b64_char: "n < 64 \<Longrightarrow> b64_val (b64_char n) = Some n"
  by (simp add: b64_val_def b64_char_def index_of_nth base64_alphabet_distinct)

lemma base64_alphabet_plain:
  "CHR ''='' \<notin> set base64_alphabet" "CHR 0x0D \<notin> set base64_alphabet"
  "CHR 0x0A \<notin> set base64_alphabet"
  by (simp_all add: base64_alphabet_def)

lemma b64_char_plain:
  assumes "n < 64"
  shows "b64_char n \<noteq> CHR ''=''" "b64_char n \<noteq> CHR 0x0D" "b64_char n \<noteq> CHR 0x0A"
proof -
  from assms have "b64_char n \<in> set base64_alphabet"
    by (simp add: b64_char_def base64_alphabet_distinct(2))
  with base64_alphabet_plain
  show "b64_char n \<noteq> CHR ''=''" "b64_char n \<noteq> CHR 0x0D" "b64_char n \<noteq> CHR 0x0A"
    by auto
qed

lemma quantum_pack: "quantum x y z w = ((x * 64 + y) * 64 + z) * 64 + w"
  by (simp add: quantum_def algebra_simps)

lemma quantum_digits:
  "quantum (n div 262144) (n div 4096 mod 64) (n div 64 mod 64) (n mod 64) = n"
proof -
  have d1: "n div 4096 = n div 64 div 64"
    using div_mult2_eq [of n 64 64] by simp
  have d2: "n div 262144 = n div 64 div 64 div 64"
    using div_mult2_eq [of n 4096 64] by (simp add: d1)
  show ?thesis
    unfolding quantum_pack d1 d2 by simp
qed

lemma byte_of_bound: "byte_of c < 256"
  by (simp add: byte_of_def)

lemma char_of_byte_of: "char_of (byte_of c) = c"
  by (simp add: byte_of_def)

lemma one_byte_group:
  fixes a :: nat
  assumes "a < 256" and "n = a * 65536"
  shows "n div 262144 < 64" "n div 4096 mod 64 < 64" "n div 64 mod 64 = 0" "n mod 64 = 0"
    "n div 65536 = a"
  using assms by auto

lemma two_byte_group:
  fixes a b :: nat
  assumes "a < 256" and "b < 256" and "n = a * 65536 + b * 256"
  shows "n div 262144 < 64" "n div 4096 mod 64 < 64" "n div 64 mod 64 < 64" "n mod 64 = 0"
    "n div 65536 = a" "n div 256 mod 256 = b"
  using assms by auto

lemma three_byte_group:
  fixes a b c :: nat
  assumes "a < 256" and "b < 256" and "c < 256" and "n = a * 65536 + b * 256 + c"
  shows "n div 262144 < 64" "n div 4096 mod 64 < 64" "n div 64 mod 64 < 64" "n mod 64 < 64"
    "n div 65536 = a" "n div 256 mod 256 = b" "n mod 256 = c"
proof -
  from assms show "n div 262144 < 64" "n div 4096 mod 64 < 64" "n div 64 mod 64 < 64"
    "n mod 64 < 64" "n div 65536 = a"
    by auto
  have low: "(m * 256 + c) mod 256 = c" "(m * 256 + c) div 256 = m" for m
    using assms(3) by simp_all
  from assms(4) have n: "n = (a * 256 + b) * 256 + c"
    by simp
  show "n mod 256 = c"
    by (simp only: n low)
  have "n div 256 = a * 256 + b"
    by (simp only: n low)
  with assms(2) show "n div 256 mod 256 = b"
    by simp
qed

lemma decode_quanta_group:
  assumes "x < 64" "y < 64" "z < 64" "w < 64" and "decode_quanta rest = Some bs"
  shows "decode_quanta (b64_char x # b64_char y # b64_char z # b64_char w # rest)
           = Some (char_of (quantum x y z w div 65536)
                   # char_of (quantum x y z w div 256 mod 256)
                   # char_of (quantum x y z w mod 256) # bs)"
proof (cases rest)
  case Nil
  with assms show ?thesis
    by (simp add: b64_val_b64_char b64_char_plain)
next
  case (Cons e rest')
  with assms show ?thesis
    by (simp add: b64_val_b64_char)
qed

lemma decode_quanta_EncodeToString: "decode_quanta (EncodeToString bs) = Some bs"
proof (induction bs rule: EncodeToString.induct)
  case 1
  then show ?case by simp
next
  case (2 a)
  define n where "n = byte_of a * 65536"
  note g = one_byte_group [OF byte_of_bound n_def]
  from quantum_digits [of n] g(3,4)
  have "quantum (n div 262144) (n div 4096 mod 64) 0 0 = n"
    by simp
  with g show ?case
    by (simp add: n_def [symmetric] b64_val_b64_char char_of_byte_of)
next
  case (3 a b)
  define n where "n = byte_of a * 65536 + byte_of b * 256"
  note g = two_byte_group [OF byte_of_bound byte_of_bound n_def]
  from quantum_digits [of n] g(4)
  have "quantum (n div 262144) (n div 4096 mod 64) (n div 64 mod 64) 0 = n"
    by simp
  with g show ?case
    by (simp add: n_def [symmetric] b64_val_b64_char b64_char_plain char_of_byte_of)
next
  case (4 a b c rest)
  define n where "n = byte_of a * 65536 + byte_of b * 256 + byte_of c"
  note g = three_byte_group [OF byte_of_bound byte_of_bound byte_of_bound n_def]
  from decode_quanta_group [OF g(1-4) 4] g(5-7) show ?case
    by (simp add: n_def [symmetric] quantum_digits char_of_byte_of)
qed

lemma EncodeToString_plain:
  "\<forall>c \<in> set (EncodeToString bs). c \<noteq> CHR 0x0D \<and> c \<noteq> CHR 0x0A"
proof (induction bs rule: EncodeToString.induct)
  case 1
  then show ?case by simp
next
  case (2 a)
  define n where "n = byte_of a * 65536"
  note g = one_byte_group [OF byte_of_bound n_def]
  from g show ?case
    by (simp add: n_def [symmetric] b64_char_plain)
next
  case (3 a b)
  define n where "n = byte_of a * 65536 + byte_of b * 256"
  note g = two_byte_group [OF byte_of_bound byte_of_bound n_def]
  from g show ?case
    by (simp add: n_def [symmetric] b64_char_plain)
next
  case (4 a b c rest)
  define n where "n = byte_of a * 65536 + byte_of b * 256 + byte_of c"
  note g = three_byte_group [OF byte_of_bound byte_of_bound byte_of_bound n_def]
  from g 4 show ?case
    by (simp add: n_def [symmetric] b64_char_plain)
qed

lemma DecodeString_EncodeToString: "DecodeString (EncodeToString bs) = Some bs"
proof -
  have "filter (\<lambda>c. c \<noteq> CHR 0x0D \<and> c \<noteq> CHR 0x0A) (EncodeToString bs) = EncodeToString bs"
    using EncodeToString_plain [of bs] by (simp add: filter_id_conv)
  then show ?thesis
    by (simp add: DecodeString_def decode_quanta_EncodeToString)
qed

lemma decode_blob:
  "decode_value L attributeName [(''B'', TString (EncodeToString v))] = Inr (Some (VBytes v))"
  by (simp add: decode_value_def DecodeString_EncodeToString)

lemma round_trip_value:
  assumes "spec_value v \<noteq> None" and "\<forall>f. v = VFloat64 f \<longrightarrow> float_round_trip L f"
  shows "\<exists>typed. encode_value L v = Some typed
           \<and> decode_value L attributeName typed
               = Inr (Some (case v of VInt64 w \<Rightarrow> VInt w | _ \<Rightarrow> v))"
proof (cases v)
  case (VTime t)
  with assms(1) have "valid_Time t"
    by (simp split: if_splits)
  from decode_timestamp [OF this, of L attributeName] VTime show ?thesis
    by (simp add: encode_value_def)
next
  case (VFloat64 f)
  with assms(2) show ?thesis
    by (simp add: encode_value_def decode_float)
qed (use assms(1) in \<open>simp_all add: encode_value_def decode_integer decode_string decode_blob
    decode_bool\<close>)

lemma round_trip_attributes:
  assumes "\<forall>(attributeName, v) \<in> set attributes.
             spec_value v \<noteq> None \<and> (\<forall>f. v = VFloat64 f \<longrightarrow> float_round_trip L f)"
  shows "\<exists>typedAttributes.
           encodeTypedAttributes L attributes = Inr typedAttributes
           \<and> decodeTypedAttributes L typedAttributes
               = Inr (map (\<lambda>(attributeName, v).
                             (attributeName, case v of VInt64 w \<Rightarrow> VInt w | _ \<Rightarrow> v))
                        attributes)"
  using assms
proof (induction attributes)
  case Nil
  then show ?case by simp
next
  case (Cons entry attributes)
  obtain attributeName v where entry: "entry = (attributeName, v)"
    by (cases entry)
  from Cons.prems entry have v: "spec_value v \<noteq> None"
    "\<forall>f. v = VFloat64 f \<longrightarrow> float_round_trip L f"
    by simp_all
  from round_trip_value [OF v, of attributeName] obtain typed where
    typed: "encode_value L v = Some typed"
      "decode_value L attributeName typed
         = Inr (Some (case v of VInt64 w \<Rightarrow> VInt w | _ \<Rightarrow> v))"
    by blast
  from Cons.IH Cons.prems obtain typedAttributes where
    rest: "encodeTypedAttributes L attributes = Inr typedAttributes"
      "decodeTypedAttributes L typedAttributes
         = Inr (map (\<lambda>(attributeName, v).
                       (attributeName, case v of VInt64 w \<Rightarrow> VInt w | _ \<Rightarrow> v))
                  attributes)"
    by auto
  from typed rest entry show ?case
    by simp
qed

lemma spec_value_int64: "spec_value (case v of VInt64 w \<Rightarrow> VInt w | _ \<Rightarrow> v) = spec_value v"
  by (cases v) simp_all

text \<open>
  Claim C1 as stated: decoding the encoded item gives the item back, for every value of
  the six kinds.  A Go \<open>int64\<close> is a signed 64-bit integer; the item that holds the
  \<open>int64\<close> 5 is encoded as the number 5 and decoded as the item that holds the Go \<open>int\<close>
  5, a value of another dynamic type.
\<close>

theorem int64_attribute_decodes_as_int:
  "spec_value (VInt64 5) = Some (SInteger 5)
   \<and> encodeTypedAttributes sample_stdlib [(''x'', VInt64 5)]
     = Inr [(''x'', [(''N'', TString ''5'')])]
   \<and> decodeTypedAttributes sample_stdlib [(''x'', [(''N'', TString ''5'')])]
     = Inr [(''x'', VInt 5)]
   \<and> [(''x'', VInt 5)] \<noteq> [(''x'', VInt64 5)]"
proof -
  have "byte_of (CHR ''5'') = 53"
    by (simp add: byte_of_def)
  with char_of_byte_of [of "CHR ''5''"] have five: "char_of (53 :: nat) = CHR ''5''"
    by simp
  have rendered: "FormatInt 5 = ''5''"
    by (simp add: FormatInt_def digits10.simps [of 5] digit_char_def five)
  have parsed: "Atoi ''5'' = Inr 5"
    by (simp add: strconv_eval)
  show ?thesis
    by (simp add: encode_value_def decode_value_def rendered parsed)
qed

text \<open>
  Claim C1, amended: take an item whose values are of the Go types \<open>int\<close>, \<open>int64\<close>,
  \<open>float64\<close>, \<open>string\<close>, \<open>[]byte\<close>, \<open>bool\<close> and \<open>time.Time\<close>, and such that for each of
  its floats the text that \<open>strconv.FormatFloat\<close> renders is read back by
  \<open>strconv.ParseFloat\<close> as the same float and is refused by \<open>strconv.Atoi\<close>.  Then
  encoding succeeds, decoding the result succeeds, and the decoded item is the item in
  which every \<open>int64\<close> has become the \<open>int\<close> of the same value and nothing else has
  changed: the names and their order, the integers as numbers, the floats, the strings,
  the bytes of a blob, the booleans, and the seconds and nanoseconds of a time stamp are
  the same.  An item without an \<open>int64\<close> is decoded to itself.
\<close>

theorem typed_attributes_round_trip:
  assumes "\<forall>(attributeName, v) \<in> set attributes.
             spec_value v \<noteq> None \<and> (\<forall>f. v = VFloat64 f \<longrightarrow> float_round_trip L f)"
  shows "\<exists>typedAttributes decoded.
           encodeTypedAttributes L attributes = Inr typedAttributes
           \<and> decodeTypedAttributes L typedAttributes = Inr decoded
           \<and> decoded = map (\<lambda>(attributeName, v).
                               (attributeName, case v of VInt64 w \<Rightarrow> VInt w | _ \<Rightarrow> v))
                          attributes
           \<and> map fst decoded = map fst attributes
           \<and> map (spec_value \<circ> snd) decoded = map (spec_value \<circ> snd) attributes
           \<and> ((\<forall>attributeName w. (attributeName, VInt64 w) \<notin> set attributes) \<longrightarrow>
                decoded = attributes)"
proof -
  let ?decoded = "map (\<lambda>(attributeName, v).
                        (attributeName, case v of VInt64 w \<Rightarrow> VInt w | _ \<Rightarrow> v))
                    attributes"
  from round_trip_attributes [OF assms] obtain typedAttributes where
    codec: "encodeTypedAttributes L attributes = Inr typedAttributes"
      "decodeTypedAttributes L typedAttributes = Inr ?decoded"
    by blast
  have names: "map fst ?decoded = map fst attributes"
    by (simp add: case_prod_unfold comp_def)
  have kept: "map (spec_value \<circ> snd) ?decoded = map (spec_value \<circ> snd) attributes"
    by (simp add: case_prod_unfold comp_def spec_value_int64)
  have same: "?decoded = attributes"
    if "\<forall>attributeName w. (attributeName, VInt64 w) \<notin> set attributes"
  proof -
    have "(case v of VInt64 w \<Rightarrow> VInt w | _ \<Rightarrow> v) = v"
      if "(attributeName, v) \<in> set attributes" for attributeName v
      using that \<open>\<forall>attributeName w. (attributeName, VInt64 w) \<notin> set attributes\<close>
      by (cases v) auto
    then show ?thesis
      by (intro map_idI) auto
  qed
  from codec names kept same show ?thesis
    by blast
qed

theorem typed_attributes_round_trip_witness:
  "(\<exists>typedAttributes.
      encodeTypedAttributes float_stdlib sample_item = Inr typedAttributes
      \<and> decodeTypedAttributes float_stdlib typedAttributes = Inr sample_item)
   \<and> (\<exists>typedAttributes.
      encodeTypedAttributes float_stdlib ((''delta'', VInt64 (- 7)) # sample_item)
        = Inr typedAttributes
      \<and> decodeTypedAttributes float_stdlib typedAttributes
        = Inr ((''delta'', VInt (- 7)) # sample_item))
   \<and> map (spec_value \<circ> snd) sample_item
     = [Some (SInteger 30), Some (SFloat 0x3FF0000000000000), Some (SString ''foo''),
        Some (SBlob [CHR 0x00, CHR 0xFF, CHR ''a'', CHR ''b'']), Some (SBoolean True),
        Some (STimestamp 1600000000 5)]"
proof -
  have float: "float_round_trip float_stdlib 0x3FF0000000000000"
    by (simp add: float_round_trip_def float_stdlib_def strconv_eval)
  have kinds: "\<forall>(attributeName, v) \<in> set sample_item.
      spec_value v \<noteq> None \<and> (\<forall>f. v = VFloat64 f \<longrightarrow> float_round_trip float_stdlib f)"
    by (simp add: sample_item_def valid_Time_def float)
  then have kinds': "\<forall>(attributeName, v) \<in> set ((''delta'', VInt64 (- 7)) # sample_item).
      spec_value v \<noteq> None \<and> (\<forall>f. v = VFloat64 f \<longrightarrow> float_round_trip float_stdlib f)"
    by simp
  have plain: "\<forall>attributeName w. (attributeName, VInt64 w) \<notin> set sample_item"
    by (simp add: sample_item_def)
  have canon: "map (\<lambda>(attributeName, v).
                     (attributeName, case v of VInt64 w \<Rightarrow> VInt w | _ \<Rightarrow> v)) sample_item
               = sample_item"
    by (simp add: sample_item_def)
  have kept: "map (spec_value \<circ> snd) sample_item
     = [Some (SInteger 30), Some (SFloat 0x3FF0000000000000), Some (SString ''foo''),
        Some (SBlob [CHR 0x00, CHR 0xFF, CHR ''a'', CHR ''b'']), Some (SBoolean True),
        Some (STimestamp 1600000000 5)]"
    by (simp add: sample_item_def valid_Time_def)
  from typed_attributes_round_trip [OF kinds] obtain typedAttributes decoded where
    item: "encodeTypedAttributes float_stdlib sample_item = Inr typedAttributes"
      "decodeTypedAttributes float_stdlib typedAttributes = Inr decoded"
      "(\<forall>attributeName w. (attributeName, VInt64 w) \<notin> set sample_item) \<longrightarrow>
         decoded = sample_item"
    by blast
  from item(3) plain have "decoded = sample_item"
    by (rule mp)
  with item(1,2)
  have a: "\<exists>typedAttributes.
      encodeTypedAttributes float_stdlib sample_item = Inr typedAttributes
      \<and> decodeTypedAttributes float_stdlib typedAttributes = Inr sample_item"
    by blast
  from typed_attributes_round_trip [OF kinds']
  have b: "\<exists>typedAttributes.
      encodeTypedAttributes float_stdlib ((''delta'', VInt64 (- 7)) # sample_item)
        = Inr typedAttributes
      \<and> decodeTypedAttributes float_stdlib typedAttributes
        = Inr ((''delta'', VInt (- 7)) # sample_item)"
    by (auto simp: canon)
  from a b kept show ?thesis
    by blast
qed

end
